theory Spec2Isabelle
  imports Complex_Main "HOL-Library.Monad_Syntax"
begin

section \<open>Numbers and tensors\<close>

text \<open>
  A tensor element is an extended real with a not-a-number value: the special values of
  IEEE arithmetic are kept (division by zero, comparisons with NaN), rounding is not.
  Zero is unsigned.
\<close>

datatype fl = Fin real | PInf | NInf | NaN

fun isnan :: "fl \<Rightarrow> bool" where
  "isnan NaN = True"
| "isnan _ = False"

text \<open>Comparisons: every comparison with NaN is false.\<close>

fun fle :: "fl \<Rightarrow> fl \<Rightarrow> bool" where
  "fle NaN _ = False"
| "fle _ NaN = False"
| "fle NInf _ = True"
| "fle _ PInf = True"
| "fle (Fin a) (Fin b) = (a \<le> b)"
| "fle _ _ = False"

fun flt :: "fl \<Rightarrow> fl \<Rightarrow> bool" where
  "flt NaN _ = False"
| "flt _ NaN = False"
| "flt PInf _ = False"
| "flt _ NInf = False"
| "flt (Fin a) (Fin b) = (a < b)"
| "flt _ _ = True"

definition fge :: "fl \<Rightarrow> fl \<Rightarrow> bool" where
  "fge a b = fle b a"

definition fgt :: "fl \<Rightarrow> fl \<Rightarrow> bool" where
  "fgt a b = flt b a"

definition feq :: "fl \<Rightarrow> fl \<Rightarrow> bool" where
  "feq a b = (\<not> isnan a \<and> a = b)"

fun fabs :: "fl \<Rightarrow> fl" where
  "fabs (Fin a) = Fin \<bar>a\<bar>"
| "fabs PInf = PInf"
| "fabs NInf = PInf"
| "fabs NaN = NaN"

fun fadd :: "fl \<Rightarrow> fl \<Rightarrow> fl" where
  "fadd NaN _ = NaN"
| "fadd _ NaN = NaN"
| "fadd PInf NInf = NaN"
| "fadd NInf PInf = NaN"
| "fadd PInf _ = PInf"
| "fadd _ PInf = PInf"
| "fadd NInf _ = NInf"
| "fadd _ NInf = NInf"
| "fadd (Fin a) (Fin b) = Fin (a + b)"

definition inf_of_sign :: "bool \<Rightarrow> fl" where
  "inf_of_sign pos = (if pos then PInf else NInf)"

fun fmul :: "fl \<Rightarrow> fl \<Rightarrow> fl" where
  "fmul NaN _ = NaN"
| "fmul _ NaN = NaN"
| "fmul (Fin a) (Fin b) = Fin (a * b)"
| "fmul (Fin a) PInf = (if a = 0 then NaN else inf_of_sign (0 < a))"
| "fmul (Fin a) NInf = (if a = 0 then NaN else inf_of_sign (a < 0))"
| "fmul PInf (Fin b) = (if b = 0 then NaN else inf_of_sign (0 < b))"
| "fmul NInf (Fin b) = (if b = 0 then NaN else inf_of_sign (b < 0))"
| "fmul PInf PInf = PInf"
| "fmul NInf NInf = PInf"
| "fmul PInf NInf = NInf"
| "fmul NInf PInf = NInf"

fun fdiv :: "fl \<Rightarrow> fl \<Rightarrow> fl" where
  "fdiv NaN _ = NaN"
| "fdiv _ NaN = NaN"
| "fdiv (Fin a) (Fin b) =
     (if b \<noteq> 0 then Fin (a / b) else if a = 0 then NaN else inf_of_sign (0 < a))"
| "fdiv (Fin a) _ = Fin 0"
| "fdiv PInf (Fin b) = inf_of_sign (0 \<le> b)"
| "fdiv NInf (Fin b) = inf_of_sign (b < 0)"
| "fdiv _ _ = NaN"

fun fmax :: "fl \<Rightarrow> fl \<Rightarrow> fl" where
  "fmax NaN _ = NaN"
| "fmax _ NaN = NaN"
| "fmax a b = (if fle a b then b else a)"

text \<open>\<open>torch.exp\<close>, \<open>torch.log\<close>, \<open>torch.sqrt\<close>, \<open>torch.sigmoid\<close>.\<close>

fun fexp :: "fl \<Rightarrow> fl" where
  "fexp (Fin a) = Fin (exp a)"
| "fexp PInf = PInf"
| "fexp NInf = Fin 0"
| "fexp NaN = NaN"

fun flog :: "fl \<Rightarrow> fl" where
  "flog (Fin a) = (if 0 < a then Fin (ln a) else if a = 0 then NInf else NaN)"
| "flog PInf = PInf"
| "flog _ = NaN"

fun fsqrt :: "fl \<Rightarrow> fl" where
  "fsqrt (Fin a) = (if 0 \<le> a then Fin (sqrt a) else NaN)"
| "fsqrt PInf = PInf"
| "fsqrt _ = NaN"

text \<open>
  \<open>sigmoid\<close> is the real function, as the other operations are: at a finite argument its
  value lies strictly between 0 and 1, where 32-bit arithmetic returns exactly 0 or 1 once
  the argument is large. Of \<open>sigmoid\<close> the properties below use that it is never negative,
  which rounding keeps, and its value at the arguments of the examples.
\<close>

fun sigmoid :: "fl \<Rightarrow> fl" where
  "sigmoid (Fin a) = Fin (1 / (1 + exp (- a)))"
| "sigmoid PInf = Fin 1"
| "sigmoid NInf = Fin 0"
| "sigmoid NaN = NaN"

text \<open>
  A tensor of shape \<open>(N, d\<^sub>1, \<dots>)\<close> is the list of its \<open>N\<close> rows, each row the
  row-major flattening of the trailing axes. A tensor of shape \<open>(N, 1)\<close> that is not an
  optimizer parameter, and a tensor of shape \<open>(N)\<close>, is the list of its \<open>N\<close> entries.
\<close>

type_synonym tensor = "fl list list"

definition zeros_like :: "tensor \<Rightarrow> tensor" where
  "zeros_like t = map (map (\<lambda>_. Fin 0)) t"

text \<open>
  \<open>t[mask]\<close> for a boolean mask over the first axis: the rows where the mask is true, in
  order; an IndexError when the mask's length is not the tensor's.
\<close>

definition index_mask :: "'a list \<Rightarrow> bool list \<Rightarrow> 'a list option" where
  "index_mask t msk =
     (if length msk = length t then Some (map fst (filter snd (zip t msk))) else None)"

text \<open>
  \<open>m.squeeze()\<close> of a boolean tensor of shape \<open>(N, 1)\<close>: a one-axis mask of \<open>N\<close> entries,
  but a 0-dim boolean when \<open>N = 1\<close>.
\<close>

datatype squeezed = Scalar bool | Vector "bool list"

definition squeeze :: "bool list \<Rightarrow> squeezed" where
  "squeeze m = (case m of [b] \<Rightarrow> Scalar b | _ \<Rightarrow> Vector m)"

fun invert :: "squeezed \<Rightarrow> squeezed" where
  "invert (Scalar b) = Scalar (\<not> b)"
| "invert (Vector m) = Vector (map Not m)"

text \<open>
  \<open>t[mask]\<close> for either kind of mask. A 0-dim mask has no length to compare: it keeps the
  tensor whole or drops it whole, under a new first axis of length one or zero (the model
  keeps the rows, which is exact for the one-row tensors that squeeze to a 0-dim mask; the
  new axis is counted in the store).
\<close>

fun index_any :: "'a list \<Rightarrow> squeezed \<Rightarrow> 'a list option" where
  "index_any t (Vector m) = index_mask t m"
| "index_any t (Scalar b) = Some (if b then t else [])"

text \<open>Elementwise operations on two one-axis tensors broadcast a length-one operand.\<close>

definition broadcast2 :: "('a \<Rightarrow> 'b \<Rightarrow> 'c) \<Rightarrow> 'a list \<Rightarrow> 'b list \<Rightarrow> 'c list option" where
  "broadcast2 f xs ys =
     (if length xs = length ys then Some (map2 f xs ys)
      else if length xs = 1 then Some (map (f (hd xs)) ys)
      else if length ys = 1 then Some (map (\<lambda>x. f x (hd ys)) xs)
      else None)"

definition logical_and :: "bool list \<Rightarrow> bool list \<Rightarrow> bool list option" where
  "logical_and = broadcast2 (\<and>)"

definition logical_or :: "bool list \<Rightarrow> bool list \<Rightarrow> bool list option" where
  "logical_or = broadcast2 (\<or>)"

text \<open>\<open>torch.max(t, dim=1).values\<close>: the maximum of each row; NaN wins; no maximum of an empty row.\<close>

definition row_max :: "fl list \<Rightarrow> fl option" where
  "row_max r = (case r of [] \<Rightarrow> None | x # xs \<Rightarrow> Some (fold fmax xs x))"

fun max_dim1 :: "tensor \<Rightarrow> fl list option" where
  "max_dim1 [] = Some []"
| "max_dim1 (r # rs) = do { m \<leftarrow> row_max r; ms \<leftarrow> max_dim1 rs; Some (m # ms) }"

text \<open>\<open>t.repeat(N, 1)\<close>: the block of rows, \<open>N\<close> times over.\<close>

definition repeat :: "nat \<Rightarrow> 'a list \<Rightarrow> 'a list" where
  "repeat n t = concat (replicate n t)"

section \<open>The optimizer\<close>

text \<open>
  One parameter group of the Adam optimizer: its name, learning rate, its single parameter
  tensor, and the moments \<open>(exp_avg, exp_avg_sq)\<close> the optimizer holds for that parameter,
  absent until the first optimizer step.
\<close>

record param_group =
  name :: string
  lr :: fl
  params :: tensor
  stored_state :: "(tensor \<times> tensor) option"

text \<open>The dictionary of resized tensors a resizing pass returns: the last group of a name wins.\<close>

definition optimizable_tensors :: "param_group list \<Rightarrow> (string \<rightharpoonup> tensor)" where
  "optimizable_tensors gs =
     fold (\<lambda>g m. if name g = ''scene_scale'' then m else m(name g \<mapsto> params g)) gs Map.empty"

text \<open>The body of the loop of \<open>_prune_optimizer\<close> for one group.\<close>

definition prune_group :: "squeezed \<Rightarrow> param_group \<Rightarrow> param_group option" where
  "prune_group msk g =
     (if name g = ''scene_scale'' then Some g
      else case stored_state g of
        Some (exp_avg, exp_avg_sq) \<Rightarrow> do {
          ea \<leftarrow> index_any exp_avg msk;
          eas \<leftarrow> index_any exp_avg_sq msk;
          p \<leftarrow> index_any (params g) msk;
          Some (g\<lparr>params := p, stored_state := Some (ea, eas)\<rparr>) }
      | None \<Rightarrow> do {
          p \<leftarrow> index_any (params g) msk;
          Some (g\<lparr>params := p\<rparr>) })"

fun prune_optimizer :: "squeezed \<Rightarrow> param_group list \<Rightarrow> param_group list option" where
  "prune_optimizer msk [] = Some []"
| "prune_optimizer msk (g # gs) =
     do { g' \<leftarrow> prune_group msk g; gs' \<leftarrow> prune_optimizer msk gs; Some (g' # gs') }"

text \<open>The body of the loop of \<open>cat_tensors_to_optimizer\<close> for one group.\<close>

definition cat_group :: "(string \<rightharpoonup> tensor) \<Rightarrow> param_group \<Rightarrow> param_group option" where
  "cat_group tensors_dict g =
     (if name g = ''scene_scale'' then Some g
      else do {
        extension_tensor \<leftarrow> tensors_dict (name g);
        (case stored_state g of
           Some (exp_avg, exp_avg_sq) \<Rightarrow>
             Some (g\<lparr>params := params g @ extension_tensor,
                     stored_state := Some (exp_avg @ zeros_like extension_tensor,
                                           exp_avg_sq @ zeros_like extension_tensor)\<rparr>)
         | None \<Rightarrow> Some (g\<lparr>params := params g @ extension_tensor\<rparr>)) })"

fun cat_tensors_to_optimizer ::
  "(string \<rightharpoonup> tensor) \<Rightarrow> param_group list \<Rightarrow> param_group list option" where
  "cat_tensors_to_optimizer d [] = Some []"
| "cat_tensors_to_optimizer d (g # gs) =
     do { g' \<leftarrow> cat_group d g; gs' \<leftarrow> cat_tensors_to_optimizer d gs; Some (g' # gs') }"


section \<open>The primitive store\<close>

text \<open>
  The value of \<open>_normal\<close>: the empty torch tensor of the constructor, the \<open>None\<close> that
  \<open>computeNormal\<close> returns, or the numpy array of estimated normals.
\<close>

datatype normal_value = TorchTensor tensor | PyNone | NumpyArray tensor

text \<open>
  The fields of \<open>GaussianModel\<close> (without the leading underscores; \<open>_type\<close> is
  \<open>ptype\<close>). The six optimizable arrays are held twice, as the source holds them: as
  fields of the model and as the parameters of the optimizer's groups. The per-primitive
  arrays are held as their rows; \<open>extra_axes\<close> is the part of their shape that the rows do
  not show: the number of unit axes that indexing by a 0-dim mask has put in front of them
  (zero after \<open>create_from_pcd\<close> and \<open>load_ply\<close>).
\<close>

record gaussian_model =
  active_sh_degree :: nat
  max_sh_degree :: nat
  normal :: normal_value
  score :: "fl list"
  ptype :: "fl list"
  scene_scale :: tensor
  xyz :: tensor
  xyz_id :: "nat list"
  modify_id :: "nat list"
  features_dc :: tensor
  features_rest :: tensor
  scaling :: tensor
  rotation :: tensor
  opacity :: tensor
  max_radii2D :: "fl list"
  xyz_gradient_accum :: "fl list"
  position_gradient_accum :: tensor
  denom :: "fl list"
  optimizer :: "param_group list option"
  percent_dense :: fl
  spatial_lr_scale :: fl
  extra_axes :: nat

text \<open>
  The fields of \<open>training_args\<close> that \<open>training_setup\<close> reads for the optimizer. (The
  learning-rate schedule of the positions is left out: no resizing operation reads it.)
\<close>

record training_args =
  arg_percent_dense :: fl
  arg_scene_scale_lr_init :: fl
  arg_position_lr_init :: fl
  arg_feature_lr :: fl
  arg_opacity_lr :: fl
  arg_scaling_lr :: fl
  arg_rotation_lr :: fl

definition training_setup :: "training_args \<Rightarrow> gaussian_model \<Rightarrow> gaussian_model" where
  "training_setup training_args s =
     s\<lparr>percent_dense := arg_percent_dense training_args,
       xyz_gradient_accum := replicate (length (xyz s)) (Fin 0),
       position_gradient_accum := replicate (length (xyz s)) [Fin 0, Fin 0, Fin 0],
       denom := replicate (length (xyz s)) (Fin 0),
       optimizer := Some
         [\<lparr>name = ''scene_scale'', lr = arg_scene_scale_lr_init training_args,
           params = scene_scale s, stored_state = None\<rparr>,
          \<lparr>name = ''xyz'', lr = fmul (arg_position_lr_init training_args) (spatial_lr_scale s),
           params = xyz s, stored_state = None\<rparr>,
          \<lparr>name = ''f_dc'', lr = arg_feature_lr training_args,
           params = features_dc s, stored_state = None\<rparr>,
          \<lparr>name = ''f_rest'', lr = fdiv (arg_feature_lr training_args) (Fin 20),
           params = features_rest s, stored_state = None\<rparr>,
          \<lparr>name = ''opacity'', lr = arg_opacity_lr training_args,
           params = opacity s, stored_state = None\<rparr>,
          \<lparr>name = ''scaling'', lr = arg_scaling_lr training_args,
           params = scaling s, stored_state = None\<rparr>,
          \<lparr>name = ''rotation'', lr = arg_rotation_lr training_args,
           params = rotation s, stored_state = None\<rparr>]\<rparr>"

text \<open>
  \<open>add_densification_stats\<close>: for the primitives of \<open>update_filter\<close>, the norm of the
  first two components of the screen-space gradient is added to \<open>xyz_gradient_accum\<close>, the
  gradient of the position to \<open>position_gradient_accum\<close>, and one to \<open>denom\<close>.
\<close>

definition norm2 :: "fl list \<Rightarrow> fl" where
  "norm2 v = fsqrt (fold fadd (map (\<lambda>x. fmul x x) (take 2 v)) (Fin 0))"

definition masked_update :: "('a \<Rightarrow> 'b \<Rightarrow> 'a) \<Rightarrow> 'a list \<Rightarrow> bool list \<Rightarrow> 'b list \<Rightarrow> 'a list option" where
  "masked_update f acc update_filter vals =
     (if length update_filter = length acc \<and> length vals = length acc
      then Some (map (\<lambda>(a, b, v). if b then f a v else a) (zip acc (zip update_filter vals)))
      else None)"

definition add_densification_stats ::
  "tensor \<Rightarrow> tensor \<Rightarrow> bool list \<Rightarrow> gaussian_model \<Rightarrow> gaussian_model option" where
  "add_densification_stats viewspace_grad xyz_grad update_filter s = do {
     xga \<leftarrow> masked_update (\<lambda>a g. fadd a (norm2 g)) (xyz_gradient_accum s) update_filter
              viewspace_grad;
     pga \<leftarrow> masked_update (map2 fadd) (position_gradient_accum s) update_filter xyz_grad;
     den \<leftarrow> masked_update (\<lambda>a _. fadd a (Fin 1)) (denom s) update_filter xyz_grad;
     Some (s\<lparr>xyz_gradient_accum := xga, position_gradient_accum := pga, denom := den\<rparr>) }"

definition get_scaling :: "gaussian_model \<Rightarrow> tensor" where
  "get_scaling s = map (map fexp) (scaling s)"

definition get_opacity :: "gaussian_model \<Rightarrow> tensor" where
  "get_opacity s = map (map sigmoid) (opacity s)"

definition reset_xyz_id :: "gaussian_model \<Rightarrow> gaussian_model" where
  "reset_xyz_id s = s\<lparr>xyz_id := [0..<length (xyz s)]\<rparr>"

definition prune_points :: "squeezed \<Rightarrow> gaussian_model \<Rightarrow> gaussian_model option" where
  "prune_points msk s = do {
     let valid_points_mask = invert msk;
     groups \<leftarrow> optimizer s;
     groups' \<leftarrow> prune_optimizer valid_points_mask groups;
     let ot = optimizable_tensors groups';
     new_xyz \<leftarrow> ot ''xyz'';
     new_f_dc \<leftarrow> ot ''f_dc'';
     new_f_rest \<leftarrow> ot ''f_rest'';
     new_opacity \<leftarrow> ot ''opacity'';
     new_scaling \<leftarrow> ot ''scaling'';
     new_rotation \<leftarrow> ot ''rotation'';
     xga \<leftarrow> index_any (xyz_gradient_accum s) valid_points_mask;
     pga \<leftarrow> index_any (position_gradient_accum s) valid_points_mask;
     den \<leftarrow> index_any (denom s) valid_points_mask;
     radii \<leftarrow> index_any (max_radii2D s) valid_points_mask;
     sc \<leftarrow> index_any (score s) valid_points_mask;
     ids \<leftarrow> index_any (xyz_id s) valid_points_mask;
     ty \<leftarrow> index_any (ptype s) valid_points_mask;
     Some (s\<lparr>optimizer := Some groups',
             xyz := new_xyz, features_dc := new_f_dc, features_rest := new_f_rest,
             opacity := new_opacity, scaling := new_scaling, rotation := new_rotation,
             xyz_gradient_accum := xga, position_gradient_accum := pga, denom := den,
             max_radii2D := radii, score := sc, xyz_id := ids, ptype := ty,
             extra_axes := (case msk of Vector _ \<Rightarrow> extra_axes s
                            | Scalar _ \<Rightarrow> Suc (extra_axes s))\<rparr>) }"

definition densification_postfix ::
  "tensor \<Rightarrow> tensor \<Rightarrow> tensor \<Rightarrow> tensor \<Rightarrow> tensor \<Rightarrow> tensor \<Rightarrow> fl list \<Rightarrow> nat list \<Rightarrow> fl list
   \<Rightarrow> gaussian_model \<Rightarrow> gaussian_model option" where
  "densification_postfix new_xyz new_features_dc new_features_rest new_opacities new_scaling
     new_rotation new_score new_xyz_id new_type s = do {
     let d = [''xyz'' \<mapsto> new_xyz, ''f_dc'' \<mapsto> new_features_dc, ''f_rest'' \<mapsto> new_features_rest,
              ''opacity'' \<mapsto> new_opacities, ''scaling'' \<mapsto> new_scaling,
              ''rotation'' \<mapsto> new_rotation];
     groups \<leftarrow> optimizer s;
     groups' \<leftarrow> cat_tensors_to_optimizer d groups;
     let ot = optimizable_tensors groups';
     xyz' \<leftarrow> ot ''xyz'';
     f_dc' \<leftarrow> ot ''f_dc'';
     f_rest' \<leftarrow> ot ''f_rest'';
     opacity' \<leftarrow> ot ''opacity'';
     scaling' \<leftarrow> ot ''scaling'';
     rotation' \<leftarrow> ot ''rotation'';
     let n = length xyz';
     Some (s\<lparr>optimizer := Some groups',
             xyz := xyz', features_dc := f_dc', features_rest := f_rest',
             opacity := opacity', scaling := scaling', rotation := rotation',
             xyz_gradient_accum := replicate n (Fin 0),
             position_gradient_accum := replicate n [Fin 0, Fin 0, Fin 0],
             denom := replicate n (Fin 0),
             max_radii2D := replicate n (Fin 0),
             score := score s @ new_score,
             xyz_id := xyz_id s @ new_xyz_id,
             ptype := ptype s @ new_type\<rparr>) }"

text \<open>
  \<open>new_xyz[mask] += v\<close>: the rows of \<open>new_xyz\<close> where the mask is true receive the rows of
  \<open>v\<close>, in order; the mask has one entry per row and \<open>v\<close> one row per true entry.
\<close>

fun masked_iadd :: "tensor \<Rightarrow> bool list \<Rightarrow> tensor \<Rightarrow> tensor option" where
  "masked_iadd [] [] [] = Some []"
| "masked_iadd (x # xs) (True # ms) (v # vs) =
     map_option ((#) (map2 fadd x v)) (masked_iadd xs ms vs)"
| "masked_iadd (x # xs) (False # ms) vs = map_option ((#) x) (masked_iadd xs ms vs)"
| "masked_iadd _ _ _ = None"

text \<open>
  With a 0-dim mask \<open>b\<close> the left side \<open>new_xyz[b]\<close> is \<open>new_xyz\<close> under a new first axis
  of length one (\<open>b\<close> true) or zero (\<open>b\<close> false), and the in-place addition broadcasts
  \<open>v\<close> against the old first axis: \<open>v\<close> needs as many rows as \<open>new_xyz\<close>, or one row;
  anything else is a RuntimeError.
\<close>

fun iadd_at :: "tensor \<Rightarrow> squeezed \<Rightarrow> tensor \<Rightarrow> tensor option" where
  "iadd_at x (Vector m) v = masked_iadd x m v"
| "iadd_at x (Scalar b) v =
     (if length v = length x then Some (if b then map2 (map2 fadd) x v else x)
      else if length v = 1 then Some (if b then map (\<lambda>r. map2 fadd r (hd v)) x else x)
      else None)"

text \<open>
  In \<open>densify_and_clone\<close> and \<open>densify_and_split\<close> the masks are built for arrays of shape
  \<open>(N, d)\<close>. On arrays with an axis put in front of the rows the mask that is built does
  not have the shape of the leading axes of \<open>_xyz\<close> (or does not broadcast), and the first
  indexing raises: both passes fail on a store with \<open>extra_axes\<close> other than zero.
\<close>

definition densify_and_clone :: "fl list \<Rightarrow> fl \<Rightarrow> fl \<Rightarrow> gaussian_model \<Rightarrow> gaussian_model option" where
  "densify_and_clone grads grad_threshold scene_extent s =
   (if extra_axes s \<noteq> 0 then None else do {
     maxs \<leftarrow> max_dim1 (get_scaling s);
     selected_pts_mask \<leftarrow>
       logical_and (map (\<lambda>g. fge (fabs g) grad_threshold) grads)
                   (map (\<lambda>m. fle m (fmul (percent_dense s) scene_extent)) maxs);
     let xyz_lr = Fin 1;
     new_xyz \<leftarrow> index_mask (xyz s) selected_pts_mask;
     new_features_dc \<leftarrow> index_mask (features_dc s) selected_pts_mask;
     new_features_rest \<leftarrow> index_mask (features_rest s) selected_pts_mask;
     new_opacities \<leftarrow> index_mask (opacity s) selected_pts_mask;
     new_scaling \<leftarrow> index_mask (scaling s) selected_pts_mask;
     new_rotation \<leftarrow> index_mask (rotation s) selected_pts_mask;
     new_score \<leftarrow> index_mask (score s) selected_pts_mask;
     new_xyz_id \<leftarrow> index_mask (xyz_id s) selected_pts_mask;
     new_type \<leftarrow> index_mask (ptype s) selected_pts_mask;
     selected_pts_mask' \<leftarrow>
       logical_and selected_pts_mask (map (\<lambda>t. feq t (Fin 1)) (ptype s));
     pga \<leftarrow> index_mask (position_gradient_accum s) selected_pts_mask';
     den \<leftarrow> index_mask (denom s) selected_pts_mask';
     new_xyz' \<leftarrow> iadd_at new_xyz (squeeze (map (\<lambda>t. feq t (Fin 1)) new_type))
                   (map2 (\<lambda>p d. map (\<lambda>x. fdiv (fmul xyz_lr x) d) p) pga den);
     densification_postfix new_xyz' new_features_dc new_features_rest new_opacities new_scaling
       new_rotation new_score new_xyz_id new_type
       (s\<lparr>modify_id := modify_id s @ new_xyz_id\<rparr>) })"

text \<open>
  \<open>torch.normal(mean, std)\<close>: one draw per element. The draws of one call are a function
  of the element's position, its mean and its standard deviation.
\<close>

type_synonym sampler = "nat \<Rightarrow> nat \<Rightarrow> fl \<Rightarrow> fl \<Rightarrow> fl"

definition torch_normal :: "sampler \<Rightarrow> tensor \<Rightarrow> tensor \<Rightarrow> tensor" where
  "torch_normal smp means stds =
     map (\<lambda>(i, m, sd). map (\<lambda>(j, mu, sigma). smp i j mu sigma) (zip [0..<length sd] (zip m sd)))
         (zip [0..<length stds] (zip means stds))"

text \<open>\<open>torch.bmm(rots, samples.unsqueeze(-1)).squeeze(-1)\<close>: each matrix times its vector.\<close>

definition dot :: "fl list \<Rightarrow> fl list \<Rightarrow> fl" where
  "dot u v = fold fadd (map2 fmul u v) (Fin 0)"

definition bmm :: "tensor list \<Rightarrow> tensor \<Rightarrow> tensor" where
  "bmm ms vs = map2 (\<lambda>m v. map (\<lambda>row. dot row v) m) ms vs"

text \<open>\<open>padded_grad[:grads.shape[0]] = grads.squeeze()\<close> on \<open>n\<close> zeros.\<close>

definition padded_grad :: "nat \<Rightarrow> fl list \<Rightarrow> fl list option" where
  "padded_grad n grads =
     (if length grads \<le> n then Some (grads @ replicate (n - length grads) (Fin 0))
      else if length grads = 1 then Some []
      else None)"

text \<open>
  \<open>build_rotation\<close> (of \<open>utils.general_utils\<close>) is a parameter: the matrix, as its rows,
  of one quaternion.
\<close>

definition densify_and_split ::
  "(fl list \<Rightarrow> tensor) \<Rightarrow> sampler \<Rightarrow> fl list \<Rightarrow> fl \<Rightarrow> fl \<Rightarrow> nat \<Rightarrow> gaussian_model
   \<Rightarrow> gaussian_model option" where
  "densify_and_split build_rotation smp grads grad_threshold scene_extent N s =
   (if extra_axes s \<noteq> 0 then None else do {
     let n_init_points = length (xyz s);
     padded \<leftarrow> padded_grad n_init_points grads;
     maxs \<leftarrow> max_dim1 (get_scaling s);
     selected_pts_mask \<leftarrow>
       logical_and (map (\<lambda>g. fge g grad_threshold) padded)
                   (map (\<lambda>m. fgt m (fmul (percent_dense s) scene_extent)) maxs);
     sel_scaling \<leftarrow> index_mask (get_scaling s) selected_pts_mask;
     let stds = repeat N sel_scaling;
     let means = map (\<lambda>_. [Fin 0, Fin 0, Fin 0]) stds;
     let samples = torch_normal smp means stds;
     sel_rotation \<leftarrow> index_mask (rotation s) selected_pts_mask;
     let rots = repeat N (map build_rotation sel_rotation);
     sel_xyz \<leftarrow> index_mask (xyz s) selected_pts_mask;
     let new_xyz = map2 (map2 fadd) (bmm rots samples) (repeat N sel_xyz);
     let new_scaling = map (map (\<lambda>x. flog (fdiv x (Fin (0.8 * real N))))) (repeat N sel_scaling);
     let new_rotation = repeat N sel_rotation;
     sel_f_dc \<leftarrow> index_mask (features_dc s) selected_pts_mask;
     sel_f_rest \<leftarrow> index_mask (features_rest s) selected_pts_mask;
     sel_opacity \<leftarrow> index_mask (opacity s) selected_pts_mask;
     sel_score \<leftarrow> index_mask (score s) selected_pts_mask;
     sel_xyz_id \<leftarrow> index_mask (xyz_id s) selected_pts_mask;
     sel_type \<leftarrow> index_mask (ptype s) selected_pts_mask;
     s' \<leftarrow> densification_postfix new_xyz (repeat N sel_f_dc) (repeat N sel_f_rest)
             (repeat N sel_opacity) new_scaling new_rotation (repeat N sel_score)
             (repeat N sel_xyz_id) (repeat N sel_type)
             (s\<lparr>modify_id := modify_id s @ sel_xyz_id\<rparr>);
     let prune_filter =
       selected_pts_mask @ replicate (N * length (filter id selected_pts_mask)) False;
     prune_points (Vector prune_filter) s' })"

text \<open>The first two statements of \<open>densify_and_prune\<close>: the averaged gradient, NaN set to zero.\<close>

definition avg_grads :: "gaussian_model \<Rightarrow> fl list option" where
  "avg_grads s = do {
     grads \<leftarrow> broadcast2 fdiv (xyz_gradient_accum s) (denom s);
     Some (map (\<lambda>g. if isnan g then Fin 0 else g) grads) }"

text \<open>
  The pruning statements of \<open>densify_and_prune\<close>. \<open>max_screen_size\<close> is \<open>None\<close> or a
  number, and the test \<open>if max_screen_size:\<close> holds for a number other than zero. The
  opacity mask is squeezed: for a population of one it is a 0-dim boolean. With the two size
  tests it is broadcast to one axis again; without them it reaches \<open>prune_points\<close> as it
  is. On arrays with an axis in front of the rows the size tests give masks of more than one
  axis, which do not fit \<open>_xyz\<close>: the indexing raises.
\<close>

definition truthy :: "fl option \<Rightarrow> bool" where
  "truthy v = (case v of None \<Rightarrow> False | Some x \<Rightarrow> x \<noteq> Fin 0)"

definition prune_mask_of :: "fl \<Rightarrow> fl \<Rightarrow> fl option \<Rightarrow> gaussian_model \<Rightarrow> squeezed option" where
  "prune_mask_of min_opacity extent max_screen_size s = do {
     let prune_mask = concat (map (map (\<lambda>x. flt x min_opacity)) (get_opacity s));
     if truthy max_screen_size then
       (if extra_axes s \<noteq> 0 then None else do {
          let big_points_vs = map (\<lambda>r. fgt r (the max_screen_size)) (max_radii2D s);
          maxs \<leftarrow> max_dim1 (get_scaling s);
          let big_points_ws = map (\<lambda>m. fgt m (fmul (Fin 0.1) extent)) maxs;
          m1 \<leftarrow> logical_or prune_mask big_points_vs;
          m2 \<leftarrow> logical_or m1 big_points_ws;
          Some (Vector m2) })
     else Some (squeeze prune_mask) }"

definition prune_pass :: "fl \<Rightarrow> fl \<Rightarrow> fl option \<Rightarrow> gaussian_model \<Rightarrow> gaussian_model option" where
  "prune_pass min_opacity extent max_screen_size s = do {
     prune_mask \<leftarrow> prune_mask_of min_opacity extent max_screen_size s;
     prune_points prune_mask s }"

text \<open>
  \<open>estimate_normals\<close> stands for Open3D's normal estimation over the positions (k = 9
  nearest neighbours), a parameter. The positions are handed to Open3D as an array of points:
  an array of shape \<open>(N, 3)\<close> or an empty array is taken, an array of shape \<open>(1, 1, 3)\<close>
  raises.
\<close>

definition densify_and_prune ::
  "(fl list \<Rightarrow> tensor) \<Rightarrow> sampler \<Rightarrow> (tensor \<Rightarrow> tensor) \<Rightarrow> fl \<Rightarrow> fl \<Rightarrow> fl \<Rightarrow> fl option
   \<Rightarrow> gaussian_model \<Rightarrow> gaussian_model option" where
  "densify_and_prune build_rotation smp estimate_normals max_grad min_opacity extent
     max_screen_size s = do {
     grads \<leftarrow> avg_grads s;
     let s0 = (reset_xyz_id s)\<lparr>modify_id := []\<rparr>;
     s1 \<leftarrow> densify_and_clone grads max_grad extent s0;
     s2 \<leftarrow> densify_and_split build_rotation smp grads max_grad extent 2 s1;
     s3 \<leftarrow> prune_pass min_opacity extent max_screen_size s2;
     if extra_axes s3 \<noteq> 0 \<and> xyz s3 \<noteq> [] then None
     else Some (s3\<lparr>normal := NumpyArray (estimate_normals (xyz s3))\<rparr>) }"

section \<open>Initialisation from a point cloud\<close>

text \<open>The constructor: every array is the empty tensor, and there is no optimizer.\<close>

definition init :: "nat \<Rightarrow> gaussian_model" where
  "init sh_degree =
     \<lparr>active_sh_degree = 0, max_sh_degree = sh_degree, normal = TorchTensor [],
      score = [], ptype = [], scene_scale = [], xyz = [], xyz_id = [], modify_id = [],
      features_dc = [], features_rest = [], scaling = [], rotation = [], opacity = [],
      max_radii2D = [], xyz_gradient_accum = [], position_gradient_accum = [], denom = [],
      optimizer = None, percent_dense = Fin 0, spatial_lr_scale = Fin 0, extra_axes = 0\<rparr>"

text \<open>
  The point cloud that \<open>create_from_pcd\<close> reads: points, colors and normals are arrays of
  three columns, held as lists of triples; \<open>types\<close> is the column of shape \<open>(M, 1)\<close> that
  becomes \<open>_type\<close>.
\<close>

type_synonym vec3 = "fl \<times> fl \<times> fl"

record basic_point_cloud =
  points :: "vec3 list"
  colors :: "vec3 list"
  normals :: "vec3 list"
  types :: "fl list"

definition row3 :: "vec3 \<Rightarrow> fl list" where
  "row3 v = (case v of (a, b, c) \<Rightarrow> [a, b, c])"

fun fneg :: "fl \<Rightarrow> fl" where
  "fneg (Fin a) = Fin (- a)"
| "fneg PInf = NInf"
| "fneg NInf = PInf"
| "fneg NaN = NaN"

definition fsub :: "fl \<Rightarrow> fl \<Rightarrow> fl" where
  "fsub a b = fadd a (fneg b)"

text \<open>\<open>torch.clamp(x, lo, hi)\<close>: NaN stays NaN.\<close>

definition fclamp :: "fl \<Rightarrow> fl \<Rightarrow> fl \<Rightarrow> fl" where
  "fclamp lo hi x = (if isnan x then NaN else if flt x lo then lo else if fgt x hi then hi else x)"

text \<open>\<open>v / torch.norm(v, p=2, dim=1, keepdim=True)\<close> on one row.\<close>

definition normalize3 :: "vec3 \<Rightarrow> vec3" where
  "normalize3 v = (case v of (a, b, c) \<Rightarrow>
     let n = fsqrt (fadd (fadd (fmul a a) (fmul b b)) (fmul c c))
     in (fdiv a n, fdiv b n, fdiv c n))"

text \<open>
  The matrix of one point: the three directions are its columns
  (\<open>rotations[:, :, 0] = directions_x\<close> and so on).
\<close>

definition frame :: "vec3 \<Rightarrow> vec3 \<Rightarrow> vec3 \<Rightarrow> tensor" where
  "frame dx dy d = (case (dx, dy, d) of ((x0, x1, x2), (y0, y1, y2), (d0, d1, d2)) \<Rightarrow>
     [[x0, y0, d0], [x1, y1, d1], [x2, y2, d2]])"

text \<open>
  \<open>rots[:, 0] = quats[:, 3]; rots[:, 1:4] = quats[:, 0:3]\<close> into the \<open>n\<close> rows of zeros:
  the quaternions \<open>(x, y, z, w)\<close> are stored as \<open>(w, x, y, z)\<close>; as many quaternions as
  rows, or one that is broadcast, and a RuntimeError otherwise.
\<close>

definition assign_quats :: "nat \<Rightarrow> (fl \<times> fl \<times> fl \<times> fl) list \<Rightarrow> tensor option" where
  "assign_quats n quats =
     (let rows = map (\<lambda>(x, y, z, w). [w, x, y, z]) quats
      in if length rows = n then Some rows
         else if length rows = 1 then Some (replicate n (hd rows))
         else None)"

text \<open>
  \<open>scales[:, 2][mask] = scales[:, 1][mask]\<close>: the third column takes the second where the
  mask holds. A mask of one axis needs the length of the column (IndexError otherwise); a
  0-dim mask selects the whole column or nothing.
\<close>

fun third_from_second :: "squeezed \<Rightarrow> tensor \<Rightarrow> tensor option" where
  "third_from_second (Vector m) sc =
     (if length m = length sc then Some (map2 (\<lambda>b r. if b then r[2 := r ! 1] else r) m sc)
      else None)"
| "third_from_second (Scalar b) sc = Some (if b then map (\<lambda>r. r[2 := r ! 1]) sc else sc)"

text \<open>\<open>computeNormal\<close> returns \<open>None\<close> in its first statement.\<close>

definition computeNormal :: "gaussian_model \<Rightarrow> normal_value" where
  "computeNormal s = PyNone"

text \<open>
  \<open>create_from_pcd\<close>. Parameters, for what is not in the class: \<open>distCUDA2\<close> (the mean
  squared distance of each point to its nearest neighbours, one entry per point),
  \<open>cross\<close> (\<open>torch.cross\<close> without \<open>dim\<close>, of the shape of its arguments), \<open>as_quat\<close>
  (scipy's \<open>Rotation.from_matrix(m).as_quat()\<close> of one matrix) and \<open>inverse_sigmoid\<close>.
  \<open>RGB2SH\<close> keeps the shape of the colors, of which only the number of rows is read: the
  color features are all zero. With \<open>K = (max_sh_degree + 1)\<^sup>2\<close>, \<open>_features_dc\<close> has shape
  \<open>(N, 1, 3)\<close> and \<open>_features_rest\<close> shape \<open>(N, K - 1, 3)\<close>. Every array that is assigned
  has its rows on the first axis.
\<close>

definition create_from_pcd ::
  "(vec3 list \<Rightarrow> fl list) \<Rightarrow> (vec3 list \<Rightarrow> vec3 list \<Rightarrow> vec3 list) \<Rightarrow>
   (tensor \<Rightarrow> fl \<times> fl \<times> fl \<times> fl) \<Rightarrow> (fl \<Rightarrow> fl) \<Rightarrow>
   basic_point_cloud \<Rightarrow> fl \<Rightarrow> gaussian_model \<Rightarrow> gaussian_model option" where
  "create_from_pcd distCUDA2 cross as_quat inverse_sigmoid pcd lr_scale s = do {
     let fused_point_cloud = map row3 (points pcd);
     let n = length fused_point_cloud;
     let coeffs = (max_sh_degree s + 1) ^ 2;
     let dist2 = map (fclamp (Fin 0.0000001) (Fin 0.01)) (distCUDA2 (points pcd));
     let scales = map (\<lambda>d. [flog (fsqrt (fdiv d (Fin 2))), flog (fsqrt (fdiv d (Fin 2))),
                              flog (Fin 0.001)]) dist2;
     let directions = normals pcd;
     let directions_x = cross directions
           (map (\<lambda>(a, b, c). (fsub (Fin 1) a, fsub (Fin 1) b, fsub (Fin 1) c)) directions);
     let directions_x = map normalize3 directions_x;
     let directions_y = cross directions directions_x;
     let rotations = map (\<lambda>(dx, dy, d). frame dx dy d)
                         (zip directions_x (zip directions_y directions));
     rots \<leftarrow> assign_quats n (map as_quat rotations);
     let opacities = replicate n [inverse_sigmoid (fmul (Fin 0.4) (Fin 1))];
     let type_point_maks = squeeze (map (\<lambda>t. feq t (Fin 0)) (types pcd));
     scales' \<leftarrow> third_from_second type_point_maks scales;
     let s' = reset_xyz_id
       (s\<lparr>spatial_lr_scale := lr_scale,
          ptype := types pcd,
          scene_scale := [[Fin 1]],
          xyz := fused_point_cloud,
          features_dc := replicate (length (colors pcd)) [Fin 0, Fin 0, Fin 0],
          features_rest := replicate (length (colors pcd)) (replicate (3 * (coeffs - 1)) (Fin 0)),
          scaling := scales',
          rotation := rots,
          opacity := opacities,
          max_radii2D := replicate n (Fin 0),
          extra_axes := 0\<rparr>);
     Some (s'\<lparr>normal := computeNormal s', score := map fsqrt dist2\<rparr>) }"

section \<open>Saving\<close>

text \<open>
  The file that \<open>save_ply\<close> writes: one element, the names of its properties in order
  and, per vertex, one value for each property (every property is \<open>f4\<close>; values are not
  rounded here). Creating the directory and writing the file are taken to succeed.
\<close>

record ply_data =
  properties :: "string list"
  vertices :: tensor

text \<open>\<open>'{}'.format(i)\<close> for a natural number: its decimal digits.\<close>

fun string_of_nat :: "nat \<Rightarrow> string" where
  "string_of_nat n = (if n < 10 then [''0123456789'' ! n]
                      else string_of_nat (n div 10) @ [''0123456789'' ! (n mod 10)])"

declare string_of_nat.simps [simp del]

text \<open>
  The product of the trailing axes of an array, which a row shows by its length. An array
  without rows has the trailing shape that the class gives the field, \<open>d\<close> entries.
\<close>

definition width :: "nat \<Rightarrow> tensor \<Rightarrow> nat" where
  "width d t = (case t of [] \<Rightarrow> d | r # _ \<Rightarrow> length r)"

definition construct_list_of_attributes :: "gaussian_model \<Rightarrow> string list" where
  "construct_list_of_attributes s =
     [''x'', ''y'', ''z'', ''nx'', ''ny'', ''nz'']
     @ map (\<lambda>i. ''f_dc_'' @ string_of_nat i) [0..<width 3 (features_dc s)]
     @ map (\<lambda>i. ''f_rest_'' @ string_of_nat i)
           [0..<width (3 * ((max_sh_degree s + 1) ^ 2 - 1)) (features_rest s)]
     @ [''opacity'']
     @ map (\<lambda>i. ''scale_'' @ string_of_nat i) [0..<width 3 (scaling s)]
     @ map (\<lambda>i. ''rot_'' @ string_of_nat i) [0..<width 4 (rotation s)]
     @ [''type'']"

text \<open>
  \<open>t.transpose(1, 2).flatten(start_dim=1)\<close> on one row of a color-feature array, whose
  last axis has length 3: the row of shape \<open>(a, 3)\<close> is read column by column.
\<close>

definition transpose_flatten :: "fl list \<Rightarrow> fl list" where
  "transpose_flatten r =
     concat (map (\<lambda>c. map (\<lambda>j. r ! (j * 3 + c)) [0..<length r div 3]) [0..<3])"

text \<open>
  \<open>save_ply\<close>. \<open>torch.from_numpy\<close> raises a TypeError unless \<open>_normal\<close> is a numpy array.
  \<open>np.concatenate(..., axis=1)\<close> raises unless the eight arrays have two axes and one
  number of rows, and the assignment of the rows to the structured array raises unless
  each row has one value per property.
\<close>

definition save_ply :: "gaussian_model \<Rightarrow> ply_data option" where
  "save_ply s =
     (case normal s of
        NumpyArray normals' \<Rightarrow>
          (let n = length (xyz s);
               f_dc = map transpose_flatten (features_dc s);
               f_rest = map transpose_flatten (features_rest s);
               dtype_full = construct_list_of_attributes s
           in if extra_axes s \<noteq> 0 then None
              else if \<not> (length normals' = n \<and> length f_dc = n \<and> length f_rest = n \<and>
                          length (opacity s) = n \<and> length (scaling s) = n \<and>
                          length (rotation s) = n \<and> length (ptype s) = n)
              then None
              else
                (let attributes =
                       map (\<lambda>i. xyz s ! i @ normals' ! i @ f_dc ! i @ f_rest ! i @ opacity s ! i
                                 @ scaling s ! i @ rotation s ! i @ [ptype s ! i]) [0..<n]
                 in if list_all (\<lambda>row. length row = length dtype_full) attributes
                    then Some \<lparr>properties = dtype_full, vertices = attributes\<rparr>
                    else None))
      | _ \<Rightarrow> None)"

section \<open>Derived notions\<close>

definition sel_idx :: "bool list \<Rightarrow> nat list" where
  "sel_idx m = filter (\<lambda>i. m ! i) [0..<length m]"

definition pick :: "'a list \<Rightarrow> bool list \<Rightarrow> 'a list" where
  "pick t m = map (\<lambda>i. t ! i) (sel_idx m)"

definition max_of_row :: "fl list \<Rightarrow> fl" where
  "max_of_row r = fold fmax (tl r) (hd r)"

definition prune_group_res :: "bool list \<Rightarrow> param_group \<Rightarrow> param_group" where
  "prune_group_res v g =
     (if name g = ''scene_scale'' then g
      else g\<lparr>params := pick (params g) v,
             stored_state := map_option (\<lambda>(a, b). (pick a v, pick b v)) (stored_state g)\<rparr>)"

definition cat_group_res :: "(string \<rightharpoonup> tensor) \<Rightarrow> param_group \<Rightarrow> param_group" where
  "cat_group_res d g =
     (if name g = ''scene_scale'' then g
      else g\<lparr>params := params g @ the (d (name g)),
             stored_state := map_option (\<lambda>(a, b). (a @ zeros_like (the (d (name g))),
                                                   b @ zeros_like (the (d (name g)))))
                               (stored_state g)\<rparr>)"

definition moments_len :: "nat \<Rightarrow> param_group \<Rightarrow> bool" where
  "moments_len n g =
     (case stored_state g of None \<Rightarrow> True | Some (a, b) \<Rightarrow> length a = n \<and> length b = n)"

definition keep :: "bool \<Rightarrow> 'a list \<Rightarrow> 'a list" where
  "keep b t = (if b then t else [])"

definition prune_group_scalar :: "bool \<Rightarrow> param_group \<Rightarrow> param_group" where
  "prune_group_scalar b g =
     (if name g = ''scene_scale'' then g
      else g\<lparr>params := keep b (params g),
             stored_state := map_option (\<lambda>(x, y). (keep b x, keep b y)) (stored_state g)\<rparr>)"

definition tracked_names :: "string list" where
  "tracked_names = [''xyz'', ''f_dc'', ''f_rest'', ''opacity'', ''scaling'', ''rotation'']"

definition group_ok :: "nat \<Rightarrow> param_group \<Rightarrow> bool" where
  "group_ok n g \<longleftrightarrow>
     name g = ''scene_scale'' \<or>
     (name g \<in> set tracked_names \<and> length (params g) = n \<and> moments_len n g)"

definition linked :: "param_group list \<Rightarrow> gaussian_model \<Rightarrow> bool" where
  "linked gs s \<longleftrightarrow>
     optimizable_tensors gs ''xyz'' = Some (xyz s) \<and>
     optimizable_tensors gs ''f_dc'' = Some (features_dc s) \<and>
     optimizable_tensors gs ''f_rest'' = Some (features_rest s) \<and>
     optimizable_tensors gs ''opacity'' = Some (opacity s) \<and>
     optimizable_tensors gs ''scaling'' = Some (scaling s) \<and>
     optimizable_tensors gs ''rotation'' = Some (rotation s)"

definition arrays_len :: "nat \<Rightarrow> gaussian_model \<Rightarrow> bool" where
  "arrays_len n s \<longleftrightarrow>
     length (xyz s) = n \<and> length (features_dc s) = n \<and> length (features_rest s) = n \<and>
     length (opacity s) = n \<and> length (scaling s) = n \<and> length (rotation s) = n \<and>
     length (xyz_gradient_accum s) = n \<and> length (position_gradient_accum s) = n \<and>
     length (denom s) = n \<and> length (max_radii2D s) = n \<and> length (score s) = n \<and>
     length (xyz_id s) = n \<and> length (ptype s) = n"

definition well_formed :: "gaussian_model \<Rightarrow> bool" where
  "well_formed s \<longleftrightarrow>
     (case optimizer s of None \<Rightarrow> False
      | Some gs \<Rightarrow> (\<forall>g\<in>set gs. group_ok (length (xyz s)) g) \<and> linked gs s) \<and>
     arrays_len (length (xyz s)) s \<and>
     (\<forall>r\<in>set (scaling s). length r = 3) \<and> (\<forall>r\<in>set (opacity s). length r = 1) \<and>
     extra_axes s = 0"

definition prune_points_res :: "bool list \<Rightarrow> gaussian_model \<Rightarrow> gaussian_model" where
  "prune_points_res msk s =
     s\<lparr>optimizer := Some (map (prune_group_res (map Not msk)) (the (optimizer s))),
       xyz := pick (xyz s) (map Not msk),
       features_dc := pick (features_dc s) (map Not msk),
       features_rest := pick (features_rest s) (map Not msk),
       opacity := pick (opacity s) (map Not msk),
       scaling := pick (scaling s) (map Not msk),
       rotation := pick (rotation s) (map Not msk),
       xyz_gradient_accum := pick (xyz_gradient_accum s) (map Not msk),
       position_gradient_accum := pick (position_gradient_accum s) (map Not msk),
       denom := pick (denom s) (map Not msk),
       max_radii2D := pick (max_radii2D s) (map Not msk),
       score := pick (score s) (map Not msk),
       xyz_id := pick (xyz_id s) (map Not msk),
       ptype := pick (ptype s) (map Not msk)\<rparr>"

definition prune_points_scalar_res :: "bool \<Rightarrow> gaussian_model \<Rightarrow> gaussian_model" where
  "prune_points_scalar_res b s =
     s\<lparr>optimizer := Some (map (prune_group_scalar (\<not> b)) (the (optimizer s))),
       xyz := keep (\<not> b) (xyz s),
       features_dc := keep (\<not> b) (features_dc s),
       features_rest := keep (\<not> b) (features_rest s),
       opacity := keep (\<not> b) (opacity s),
       scaling := keep (\<not> b) (scaling s),
       rotation := keep (\<not> b) (rotation s),
       xyz_gradient_accum := keep (\<not> b) (xyz_gradient_accum s),
       position_gradient_accum := keep (\<not> b) (position_gradient_accum s),
       denom := keep (\<not> b) (denom s),
       max_radii2D := keep (\<not> b) (max_radii2D s),
       score := keep (\<not> b) (score s),
       xyz_id := keep (\<not> b) (xyz_id s),
       ptype := keep (\<not> b) (ptype s),
       extra_axes := Suc (extra_axes s)\<rparr>"

definition postfix_dict ::
  "tensor \<Rightarrow> tensor \<Rightarrow> tensor \<Rightarrow> tensor \<Rightarrow> tensor \<Rightarrow> tensor \<Rightarrow> (string \<rightharpoonup> tensor)" where
  "postfix_dict nx nfd nfr nop nsc nro =
     [''xyz'' \<mapsto> nx, ''f_dc'' \<mapsto> nfd, ''f_rest'' \<mapsto> nfr, ''opacity'' \<mapsto> nop, ''scaling'' \<mapsto> nsc,
      ''rotation'' \<mapsto> nro]"

definition postfix_res ::
  "tensor \<Rightarrow> tensor \<Rightarrow> tensor \<Rightarrow> tensor \<Rightarrow> tensor \<Rightarrow> tensor \<Rightarrow> fl list \<Rightarrow> nat list \<Rightarrow> fl list
   \<Rightarrow> gaussian_model \<Rightarrow> gaussian_model" where
  "postfix_res nx nfd nfr nop nsc nro nscore nid nty s =
     s\<lparr>optimizer := Some (map (cat_group_res (postfix_dict nx nfd nfr nop nsc nro))
                             (the (optimizer s))),
       xyz := xyz s @ nx, features_dc := features_dc s @ nfd,
       features_rest := features_rest s @ nfr,
       opacity := opacity s @ nop, scaling := scaling s @ nsc, rotation := rotation s @ nro,
       xyz_gradient_accum := replicate (length (xyz s) + length nx) (Fin 0),
       position_gradient_accum := replicate (length (xyz s) + length nx) [Fin 0, Fin 0, Fin 0],
       denom := replicate (length (xyz s) + length nx) (Fin 0),
       max_radii2D := replicate (length (xyz s) + length nx) (Fin 0),
       score := score s @ nscore,
       xyz_id := xyz_id s @ nid,
       ptype := ptype s @ nty\<rparr>"

definition nudge :: "gaussian_model \<Rightarrow> nat \<Rightarrow> fl list" where
  "nudge s i =
     map2 fadd (xyz s ! i)
       (map (\<lambda>x. fdiv (fmul (Fin 1) x) (denom s ! i)) (position_gradient_accum s ! i))"

text \<open>Exactly one primitive is selected, and it is not of type 1.\<close>

definition lone_other :: "nat list \<Rightarrow> gaussian_model \<Rightarrow> bool" where
  "lone_other idx s \<longleftrightarrow> length idx = 1 \<and> \<not> feq (ptype s ! hd idx) (Fin 1)"

definition clone_res :: "bool list \<Rightarrow> gaussian_model \<Rightarrow> gaussian_model" where
  "clone_res sel s =
     postfix_res
       (map (\<lambda>i. if feq (ptype s ! i) (Fin 1) then nudge s i else xyz s ! i) (sel_idx sel))
       (pick (features_dc s) sel) (pick (features_rest s) sel) (pick (opacity s) sel)
       (pick (scaling s) sel) (pick (rotation s) sel) (pick (score s) sel)
       (pick (xyz_id s) sel) (pick (ptype s) sel)
       (s\<lparr>modify_id := modify_id s @ pick (xyz_id s) sel\<rparr>)"

definition clone_mask :: "fl list \<Rightarrow> fl \<Rightarrow> fl \<Rightarrow> gaussian_model \<Rightarrow> bool list" where
  "clone_mask grads grad_threshold scene_extent s =
     map (\<lambda>i. fge (fabs (grads ! i)) grad_threshold \<and>
              fle (max_of_row (map fexp (scaling s ! i))) (fmul (percent_dense s) scene_extent))
         [0..<length (xyz s)]"

definition split_mask :: "fl list \<Rightarrow> fl \<Rightarrow> fl \<Rightarrow> gaussian_model \<Rightarrow> bool list" where
  "split_mask grads grad_threshold scene_extent s =
     map (\<lambda>i. fge ((grads @ replicate (length (xyz s) - length grads) (Fin 0)) ! i) grad_threshold \<and>
              fgt (max_of_row (map fexp (scaling s ! i))) (fmul (percent_dense s) scene_extent))
         [0..<length (xyz s)]"

definition split_new_xyz ::
  "(fl list \<Rightarrow> tensor) \<Rightarrow> sampler \<Rightarrow> nat \<Rightarrow> bool list \<Rightarrow> gaussian_model \<Rightarrow> tensor" where
  "split_new_xyz build_rotation smp n sel s =
     map2 (map2 fadd)
       (bmm (repeat n (map build_rotation (pick (rotation s) sel)))
            (torch_normal smp (map (\<lambda>_. [Fin 0, Fin 0, Fin 0]) (repeat n (pick (get_scaling s) sel)))
               (repeat n (pick (get_scaling s) sel))))
       (repeat n (pick (xyz s) sel))"

definition split_grown ::
  "(fl list \<Rightarrow> tensor) \<Rightarrow> sampler \<Rightarrow> nat \<Rightarrow> bool list \<Rightarrow> gaussian_model \<Rightarrow> gaussian_model" where
  "split_grown build_rotation smp n sel s =
     postfix_res (split_new_xyz build_rotation smp n sel s)
       (repeat n (pick (features_dc s) sel)) (repeat n (pick (features_rest s) sel))
       (repeat n (pick (opacity s) sel))
       (map (map (\<lambda>x. flog (fdiv x (Fin (0.8 * real n))))) (repeat n (pick (get_scaling s) sel)))
       (repeat n (pick (rotation s) sel)) (repeat n (pick (score s) sel))
       (repeat n (pick (xyz_id s) sel)) (repeat n (pick (ptype s) sel))
       (s\<lparr>modify_id := modify_id s @ pick (xyz_id s) sel\<rparr>)"

definition split_res ::
  "(fl list \<Rightarrow> tensor) \<Rightarrow> sampler \<Rightarrow> nat \<Rightarrow> bool list \<Rightarrow> gaussian_model \<Rightarrow> gaussian_model" where
  "split_res build_rotation smp n sel s =
     prune_points_res (sel @ replicate (n * length (filter id sel)) False)
       (split_grown build_rotation smp n sel s)"

text \<open>The derived views of the store, per primitive.\<close>

definition physical_scale :: "gaussian_model \<Rightarrow> nat \<Rightarrow> fl list" where
  "physical_scale s i = map fexp (scaling s ! i)"

definition physical_opacity :: "gaussian_model \<Rightarrow> nat \<Rightarrow> fl" where
  "physical_opacity s i = sigmoid (hd (opacity s ! i))"

text \<open>The primitives the clone pass selects, in order.\<close>

definition clone_selected :: "fl list \<Rightarrow> fl \<Rightarrow> fl \<Rightarrow> gaussian_model \<Rightarrow> nat list" where
  "clone_selected grads grad_threshold scene_extent s =
     filter (\<lambda>i. fge (fabs (grads ! i)) grad_threshold \<and>
                 fle (max_of_row (physical_scale s i)) (fmul (percent_dense s) scene_extent))
            [0..<length (xyz s)]"

text \<open>The position of a planar clone: the source's, plus \<open>position_gradient_accum / denom\<close>.\<close>

definition nudged_position :: "gaussian_model \<Rightarrow> nat \<Rightarrow> fl list" where
  "nudged_position s i =
     map2 fadd (xyz s ! i) (map (\<lambda>x. fdiv x (denom s ! i)) (position_gradient_accum s ! i))"

text \<open>A store of three primitives with the seven groups of \<open>training_setup\<close>.\<close>

definition demo_group :: "string \<Rightarrow> tensor \<Rightarrow> param_group" where
  "demo_group nm t = \<lparr>name = nm, lr = Fin 0, params = t, stored_state = Some (t, t)\<rparr>"

definition demo_store :: gaussian_model where
  "demo_store =
     \<lparr>active_sh_degree = 0, max_sh_degree = 0, normal = PyNone,
      score = [Fin 1, Fin 1, Fin 1],
      ptype = [Fin 0, Fin 1, Fin 0],
      scene_scale = [[Fin 1]],
      xyz = [[Fin 0, Fin 0, Fin 0], [Fin 1, Fin 1, Fin 1], [Fin 2, Fin 2, Fin 2]],
      xyz_id = [0, 1, 2], modify_id = [],
      features_dc = [[Fin 0, Fin 0, Fin 0], [Fin 0, Fin 0, Fin 0], [Fin 0, Fin 0, Fin 0]],
      features_rest = [[], [], []],
      scaling = [[Fin 0, Fin 0, Fin 0], [Fin 0, Fin 0, Fin 0], [Fin 0, Fin 0, Fin 0]],
      rotation = [[Fin 1, Fin 0, Fin 0, Fin 0], [Fin 1, Fin 0, Fin 0, Fin 0],
                  [Fin 1, Fin 0, Fin 0, Fin 0]],
      opacity = [[Fin 0], [Fin 0], [Fin 0]],
      max_radii2D = [Fin 0, Fin 0, Fin 0],
      xyz_gradient_accum = [Fin 4, Fin 6, Fin 0],
      position_gradient_accum = [[Fin 2, Fin 2, Fin 2], [Fin 2, Fin 4, Fin 6], [Fin 0, Fin 0, Fin 0]],
      denom = [Fin 2, Fin 2, Fin 0],
      optimizer = Some
        [demo_group ''scene_scale'' [[Fin 1]],
         demo_group ''xyz'' [[Fin 0, Fin 0, Fin 0], [Fin 1, Fin 1, Fin 1], [Fin 2, Fin 2, Fin 2]],
         demo_group ''f_dc'' [[Fin 0, Fin 0, Fin 0], [Fin 0, Fin 0, Fin 0], [Fin 0, Fin 0, Fin 0]],
         demo_group ''f_rest'' [[], [], []],
         demo_group ''opacity'' [[Fin 0], [Fin 0], [Fin 0]],
         demo_group ''scaling'' [[Fin 0, Fin 0, Fin 0], [Fin 0, Fin 0, Fin 0], [Fin 0, Fin 0, Fin 0]],
         demo_group ''rotation'' [[Fin 1, Fin 0, Fin 0, Fin 0], [Fin 1, Fin 0, Fin 0, Fin 0],
                                  [Fin 1, Fin 0, Fin 0, Fin 0]]],
      percent_dense = Fin 0.1, spatial_lr_scale = Fin 1,
      extra_axes = 0\<rparr>"

text \<open>The primitives the pruning pass removes, and those it keeps, in order.\<close>

definition removal_pred :: "fl \<Rightarrow> fl \<Rightarrow> fl option \<Rightarrow> gaussian_model \<Rightarrow> nat \<Rightarrow> bool" where
  "removal_pred min_opacity extent max_screen_size s i \<longleftrightarrow>
     flt (physical_opacity s i) min_opacity \<or>
     (truthy max_screen_size \<and>
      (fgt (max_radii2D s ! i) (the max_screen_size) \<or>
       fgt (max_of_row (physical_scale s i)) (fmul (Fin 0.1) extent)))"


text \<open>The shape conditions under which \<open>training_setup\<close> yields a well-formed store.\<close>

definition shaped :: "gaussian_model \<Rightarrow> bool" where
  "shaped s \<longleftrightarrow>
     length (features_dc s) = length (xyz s) \<and> length (features_rest s) = length (xyz s) \<and>
     length (opacity s) = length (xyz s) \<and> length (scaling s) = length (xyz s) \<and>
     length (rotation s) = length (xyz s) \<and> length (max_radii2D s) = length (xyz s) \<and>
     length (score s) = length (xyz s) \<and> length (xyz_id s) = length (xyz s) \<and>
     length (ptype s) = length (xyz s) \<and>
     (\<forall>r\<in>set (scaling s). length r = 3) \<and> (\<forall>r\<in>set (opacity s). length r = 1) \<and>
     extra_axes s = 0"

definition demo_args :: training_args where
  "demo_args = \<lparr>arg_percent_dense = Fin 0.01, arg_scene_scale_lr_init = Fin 0,
                 arg_position_lr_init = Fin 0.00016, arg_feature_lr = Fin 0.0025,
                 arg_opacity_lr = Fin 0.05, arg_scaling_lr = Fin 0.005,
                 arg_rotation_lr = Fin 0.001\<rparr>"

text \<open>Three primitives of physical opacity 0.001, 0.5 and 0.9.\<close>

definition opacity_store :: gaussian_model where
  "opacity_store = training_setup demo_args
     \<lparr>active_sh_degree = 0, max_sh_degree = 0, normal = PyNone,
      score = [Fin 1, Fin 1, Fin 1],
      ptype = [Fin 0, Fin 1, Fin 0],
      scene_scale = [[Fin 1]],
      xyz = [[Fin 0, Fin 0, Fin 0], [Fin 1, Fin 1, Fin 1], [Fin 2, Fin 2, Fin 2]],
      xyz_id = [0, 1, 2], modify_id = [],
      features_dc = [[Fin 0, Fin 0, Fin 0], [Fin 0, Fin 0, Fin 0], [Fin 0, Fin 0, Fin 0]],
      features_rest = [[], [], []],
      scaling = [[Fin 0, Fin 0, Fin 0], [Fin 0, Fin 0, Fin 0], [Fin 0, Fin 0, Fin 0]],
      rotation = [[Fin 1, Fin 0, Fin 0, Fin 0], [Fin 1, Fin 0, Fin 0, Fin 0],
                  [Fin 1, Fin 0, Fin 0, Fin 0]],
      opacity = [[Fin (ln (1 / 999))], [Fin 0], [Fin (ln 9)]],
      max_radii2D = [Fin 0, Fin 0, Fin 0],
      xyz_gradient_accum = [], position_gradient_accum = [], denom = [],
      optimizer = None, percent_dense = Fin 0, spatial_lr_scale = Fin 1,
      extra_axes = 0\<rparr>"

text \<open>The primitives the split pass selects, those it keeps, and the parent of each child.\<close>

definition split_pred :: "fl list \<Rightarrow> fl \<Rightarrow> fl \<Rightarrow> gaussian_model \<Rightarrow> nat \<Rightarrow> bool" where
  "split_pred grads grad_threshold scene_extent s i \<longleftrightarrow>
     fge ((grads @ replicate (length (xyz s) - length grads) (Fin 0)) ! i) grad_threshold \<and>
     fgt (max_of_row (physical_scale s i)) (fmul (percent_dense s) scene_extent)"

definition split_selected :: "fl list \<Rightarrow> fl \<Rightarrow> fl \<Rightarrow> gaussian_model \<Rightarrow> nat list" where
  "split_selected grads grad_threshold scene_extent s =
     filter (\<lambda>i. split_pred grads grad_threshold scene_extent s i) [0..<length (xyz s)]"

definition split_kept :: "fl list \<Rightarrow> fl \<Rightarrow> fl \<Rightarrow> gaussian_model \<Rightarrow> nat list" where
  "split_kept grads grad_threshold scene_extent s =
     filter (\<lambda>i. \<not> split_pred grads grad_threshold scene_extent s i) [0..<length (xyz s)]"

definition split_parents :: "nat \<Rightarrow> fl list \<Rightarrow> fl \<Rightarrow> fl \<Rightarrow> gaussian_model \<Rightarrow> nat list" where
  "split_parents n grads grad_threshold scene_extent s =
     repeat n (split_selected grads grad_threshold scene_extent s)"

text \<open>
  Child \<open>j\<close> of parent \<open>p\<close>: its offset is drawn with mean zero and, per axis, the parent's
  physical scale as standard deviation; the offset is rotated by the parent's rotation matrix
  and added to the parent's position; its raw scale is \<open>log (physical_scale / (0.8 * n))\<close>.
\<close>

definition child_sample :: "sampler \<Rightarrow> gaussian_model \<Rightarrow> nat \<Rightarrow> nat \<Rightarrow> fl list" where
  "child_sample smp s j p =
     [smp j 0 (Fin 0) (physical_scale s p ! 0), smp j 1 (Fin 0) (physical_scale s p ! 1),
      smp j 2 (Fin 0) (physical_scale s p ! 2)]"

definition child_xyz ::
  "(fl list \<Rightarrow> tensor) \<Rightarrow> sampler \<Rightarrow> gaussian_model \<Rightarrow> nat \<Rightarrow> nat \<Rightarrow> fl list" where
  "child_xyz build_rotation smp s j p =
     map2 fadd (map (\<lambda>row. dot row (child_sample smp s j p)) (build_rotation (rotation s ! p)))
               (xyz s ! p)"

definition child_scaling :: "nat \<Rightarrow> gaussian_model \<Rightarrow> nat \<Rightarrow> fl list" where
  "child_scaling n s p = map (\<lambda>x. flog (fdiv x (Fin (0.8 * real n)))) (physical_scale s p)"

text \<open>A resizing operation with its arguments, and a run of such operations from a store.\<close>

datatype resize_op =
    Clone "fl list" fl fl
  | Split "fl list \<Rightarrow> tensor" sampler "fl list" fl fl nat
  | Prune "bool list"

fun apply_op :: "resize_op \<Rightarrow> gaussian_model \<Rightarrow> gaussian_model option" where
  "apply_op (Clone grads grad_threshold scene_extent) s =
     densify_and_clone grads grad_threshold scene_extent s"
| "apply_op (Split build_rotation smp grads grad_threshold scene_extent n) s =
     densify_and_split build_rotation smp grads grad_threshold scene_extent n s"
| "apply_op (Prune msk) s = prune_points (Vector msk) s"

fun run_ops :: "resize_op list \<Rightarrow> gaussian_model \<Rightarrow> gaussian_model option" where
  "run_ops [] s = Some s"
| "run_ops (x # xs) s = do { s' \<leftarrow> apply_op x s; run_ops xs s' }"

text \<open>
  Every tracked parameter array, in the model and in the optimizer, and every moment
  estimate the optimizer holds for it, has the length of \<open>xyz\<close>.
\<close>

definition tracked_consistent :: "gaussian_model \<Rightarrow> bool" where
  "tracked_consistent s \<longleftrightarrow>
     length (features_dc s) = length (xyz s) \<and> length (features_rest s) = length (xyz s) \<and>
     length (opacity s) = length (xyz s) \<and> length (scaling s) = length (xyz s) \<and>
     length (rotation s) = length (xyz s) \<and>
     (\<exists>gs. optimizer s = Some gs \<and>
        (\<forall>g\<in>set gs. name g \<noteq> ''scene_scale'' \<longrightarrow>
           length (params g) = length (xyz s) \<and> moments_len (length (xyz s)) g))"

text \<open>The optimizer's groups of the global scalar, with their parameters and moments.\<close>

definition scene_scale_groups :: "gaussian_model \<Rightarrow> param_group list" where
  "scene_scale_groups s =
     (case optimizer s of None \<Rightarrow> [] | Some gs \<Rightarrow> filter (\<lambda>g. name g = ''scene_scale'') gs)"

text \<open>The averaged gradient of \<open>densify_and_prune\<close>, and the stores after each of its passes.\<close>

definition avg_of :: "gaussian_model \<Rightarrow> fl list" where
  "avg_of s = map (\<lambda>g. if isnan g then Fin 0 else g)
                  (map2 fdiv (xyz_gradient_accum s) (denom s))"

definition dap_reset :: "gaussian_model \<Rightarrow> gaussian_model" where
  "dap_reset s = (reset_xyz_id s)\<lparr>modify_id := []\<rparr>"

definition dap_cloned :: "fl \<Rightarrow> fl \<Rightarrow> gaussian_model \<Rightarrow> gaussian_model" where
  "dap_cloned max_grad extent s =
     clone_res (clone_mask (avg_of s) max_grad extent (dap_reset s)) (dap_reset s)"

definition dap_split ::
  "(fl list \<Rightarrow> tensor) \<Rightarrow> sampler \<Rightarrow> fl \<Rightarrow> fl \<Rightarrow> gaussian_model \<Rightarrow> gaussian_model" where
  "dap_split build_rotation smp max_grad extent s =
     split_res build_rotation smp 2
       (split_mask (avg_of s) max_grad extent (dap_cloned max_grad extent s))
       (dap_cloned max_grad extent s)"

definition dap_pruned ::
  "(fl list \<Rightarrow> tensor) \<Rightarrow> sampler \<Rightarrow> fl \<Rightarrow> fl \<Rightarrow> fl \<Rightarrow> fl option \<Rightarrow> gaussian_model
   \<Rightarrow> gaussian_model" where
  "dap_pruned build_rotation smp max_grad min_opacity extent max_screen_size s =
     prune_points_res
       (map (removal_pred min_opacity extent max_screen_size
               (dap_split build_rotation smp max_grad extent s))
            [0..<length (xyz (dap_split build_rotation smp max_grad extent s))])
       (dap_split build_rotation smp max_grad extent s)"

text \<open>
  The averaged gradient as the specification words it: \<open>position_gradient_accum / denom\<close>
  elementwise, NaN set to zero; and the norm of each of its rows.
\<close>

definition spec_avg_grad :: "gaussian_model \<Rightarrow> tensor" where
  "spec_avg_grad s =
     map2 (\<lambda>p d. map (\<lambda>x. if isnan (fdiv x d) then Fin 0 else fdiv x d) p)
          (position_gradient_accum s) (denom s)"

definition spec_grad_norms :: "gaussian_model \<Rightarrow> fl list" where
  "spec_grad_norms s =
     map (\<lambda>v. fsqrt (fold fadd (map (\<lambda>x. fmul x x) v) (Fin 0))) (spec_avg_grad s)"

text \<open>
  A store of one primitive after \<open>training_setup\<close> and one call of
  \<open>add_densification_stats\<close> with screen-space gradient \<open>(1, 0, 0)\<close> and position gradient
  \<open>(2, 0, 0)\<close>.
\<close>

definition one_primitive :: gaussian_model where
  "one_primitive =
     \<lparr>active_sh_degree = 0, max_sh_degree = 0, normal = PyNone,
      score = [Fin 1], ptype = [Fin 0], scene_scale = [[Fin 1]],
      xyz = [[Fin 0, Fin 0, Fin 0]], xyz_id = [0], modify_id = [],
      features_dc = [[Fin 0, Fin 0, Fin 0]], features_rest = [[]],
      scaling = [[Fin 0, Fin 0, Fin 0]], rotation = [[Fin 1, Fin 0, Fin 0, Fin 0]],
      opacity = [[Fin 0]], max_radii2D = [Fin 0],
      xyz_gradient_accum = [], position_gradient_accum = [], denom = [],
      optimizer = None, percent_dense = Fin 0, spatial_lr_scale = Fin 1,
      extra_axes = 0\<rparr>"

definition stats_store :: gaussian_model where
  "stats_store = (training_setup demo_args one_primitive)
     \<lparr>xyz_gradient_accum := [Fin 1], position_gradient_accum := [[Fin 2, Fin 0, Fin 0]],
      denom := [Fin 1]\<rparr>"

text \<open>The per-primitive attributes of two stores agree.\<close>

definition same_attributes :: "gaussian_model \<Rightarrow> gaussian_model \<Rightarrow> bool" where
  "same_attributes s' s \<longleftrightarrow>
     xyz s' = xyz s \<and> features_dc s' = features_dc s \<and> features_rest s' = features_rest s \<and>
     opacity s' = opacity s \<and> scaling s' = scaling s \<and> rotation s' = rotation s \<and>
     score s' = score s \<and> ptype s' = ptype s"

text \<open>The gradient accumulators, \<open>denom\<close> and the screen radii of a store are all zero.\<close>

definition accumulators_zero :: "gaussian_model \<Rightarrow> bool" where
  "accumulators_zero s \<longleftrightarrow>
     xyz_gradient_accum s = replicate (length (xyz s)) (Fin 0) \<and>
     position_gradient_accum s = replicate (length (xyz s)) [Fin 0, Fin 0, Fin 0] \<and>
     denom s = replicate (length (xyz s)) (Fin 0) \<and>
     max_radii2D s = replicate (length (xyz s)) (Fin 0)"

text \<open>Every per-primitive array of the store is empty.\<close>

definition population_empty :: "gaussian_model \<Rightarrow> bool" where
  "population_empty s \<longleftrightarrow>
     xyz s = [] \<and> features_dc s = [] \<and> features_rest s = [] \<and> opacity s = [] \<and>
     scaling s = [] \<and> rotation s = [] \<and> score s = [] \<and> ptype s = [] \<and> xyz_id s = [] \<and>
     xyz_gradient_accum s = [] \<and> position_gradient_accum s = [] \<and> denom s = [] \<and>
     max_radii2D s = []"

text \<open>Stand-ins for the external functions, for the examples.\<close>

definition demo_rotation :: "fl list \<Rightarrow> tensor" where
  "demo_rotation q = [[Fin 1, Fin 0, Fin 0], [Fin 0, Fin 1, Fin 0], [Fin 0, Fin 0, Fin 1]]"

definition demo_sampler :: sampler where
  "demo_sampler i j mu sigma = mu"

definition demo_normals :: "tensor \<Rightarrow> tensor" where
  "demo_normals t = map (\<lambda>p. [Fin 0, Fin 0, Fin 1]) t"

text \<open>
  Two primitives (of type 0) whose accumulated screen-space gradient has overflowed to
  infinity.
\<close>

definition two_primitives :: gaussian_model where
  "two_primitives =
     \<lparr>active_sh_degree = 0, max_sh_degree = 0, normal = PyNone,
      score = [Fin 1, Fin 1], ptype = [Fin 0, Fin 0], scene_scale = [[Fin 1]],
      xyz = [[Fin 0, Fin 0, Fin 0], [Fin 1, Fin 1, Fin 1]], xyz_id = [0, 1], modify_id = [],
      features_dc = [[Fin 0, Fin 0, Fin 0], [Fin 0, Fin 0, Fin 0]], features_rest = [[], []],
      scaling = [[Fin 0, Fin 0, Fin 0], [Fin 0, Fin 0, Fin 0]],
      rotation = [[Fin 1, Fin 0, Fin 0, Fin 0], [Fin 1, Fin 0, Fin 0, Fin 0]],
      opacity = [[Fin 0], [Fin 0]], max_radii2D = [Fin 0, Fin 0],
      xyz_gradient_accum = [], position_gradient_accum = [], denom = [],
      optimizer = None, percent_dense = Fin 0, spatial_lr_scale = Fin 1,
      extra_axes = 0\<rparr>"

definition inf_store :: gaussian_model where
  "inf_store = (training_setup demo_args two_primitives)
     \<lparr>xyz_gradient_accum := [PInf, PInf],
      position_gradient_accum := [[Fin 0, Fin 0, Fin 0], [Fin 0, Fin 0, Fin 0]],
      denom := [Fin 1, Fin 1]\<rparr>"

text \<open>One primitive of physical opacity 0.5, after \<open>training_setup\<close>.\<close>

definition lone_store :: gaussian_model where
  "lone_store = training_setup demo_args one_primitive"



text \<open>The store of three primitives with an averaged gradient of 1 each.\<close>

definition finite_store :: gaussian_model where
  "finite_store = opacity_store
     \<lparr>xyz_gradient_accum := [Fin 2, Fin 2, Fin 2],
      position_gradient_accum := [[Fin 0, Fin 0, Fin 0], [Fin 0, Fin 0, Fin 0], [Fin 0, Fin 0, Fin 0]],
      denom := [Fin 2, Fin 2, Fin 2]\<rparr>"

text \<open>
  The store that \<open>densify_and_prune\<close> returns from \<open>lone_store\<close> with gradient threshold 1,
  \<open>min_opacity = 2\<close>, extent 10 and no \<open>max_screen_size\<close>.
\<close>

definition lone_pruned :: gaussian_model where
  "lone_pruned = the (densify_and_prune demo_rotation demo_sampler demo_normals (Fin 1) (Fin 2)
                        (Fin 10) None lone_store)"

text \<open>
  The three primitives of \<open>finite_store\<close> after earlier resizes and renderings: ids that
  are not \<open>0..N-1\<close> and screen radii of 3.
\<close>

definition used_store :: gaussian_model where
  "used_store = finite_store\<lparr>xyz_id := [5, 6, 7], max_radii2D := [Fin 3, Fin 3, Fin 3]\<rparr>"

text \<open>The first two raw scale axes of a point of squared neighbour distance \<open>d\<close>.\<close>

definition initial_axis :: "fl \<Rightarrow> fl" where
  "initial_axis d = flog (fsqrt (fdiv (fclamp (Fin 0.0000001) (Fin 0.01) d) (Fin 2)))"

text \<open>
  A cloud of two points, the first of type 1 and the second of type 0, with stand-ins for
  the functions from outside the class: squared distances of 1/5000, a product of the shape
  of its arguments, the identity quaternion and the logit.
\<close>

definition demo_pcd :: basic_point_cloud where
  "demo_pcd = \<lparr>points = [(Fin 0, Fin 0, Fin 0), (Fin 1, Fin 0, Fin 0)],
                colors = [(Fin 0, Fin 0, Fin 0), (Fin 1, Fin 1, Fin 1)],
                normals = [(Fin 0, Fin 0, Fin 1), (Fin 0, Fin 0, Fin 1)],
                types = [Fin 1, Fin 0]\<rparr>"

definition demo_dist :: "vec3 list \<Rightarrow> fl list" where
  "demo_dist ps = replicate (length ps) (Fin (1 / 5000))"

definition demo_cross :: "vec3 list \<Rightarrow> vec3 list \<Rightarrow> vec3 list" where
  "demo_cross a b = a"

definition demo_quat :: "tensor \<Rightarrow> fl \<times> fl \<times> fl \<times> fl" where
  "demo_quat m = (Fin 0, Fin 0, Fin 0, Fin 1)"

definition demo_logit :: "fl \<Rightarrow> fl" where
  "demo_logit x = flog (fdiv x (fsub (Fin 1) x))"

definition demo_created :: gaussian_model where
  "demo_created = the (create_from_pcd demo_dist demo_cross demo_quat demo_logit demo_pcd (Fin 1)
                         (init 0))"

text \<open>
  The operations of the class other than \<open>densify_and_prune\<close> that a store goes through
  during training, and a run of them.
\<close>

datatype window_op =
    Setup training_args
  | Stats tensor tensor "bool list"
  | Resize resize_op

fun apply_window :: "window_op \<Rightarrow> gaussian_model \<Rightarrow> gaussian_model option" where
  "apply_window (Setup a) s = Some (training_setup a s)"
| "apply_window (Stats viewspace_grad xyz_grad update_filter) s =
     add_densification_stats viewspace_grad xyz_grad update_filter s"
| "apply_window (Resize x) s = apply_op x s"

fun run_window :: "window_op list \<Rightarrow> gaussian_model \<Rightarrow> gaussian_model option" where
  "run_window [] s = Some s"
| "run_window (x # xs) s = do { s' \<leftarrow> apply_window x s; run_window xs s' }"

text \<open>
  The store of \<open>demo_pcd\<close> after \<open>training_setup\<close>, and after a \<open>densify_and_prune\<close> that
  clones, splits and prunes nothing.
\<close>

definition demo_trained :: gaussian_model where
  "demo_trained = training_setup demo_args demo_created"

definition demo_densified :: gaussian_model where
  "demo_densified = the (densify_and_prune demo_rotation demo_sampler demo_normals PInf (Fin 0)
                           (Fin 10) None demo_trained)"

section \<open>Properties of the operations\<close>

lemma zip_as_map_nth:
  "length xs = length ys \<Longrightarrow> zip xs ys = map (\<lambda>i. (xs ! i, ys ! i)) [0..<length xs]"
  by (rule nth_equalityI) simp_all

lemma index_mask_pick:
  "length m = length t \<Longrightarrow> index_mask t m = Some (pick t m)"
  by (simp add: index_mask_def pick_def sel_idx_def zip_as_map_nth filter_map comp_def)

lemma index_mask_Some_iff:
  "index_mask t m = Some r \<longleftrightarrow> length m = length t \<and> r = pick t m"
proof (cases "length m = length t")
  case True
  then show ?thesis by (auto simp: index_mask_pick)
next
  case False
  then show ?thesis by (simp add: index_mask_def)
qed

lemma length_pick: "length (pick t m) = length (sel_idx m)"
  by (simp add: pick_def)

lemma length_sel_idx: "length (sel_idx m) = length (filter id m)"
proof -
  have "filter id m = map (\<lambda>i. m ! i) (sel_idx m)"
    using index_mask_pick[of m m]
    by (simp add: index_mask_def pick_def zip_same_conv_map filter_map comp_def id_def)
  thus ?thesis by simp
qed

lemma sel_idx_lt: "i \<in> set (sel_idx m) \<Longrightarrow> i < length m"
  by (simp add: sel_idx_def)

lemma sel_idx_map: "sel_idx (map P [0..<n]) = filter P [0..<n]"
  by (auto simp: sel_idx_def intro: filter_cong)

lemma pick_append_False:
  "length m = length xs \<Longrightarrow>
   pick (xs @ ys) (map Not (m @ replicate (length ys) False)) = pick xs (map Not m) @ ys"
proof -
  assume a: "length m = length xs"
  have "index_mask (xs @ ys) (map Not (m @ replicate (length ys) False))
        = Some (pick xs (map Not m) @ ys)"
    using a index_mask_pick[of "map Not m" xs]
    by (simp add: index_mask_def zip_replicate2 filter_map comp_def)
  thus ?thesis by (simp add: index_mask_Some_iff)
qed

lemma pick_all_False: "pick t (map (\<lambda>_. False) xs) = []"
  by (simp add: pick_def sel_idx_def)

lemma pick_all_True: "length m = length t \<Longrightarrow> \<forall>b\<in>set m. b \<Longrightarrow> pick t m = t"
proof -
  assume a: "length m = length t" "\<forall>b\<in>set m. b"
  have "filter snd (zip t m) = zip t m"
    by (rule filter_True) (use a in \<open>auto dest: set_zip_rightD\<close>)
  hence "index_mask t m = Some t" using a by (simp add: index_mask_def)
  thus ?thesis by (simp add: index_mask_Some_iff)
qed

lemma max_dim1_Some:
  "\<forall>r\<in>set t. r \<noteq> [] \<Longrightarrow> max_dim1 t = Some (map max_of_row t)"
  by (induction t) (auto simp: row_max_def max_of_row_def split: list.splits)

lemma max_dim1_length: "max_dim1 t = Some ms \<Longrightarrow> length ms = length t"
  by (induction t arbitrary: ms) (auto simp: bind_eq_Some_conv)

lemma broadcast2_same: "length xs = length ys \<Longrightarrow> broadcast2 f xs ys = Some (map2 f xs ys)"
  by (simp add: broadcast2_def)

lemma prune_group_Some_iff:
  "prune_group (Vector v) g = Some g' \<longleftrightarrow>
     (name g = ''scene_scale'' \<or> (length (params g) = length v \<and> moments_len (length v) g))
     \<and> g' = prune_group_res v g"
  by (cases "stored_state g")
     (auto simp: prune_group_def prune_group_res_def moments_len_def bind_eq_Some_conv
                 index_mask_Some_iff)

lemma prune_optimizer_Some_iff:
  "prune_optimizer (Vector v) gs = Some gs' \<longleftrightarrow>
     (\<forall>g\<in>set gs. name g = ''scene_scale'' \<or>
         (length (params g) = length v \<and> moments_len (length v) g))
     \<and> gs' = map (prune_group_res v) gs"
  by (induction gs arbitrary: gs') (auto simp: bind_eq_Some_conv prune_group_Some_iff)

lemma cat_group_Some_iff:
  "cat_group d g = Some g' \<longleftrightarrow>
     (name g = ''scene_scale'' \<or> d (name g) \<noteq> None) \<and> g' = cat_group_res d g"
  by (cases "stored_state g")
     (auto simp: cat_group_def cat_group_res_def bind_eq_Some_conv)

lemma cat_tensors_Some_iff:
  "cat_tensors_to_optimizer d gs = Some gs' \<longleftrightarrow>
     (\<forall>g\<in>set gs. name g = ''scene_scale'' \<or> d (name g) \<noteq> None)
     \<and> gs' = map (cat_group_res d) gs"
  by (induction gs arbitrary: gs') (auto simp: bind_eq_Some_conv cat_group_Some_iff)

lemma prune_group_Scalar: "prune_group (Scalar b) g = Some (prune_group_scalar b g)"
  by (cases "stored_state g") (auto simp: prune_group_def prune_group_scalar_def keep_def)

lemma prune_optimizer_Scalar:
  "prune_optimizer (Scalar b) gs = Some (map (prune_group_scalar b) gs)"
  by (induction gs) (simp_all add: prune_group_Scalar)

lemma fold_ot_map:
  assumes "\<forall>g\<in>set gs. name (h g) = name g \<and>
             (name g \<noteq> ''scene_scale'' \<longrightarrow> params (h g) = psi (name g) (params g))"
    and "m' nm = map_option (psi nm) (m nm)"
  shows "fold (\<lambda>g m. if name g = ''scene_scale'' then m else m(name g \<mapsto> params g)) (map h gs) m' nm
         = map_option (psi nm)
             (fold (\<lambda>g m. if name g = ''scene_scale'' then m else m(name g \<mapsto> params g)) gs m nm)"
  using assms
proof (induction gs arbitrary: m m')
  case Nil
  then show ?case by simp
next
  case (Cons g gs)
  show ?case
  proof (cases "name g = ''scene_scale''")
    case True
    with Cons show ?thesis by simp
  next
    case False
    have "fold (\<lambda>g m. if name g = ''scene_scale'' then m else m(name g \<mapsto> params g)) (map h gs)
            (m'(name g \<mapsto> psi (name g) (params g))) nm
          = map_option (psi nm)
             (fold (\<lambda>g m. if name g = ''scene_scale'' then m else m(name g \<mapsto> params g)) gs
                (m(name g \<mapsto> params g)) nm)"
      by (rule Cons.IH) (use Cons.prems in auto)
    with False Cons.prems show ?thesis by simp
  qed
qed

lemma ot_map:
  assumes "\<forall>g\<in>set gs. name (h g) = name g \<and>
             (name g \<noteq> ''scene_scale'' \<longrightarrow> params (h g) = psi (name g) (params g))"
  shows "optimizable_tensors (map h gs) nm = map_option (psi nm) (optimizable_tensors gs nm)"
  unfolding optimizable_tensors_def by (rule fold_ot_map[OF assms]) simp

lemma ot_prune:
  "optimizable_tensors (map (prune_group_res v) gs) nm
   = map_option (\<lambda>t. pick t v) (optimizable_tensors gs nm)"
  by (rule ot_map) (simp add: prune_group_res_def)

lemma ot_prune_scalar:
  "optimizable_tensors (map (prune_group_scalar b) gs) nm
   = map_option (keep b) (optimizable_tensors gs nm)"
  by (rule ot_map[where psi = "\<lambda>nm. keep b"]) (simp add: prune_group_scalar_def)

lemma ot_cat:
  "optimizable_tensors (map (cat_group_res d) gs) nm
   = map_option (\<lambda>t. t @ the (d nm)) (optimizable_tensors gs nm)"
  by (rule ot_map[where psi = "\<lambda>nm t. t @ the (d nm)"]) (simp add: cat_group_res_def)

lemma wf_optimizer: "well_formed s \<Longrightarrow> \<exists>gs. optimizer s = Some gs"
  by (auto simp: well_formed_def split: option.splits)

lemma group_ok_prune_cond:
  "group_ok n g \<Longrightarrow> name g = ''scene_scale'' \<or> (length (params g) = n \<and> moments_len n g)"
  by (auto simp: group_ok_def)

lemma prune_points_Some:
  assumes "well_formed s" and "length msk = length (xyz s)"
  shows "prune_points (Vector msk) s = Some (prune_points_res msk s)"
proof -
  obtain gs where gs: "optimizer s = Some gs" using wf_optimizer[OF assms(1)] by blast
  have ok: "\<forall>g\<in>set gs. group_ok (length (xyz s)) g" and lk: "linked gs s"
    and al: "arrays_len (length (xyz s)) s"
    using assms(1) gs by (auto simp: well_formed_def)
  have po: "prune_optimizer (Vector (map Not msk)) gs
            = Some (map (prune_group_res (map Not msk)) gs)"
    using ok assms(2) by (auto simp: prune_optimizer_Some_iff dest: group_ok_prune_cond)
  show ?thesis
    using gs po lk al assms(2)
    by (simp add: prune_points_def prune_points_res_def ot_prune linked_def arrays_len_def
                  index_mask_pick Let_def)
qed

lemma prune_points_Scalar:
  assumes "well_formed s"
  shows "prune_points (Scalar b) s = Some (prune_points_scalar_res b s)"
proof -
  obtain gs where gs: "optimizer s = Some gs" using wf_optimizer[OF assms(1)] by blast
  have lk: "linked gs s" using assms(1) gs by (auto simp: well_formed_def)
  show ?thesis
    using gs lk
    by (simp add: prune_points_def prune_points_scalar_res_def prune_optimizer_Scalar
          ot_prune_scalar linked_def Let_def keep_def)
qed

lemma prune_points_length:
  assumes "well_formed s" and "prune_points (Vector msk) s = Some s'"
  shows "length msk = length (xyz s)"
proof -
  have al: "arrays_len (length (xyz s)) s" using assms(1) by (auto simp: well_formed_def)
  from assms(2) obtain xga where "index_mask (xyz_gradient_accum s) (map Not msk) = Some xga"
    by (auto simp: prune_points_def bind_eq_Some_conv Let_def)
  thus ?thesis using al by (simp add: index_mask_Some_iff arrays_len_def)
qed

lemma set_pick: "length m = length t \<Longrightarrow> set (pick t m) \<subseteq> set t"
  by (auto simp: pick_def sel_idx_def)

lemma group_ok_prune:
  "group_ok n g \<Longrightarrow> length v = n \<Longrightarrow> group_ok (length (sel_idx v)) (prune_group_res v g)"
  by (auto simp: group_ok_def prune_group_res_def moments_len_def length_pick split: option.splits)

lemma wf_prune_points_res:
  assumes "well_formed s" and "length msk = length (xyz s)"
  shows "well_formed (prune_points_res msk s)"
proof -
  obtain gs where gs: "optimizer s = Some gs" using wf_optimizer[OF assms(1)] by blast
  have ok: "\<forall>g\<in>set gs. group_ok (length (xyz s)) g" and lk: "linked gs s"
    and al: "arrays_len (length (xyz s)) s"
    and sh: "\<forall>r\<in>set (scaling s). length r = 3" "\<forall>r\<in>set (opacity s). length r = 1"
    using assms(1) gs by (auto simp: well_formed_def)
  have 1: "\<forall>g\<in>set (map (prune_group_res (map Not msk)) gs).
             group_ok (length (sel_idx (map Not msk))) g"
    using ok assms(2) by (auto intro!: group_ok_prune)
  have 2: "linked (map (prune_group_res (map Not msk)) gs) (prune_points_res msk s)"
    using lk by (simp add: linked_def ot_prune prune_points_res_def)
  have 3: "arrays_len (length (sel_idx (map Not msk))) (prune_points_res msk s)"
    by (simp add: arrays_len_def prune_points_res_def length_pick)
  have 4: "\<forall>r\<in>set (scaling (prune_points_res msk s)). length r = 3"
    "\<forall>r\<in>set (opacity (prune_points_res msk s)). length r = 1"
    using sh set_pick[of "map Not msk" "scaling s"] set_pick[of "map Not msk" "opacity s"]
      al assms(2)
    by (auto simp: prune_points_res_def arrays_len_def)
  have 5: "length (xyz (prune_points_res msk s)) = length (sel_idx (map Not msk))"
    by (simp add: prune_points_res_def length_pick)
  have 6: "extra_axes (prune_points_res msk s) = 0"
    using assms(1) by (simp add: prune_points_res_def well_formed_def)
  show ?thesis
    unfolding well_formed_def using 1 2 3 4 5 6 gs by (simp add: prune_points_res_def)
qed

lemma postfix_dict_simps:
  "postfix_dict nx nfd nfr nop nsc nro ''xyz'' = Some nx"
  "postfix_dict nx nfd nfr nop nsc nro ''f_dc'' = Some nfd"
  "postfix_dict nx nfd nfr nop nsc nro ''f_rest'' = Some nfr"
  "postfix_dict nx nfd nfr nop nsc nro ''opacity'' = Some nop"
  "postfix_dict nx nfd nfr nop nsc nro ''scaling'' = Some nsc"
  "postfix_dict nx nfd nfr nop nsc nro ''rotation'' = Some nro"
  by (simp_all add: postfix_dict_def)

lemma postfix_dict_tracked:
  "nm \<in> set tracked_names \<Longrightarrow> postfix_dict nx nfd nfr nop nsc nro nm \<noteq> None"
  by (auto simp: tracked_names_def postfix_dict_simps)

lemma group_ok_cat_cond:
  "group_ok n g \<Longrightarrow> name g = ''scene_scale'' \<or> postfix_dict nx nfd nfr nop nsc nro (name g) \<noteq> None"
  by (auto simp: group_ok_def postfix_dict_tracked)

lemma densification_postfix_Some:
  assumes "well_formed s"
  shows "densification_postfix nx nfd nfr nop nsc nro nscore nid nty s
         = Some (postfix_res nx nfd nfr nop nsc nro nscore nid nty s)"
proof -
  obtain gs where gs: "optimizer s = Some gs" using wf_optimizer[OF assms(1)] by blast
  have ok: "\<forall>g\<in>set gs. group_ok (length (xyz s)) g" and lk: "linked gs s"
    using assms(1) gs by (auto simp: well_formed_def)
  have ct: "cat_tensors_to_optimizer (postfix_dict nx nfd nfr nop nsc nro) gs
            = Some (map (cat_group_res (postfix_dict nx nfd nfr nop nsc nro)) gs)"
    using ok by (auto simp: cat_tensors_Some_iff dest: group_ok_cat_cond)
  show ?thesis
    unfolding densification_postfix_def postfix_dict_def[symmetric]
    using gs ct lk
    by (simp add: postfix_res_def ot_cat linked_def postfix_dict_simps Let_def)
qed

lemma group_ok_cat:
  assumes "group_ok n g"
    and "\<forall>nm\<in>set tracked_names. length (the (d nm)) = k"
  shows "group_ok (n + k) (cat_group_res d g)"
  using assms
  by (auto simp: group_ok_def cat_group_res_def moments_len_def zeros_like_def
           split: option.splits)

lemma wf_postfix_res:
  assumes "well_formed s"
    and "length nx = k" "length nfd = k" "length nfr = k" "length nop = k" "length nsc = k"
        "length nro = k" "length nscore = k" "length nid = k" "length nty = k"
    and "\<forall>r\<in>set nsc. length r = 3" "\<forall>r\<in>set nop. length r = 1"
  shows "well_formed (postfix_res nx nfd nfr nop nsc nro nscore nid nty s)"
proof -
  let ?d = "postfix_dict nx nfd nfr nop nsc nro"
  let ?s' = "postfix_res nx nfd nfr nop nsc nro nscore nid nty s"
  obtain gs where gs: "optimizer s = Some gs" using wf_optimizer[OF assms(1)] by blast
  have ok: "\<forall>g\<in>set gs. group_ok (length (xyz s)) g" and lk: "linked gs s"
    and al: "arrays_len (length (xyz s)) s"
    and sh: "\<forall>r\<in>set (scaling s). length r = 3" "\<forall>r\<in>set (opacity s). length r = 1"
    using assms(1) gs by (auto simp: well_formed_def)
  have dl: "\<forall>nm\<in>set tracked_names. length (the (?d nm)) = k"
    using assms(2-7) by (simp add: tracked_names_def postfix_dict_simps)
  have 1: "\<forall>g\<in>set (map (cat_group_res ?d) gs). group_ok (length (xyz s) + k) g"
    using ok dl by (auto intro!: group_ok_cat)
  have 2: "linked (map (cat_group_res ?d) gs) ?s'"
    using lk by (simp add: linked_def ot_cat postfix_res_def postfix_dict_simps)
  have 3: "arrays_len (length (xyz s) + k) ?s'"
    using al assms(2-10) by (simp add: arrays_len_def postfix_res_def)
  have 4: "\<forall>r\<in>set (scaling ?s'). length r = 3" "\<forall>r\<in>set (opacity ?s'). length r = 1"
    using sh assms(11,12) by (auto simp: postfix_res_def)
  have 5: "length (xyz ?s') = length (xyz s) + k"
    using assms(2) by (simp add: postfix_res_def)
  have 6: "extra_axes ?s' = 0"
    using assms(1) by (simp add: postfix_res_def well_formed_def)
  show ?thesis
    unfolding well_formed_def using 1 2 3 4 5 6 gs by (simp add: postfix_res_def)
qed

lemma wf_modify_id [simp]: "well_formed (s\<lparr>modify_id := x\<rparr>) = well_formed s"
  by (cases "optimizer s") (simp_all add: well_formed_def arrays_len_def linked_def)

lemma masked_iadd_map:
  "masked_iadd (map X js) (map T js) (map V (filter T js))
   = Some (map (\<lambda>i. if T i then map2 fadd (X i) (V i) else X i) js)"
  by (induction js) auto

lemma squeeze_Vector: "length m \<noteq> 1 \<Longrightarrow> squeeze m = Vector m"
  by (cases m; cases "tl m") (auto simp: squeeze_def)

lemma squeeze_Scalar [simp]: "squeeze [b] = Scalar b"
  by (simp add: squeeze_def)

lemma iadd_at_map:
  assumes "\<not> (length js = 1 \<and> \<not> T (hd js))"
  shows "iadd_at (map X js) (squeeze (map T js)) (map V (filter T js))
         = Some (map (\<lambda>i. if T i then map2 fadd (X i) (V i) else X i) js)"
proof (cases "length js = 1")
  case True
  then obtain j where js: "js = [j]" by (cases js) auto
  with assms have "T j" by simp
  thus ?thesis by (simp add: js)
next
  case False
  hence "squeeze (map T js) = Vector (map T js)" by (simp add: squeeze_Vector)
  thus ?thesis by (simp add: masked_iadd_map)
qed

lemma iadd_at_lone:
  assumes "length js = 1" and "\<not> T (hd js)"
  shows "iadd_at (map X js) (squeeze (map T js)) (map V (filter T js)) = None"
proof -
  from assms(1) obtain j where js: "js = [j]" by (cases js) auto
  with assms(2) show ?thesis by simp
qed

lemma sel_idx_and:
  assumes "length a = length b"
  shows "sel_idx (map2 (\<and>) a b) = filter (\<lambda>i. b ! i) (sel_idx a)"
proof -
  have "filter (\<lambda>i. map2 (\<and>) a b ! i) [0..<length a] = filter (\<lambda>i. a ! i \<and> b ! i) [0..<length a]"
    by (rule filter_cong) (use assms in auto)
  thus ?thesis using assms by (simp add: sel_idx_def conj_commute)
qed

lemma wf_arrays: "well_formed s \<Longrightarrow> arrays_len (length (xyz s)) s"
  by (simp add: well_formed_def)

lemma wf_scaling_rows: "well_formed s \<Longrightarrow> \<forall>r\<in>set (get_scaling s). r \<noteq> []"
  by (auto simp: well_formed_def get_scaling_def)

lemma clone_body:
  assumes w: "well_formed s" and l: "length sel = length (xyz s)"
    and ns: "\<not> lone_other (sel_idx sel) s"
  shows "do {
     let xyz_lr = Fin 1;
     new_xyz \<leftarrow> index_mask (xyz s) sel;
     new_features_dc \<leftarrow> index_mask (features_dc s) sel;
     new_features_rest \<leftarrow> index_mask (features_rest s) sel;
     new_opacities \<leftarrow> index_mask (opacity s) sel;
     new_scaling \<leftarrow> index_mask (scaling s) sel;
     new_rotation \<leftarrow> index_mask (rotation s) sel;
     new_score \<leftarrow> index_mask (score s) sel;
     new_xyz_id \<leftarrow> index_mask (xyz_id s) sel;
     new_type \<leftarrow> index_mask (ptype s) sel;
     selected_pts_mask' \<leftarrow> logical_and sel (map (\<lambda>t. feq t (Fin 1)) (ptype s));
     pga \<leftarrow> index_mask (position_gradient_accum s) selected_pts_mask';
     den \<leftarrow> index_mask (denom s) selected_pts_mask';
     new_xyz' \<leftarrow> iadd_at new_xyz (squeeze (map (\<lambda>t. feq t (Fin 1)) new_type))
                   (map2 (\<lambda>p d. map (\<lambda>x. fdiv (fmul xyz_lr x) d) p) pga den);
     densification_postfix new_xyz' new_features_dc new_features_rest new_opacities new_scaling
       new_rotation new_score new_xyz_id new_type
       (s\<lparr>modify_id := modify_id s @ new_xyz_id\<rparr>) } = Some (clone_res sel s)"
proof -
  have al: "arrays_len (length sel) s" using wf_arrays[OF w] l by simp
  let ?T = "\<lambda>i. feq (ptype s ! i) (Fin 1)"
  let ?tm = "map (\<lambda>t. feq t (Fin 1)) (ptype s)"
  have la: "logical_and sel ?tm = Some (map2 (\<and>) sel ?tm)"
    using al by (simp add: logical_and_def broadcast2_def arrays_len_def)
  have si: "sel_idx (map2 (\<and>) sel ?tm) = filter ?T (sel_idx sel)"
  proof -
    have "sel_idx (map2 (\<and>) sel ?tm) = filter (\<lambda>i. ?tm ! i) (sel_idx sel)"
      using al by (intro sel_idx_and) (simp add: arrays_len_def)
    also have "\<dots> = filter ?T (sel_idx sel)"
      by (rule filter_cong) (use al in \<open>auto dest!: sel_idx_lt simp: arrays_len_def\<close>)
    finally show ?thesis .
  qed
  have len2: "length (map2 (\<and>) sel ?tm) = length sel"
    using al by (simp add: arrays_len_def)
  have ns': "\<not> (length (sel_idx sel) = 1 \<and> \<not> ?T (hd (sel_idx sel)))"
    using ns by (simp add: lone_other_def)
  have mi: "iadd_at (pick (xyz s) sel) (squeeze (map (\<lambda>t. feq t (Fin 1)) (pick (ptype s) sel)))
              (map2 (\<lambda>p d. map (\<lambda>x. fdiv (fmul (Fin 1) x) d) p)
                 (pick (position_gradient_accum s) (map2 (\<and>) sel ?tm))
                 (pick (denom s) (map2 (\<and>) sel ?tm)))
            = Some (map (\<lambda>i. if ?T i then nudge s i else xyz s ! i) (sel_idx sel))"
    using iadd_at_map[of "sel_idx sel" ?T "\<lambda>i. xyz s ! i"
        "\<lambda>i. map (\<lambda>x. fdiv (fmul (Fin 1) x) (denom s ! i)) (position_gradient_accum s ! i)"] ns'
    by (simp add: pick_def si comp_def zip_map_map nudge_def zip_same_conv_map)
  show ?thesis
    using al la mi len2
    by (simp add: index_mask_pick arrays_len_def Let_def densification_postfix_Some w clone_res_def)
qed

lemma clone_body_lone:
  assumes w: "well_formed s" and l: "length sel = length (xyz s)"
    and ns: "lone_other (sel_idx sel) s"
  shows "do {
     let xyz_lr = Fin 1;
     new_xyz \<leftarrow> index_mask (xyz s) sel;
     new_features_dc \<leftarrow> index_mask (features_dc s) sel;
     new_features_rest \<leftarrow> index_mask (features_rest s) sel;
     new_opacities \<leftarrow> index_mask (opacity s) sel;
     new_scaling \<leftarrow> index_mask (scaling s) sel;
     new_rotation \<leftarrow> index_mask (rotation s) sel;
     new_score \<leftarrow> index_mask (score s) sel;
     new_xyz_id \<leftarrow> index_mask (xyz_id s) sel;
     new_type \<leftarrow> index_mask (ptype s) sel;
     selected_pts_mask' \<leftarrow> logical_and sel (map (\<lambda>t. feq t (Fin 1)) (ptype s));
     pga \<leftarrow> index_mask (position_gradient_accum s) selected_pts_mask';
     den \<leftarrow> index_mask (denom s) selected_pts_mask';
     new_xyz' \<leftarrow> iadd_at new_xyz (squeeze (map (\<lambda>t. feq t (Fin 1)) new_type))
                   (map2 (\<lambda>p d. map (\<lambda>x. fdiv (fmul xyz_lr x) d) p) pga den);
     densification_postfix new_xyz' new_features_dc new_features_rest new_opacities new_scaling
       new_rotation new_score new_xyz_id new_type
       (s\<lparr>modify_id := modify_id s @ new_xyz_id\<rparr>) } = None"
proof -
  have al: "arrays_len (length sel) s" using wf_arrays[OF w] l by simp
  let ?T = "\<lambda>i. feq (ptype s ! i) (Fin 1)"
  let ?tm = "map (\<lambda>t. feq t (Fin 1)) (ptype s)"
  have la: "logical_and sel ?tm = Some (map2 (\<and>) sel ?tm)"
    using al by (simp add: logical_and_def broadcast2_def arrays_len_def)
  have si: "sel_idx (map2 (\<and>) sel ?tm) = filter ?T (sel_idx sel)"
  proof -
    have "sel_idx (map2 (\<and>) sel ?tm) = filter (\<lambda>i. ?tm ! i) (sel_idx sel)"
      using al by (intro sel_idx_and) (simp add: arrays_len_def)
    also have "\<dots> = filter ?T (sel_idx sel)"
      by (rule filter_cong) (use al in \<open>auto dest!: sel_idx_lt simp: arrays_len_def\<close>)
    finally show ?thesis .
  qed
  have len2: "length (map2 (\<and>) sel ?tm) = length sel"
    using al by (simp add: arrays_len_def)
  have mi: "iadd_at (pick (xyz s) sel) (squeeze (map (\<lambda>t. feq t (Fin 1)) (pick (ptype s) sel)))
              (map2 (\<lambda>p d. map (\<lambda>x. fdiv (fmul (Fin 1) x) d) p)
                 (pick (position_gradient_accum s) (map2 (\<and>) sel ?tm))
                 (pick (denom s) (map2 (\<and>) sel ?tm)))
            = None"
    using iadd_at_lone[of "sel_idx sel" ?T "\<lambda>i. xyz s ! i"
        "\<lambda>i. map (\<lambda>x. fdiv (fmul (Fin 1) x) (denom s ! i)) (position_gradient_accum s ! i)"] ns
    by (simp add: pick_def si comp_def zip_map_map zip_same_conv_map lone_other_def)
  show ?thesis
    using al la mi len2
    by (simp add: index_mask_pick arrays_len_def Let_def)
qed

lemma wf_max_dim1: "well_formed s \<Longrightarrow> max_dim1 (get_scaling s) = Some (map max_of_row (get_scaling s))"
  by (rule max_dim1_Some) (rule wf_scaling_rows)

lemma length_get_scaling [simp]: "length (get_scaling s) = length (scaling s)"
  by (simp add: get_scaling_def)

lemma get_scaling_nth: "i < length (scaling s) \<Longrightarrow> get_scaling s ! i = map fexp (scaling s ! i)"
  by (simp add: get_scaling_def)

lemma broadcast2_length:
  "broadcast2 f xs ys = Some r \<Longrightarrow> length r = length xs \<or> length r = length ys"
  by (auto simp: broadcast2_def split: if_splits)

lemma logical_and_index:
  assumes "length pd = n" "length ms = n"
  shows "logical_and (map f pd) (map g ms) = Some (map (\<lambda>i. f (pd ! i) \<and> g (ms ! i)) [0..<n])"
  using assms by (auto simp: logical_and_def broadcast2_def intro!: nth_equalityI)

lemma clone_mask_eq:
  assumes "well_formed s" "length grads = length (xyz s)"
  shows "logical_and (map (\<lambda>g. fge (fabs g) thr) grads)
           (map (\<lambda>m. fle m (fmul (percent_dense s) ext)) (map max_of_row (get_scaling s)))
         = Some (clone_mask grads thr ext s)"
proof -
  have al: "length (scaling s) = length (xyz s)"
    using wf_arrays[OF assms(1)] by (simp add: arrays_len_def)
  have "logical_and (map (\<lambda>g. fge (fabs g) thr) grads)
           (map (\<lambda>m. fle m (fmul (percent_dense s) ext)) (map max_of_row (get_scaling s)))
        = Some (map (\<lambda>i. fge (fabs (grads ! i)) thr \<and>
                  fle (map max_of_row (get_scaling s) ! i) (fmul (percent_dense s) ext))
                [0..<length (xyz s)])"
    by (rule logical_and_index) (use assms(2) al in simp_all)
  also have "\<dots> = Some (clone_mask grads thr ext s)"
    using al by (simp add: clone_mask_def get_scaling_nth)
  finally show ?thesis .
qed

lemma wf_extra_axes: "well_formed s \<Longrightarrow> extra_axes s = 0"
  by (simp add: well_formed_def)

lemma densify_and_clone_Some:
  assumes w: "well_formed s" and l: "length grads = length (xyz s)"
    and ns: "\<not> lone_other (sel_idx (clone_mask grads thr ext s)) s"
  shows "densify_and_clone grads thr ext s = Some (clone_res (clone_mask grads thr ext s) s)"
proof -
  have ls: "length (clone_mask grads thr ext s) = length (xyz s)"
    by (simp add: clone_mask_def)
  show ?thesis
    unfolding densify_and_clone_def
    by (simp only: wf_extra_axes[OF w] simp_thms if_False wf_max_dim1[OF w] bind.simps
          clone_mask_eq[OF w l] clone_body[OF w ls ns])
qed

lemma densify_and_clone_lone:
  assumes w: "well_formed s" and l: "length grads = length (xyz s)"
    and ns: "lone_other (sel_idx (clone_mask grads thr ext s)) s"
  shows "densify_and_clone grads thr ext s = None"
proof -
  have ls: "length (clone_mask grads thr ext s) = length (xyz s)"
    by (simp add: clone_mask_def)
  show ?thesis
    unfolding densify_and_clone_def
    by (simp only: wf_extra_axes[OF w] simp_thms if_False wf_max_dim1[OF w] bind.simps
          clone_mask_eq[OF w l] clone_body_lone[OF w ls ns])
qed

lemma densify_and_clone_SomeD:
  assumes w: "well_formed s" and c: "densify_and_clone grads thr ext s = Some s'"
  shows "\<exists>sel. length sel = length (xyz s) \<and> s' = clone_res sel s"
proof -
  let ?la = "logical_and (map (\<lambda>g. fge (fabs g) thr) grads)
           (map (\<lambda>m. fle m (fmul (percent_dense s) ext)) (map max_of_row (get_scaling s)))"
  show ?thesis
  proof (cases ?la)
    case None
    with c show ?thesis
      unfolding densify_and_clone_def
      by (simp only: wf_extra_axes[OF w] simp_thms if_False wf_max_dim1[OF w] bind.simps) simp
  next
    case (Some sel)
    show ?thesis
    proof (cases "length sel = length (xyz s)")
      case True
      show ?thesis
      proof (cases "lone_other (sel_idx sel) s")
        case lone: True
        from c show ?thesis
          unfolding densify_and_clone_def
          by (simp only: wf_extra_axes[OF w] simp_thms if_False wf_max_dim1[OF w] bind.simps
                Some clone_body_lone[OF w True lone]) simp
      next
        case False
        from c have "s' = clone_res sel s"
          unfolding densify_and_clone_def
          by (simp only: wf_extra_axes[OF w] simp_thms if_False wf_max_dim1[OF w] bind.simps
                Some clone_body[OF w True False]) simp
        with True show ?thesis by blast
      qed
    next
      case False
      hence "index_mask (xyz s) sel = None" by (simp add: index_mask_def)
      with c show ?thesis
        unfolding densify_and_clone_def
        by (simp only: wf_extra_axes[OF w] simp_thms if_False wf_max_dim1[OF w] bind.simps
              Some Let_def) simp
    qed
  qed
qed

lemma length_pick_set3:
  "length m = length t \<Longrightarrow> \<forall>r\<in>set t. P r \<Longrightarrow> \<forall>r\<in>set (pick t m). P r"
  using set_pick[of m t] by auto

lemma wf_clone_res:
  assumes w: "well_formed s" and l: "length sel = length (xyz s)"
  shows "well_formed (clone_res sel s)"
proof -
  have al: "arrays_len (length sel) s" using wf_arrays[OF w] l by simp
  have sh: "\<forall>r\<in>set (scaling s). length r = 3" "\<forall>r\<in>set (opacity s). length r = 1"
    using w by (auto simp: well_formed_def)
  have a: "\<forall>r\<in>set (pick (scaling s) sel). length r = 3"
    by (rule length_pick_set3[OF _ sh(1)]) (use al in \<open>simp add: arrays_len_def\<close>)
  have b: "\<forall>r\<in>set (pick (opacity s) sel). length r = 1"
    by (rule length_pick_set3[OF _ sh(2)]) (use al in \<open>simp add: arrays_len_def\<close>)
  have w': "well_formed (s\<lparr>modify_id := modify_id s @ pick (xyz_id s) sel\<rparr>)"
    using w by simp
  show ?thesis
    unfolding clone_res_def
    by (rule wf_postfix_res[where k = "length (sel_idx sel)", OF w'])
       (simp_all add: length_pick a b)
qed

lemma length_repeat [simp]: "length (repeat n xs) = n * length xs"
  by (induction n) (simp_all add: repeat_def)

lemma set_repeat: "set (repeat n xs) \<subseteq> set xs"
  by (auto simp: repeat_def)

lemma length_torch_normal [simp]:
  "length (torch_normal smp means stds) = min (length means) (length stds)"
  by (simp add: torch_normal_def)

lemma length_bmm [simp]: "length (bmm ms vs) = min (length ms) (length vs)"
  by (simp add: bmm_def)

lemma length_split_new_xyz:
  "arrays_len (length sel) s \<Longrightarrow>
   length (split_new_xyz br smp n sel s) = n * length (sel_idx sel)"
  by (simp add: split_new_xyz_def length_pick)

lemma wf_split_grown:
  assumes w: "well_formed s" and l: "length sel = length (xyz s)"
  shows "well_formed (split_grown br smp n sel s)"
proof -
  have al: "arrays_len (length sel) s" using wf_arrays[OF w] l by simp
  have sh: "\<forall>r\<in>set (scaling s). length r = 3" "\<forall>r\<in>set (opacity s). length r = 1"
    using w by (auto simp: well_formed_def)
  have gsh: "\<forall>r\<in>set (get_scaling s). length r = 3"
    using sh by (auto simp: get_scaling_def)
  have a: "\<forall>r\<in>set (repeat n (pick (get_scaling s) sel)). length r = 3"
    using set_repeat[of n "pick (get_scaling s) sel"] set_pick[of sel "get_scaling s"] gsh al
    by (auto simp: arrays_len_def)
  have b: "\<forall>r\<in>set (repeat n (pick (opacity s) sel)). length r = 1"
    using set_repeat[of n "pick (opacity s) sel"] set_pick[of sel "opacity s"] sh al
    by (auto simp: arrays_len_def)
  show ?thesis
    unfolding split_grown_def
    apply (rule wf_postfix_res[where k = "n * length (sel_idx sel)"])
    using w al a b
    by (simp_all add: length_pick length_split_new_xyz)
qed

lemma length_xyz_split_grown:
  assumes "arrays_len (length sel) s"
  shows "length (xyz (split_grown br smp n sel s)) = length sel + n * length (filter id sel)"
  using assms
  by (simp add: split_grown_def postfix_res_def length_split_new_xyz length_sel_idx arrays_len_def)

lemma split_body:
  assumes w: "well_formed s" and l: "length sel = length (xyz s)"
  shows "do {
     sel_scaling \<leftarrow> index_mask (get_scaling s) sel;
     let stds = repeat N sel_scaling;
     let means = map (\<lambda>_. [Fin 0, Fin 0, Fin 0]) stds;
     let samples = torch_normal smp means stds;
     sel_rotation \<leftarrow> index_mask (rotation s) sel;
     let rots = repeat N (map build_rotation sel_rotation);
     sel_xyz \<leftarrow> index_mask (xyz s) sel;
     let new_xyz = map2 (map2 fadd) (bmm rots samples) (repeat N sel_xyz);
     let new_scaling = map (map (\<lambda>x. flog (fdiv x (Fin (0.8 * real N))))) (repeat N sel_scaling);
     let new_rotation = repeat N sel_rotation;
     sel_f_dc \<leftarrow> index_mask (features_dc s) sel;
     sel_f_rest \<leftarrow> index_mask (features_rest s) sel;
     sel_opacity \<leftarrow> index_mask (opacity s) sel;
     sel_score \<leftarrow> index_mask (score s) sel;
     sel_xyz_id \<leftarrow> index_mask (xyz_id s) sel;
     sel_type \<leftarrow> index_mask (ptype s) sel;
     s' \<leftarrow> densification_postfix new_xyz (repeat N sel_f_dc) (repeat N sel_f_rest)
             (repeat N sel_opacity) new_scaling new_rotation (repeat N sel_score)
             (repeat N sel_xyz_id) (repeat N sel_type)
             (s\<lparr>modify_id := modify_id s @ sel_xyz_id\<rparr>);
     let prune_filter = sel @ replicate (N * length (filter id sel)) False;
     prune_points (Vector prune_filter) s' } = Some (split_res build_rotation smp N sel s)"
proof -
  have al: "arrays_len (length sel) s" using wf_arrays[OF w] l by simp
  have wg: "well_formed (split_grown build_rotation smp N sel s)"
    by (rule wf_split_grown[OF w l])
  have pp: "prune_points (Vector (sel @ replicate (N * length (filter id sel)) False))
              (split_grown build_rotation smp N sel s)
            = Some (split_res build_rotation smp N sel s)"
    unfolding split_res_def
    by (rule prune_points_Some[OF wg]) (simp add: length_xyz_split_grown[OF al])
  show ?thesis
    using al pp
    by (simp add: index_mask_pick arrays_len_def Let_def densification_postfix_Some w
          split_grown_def split_new_xyz_def)
qed

lemma split_mask_eq:
  assumes "well_formed s" "length grads \<le> length (xyz s)"
  shows "logical_and
           (map (\<lambda>g. fge g thr) (grads @ replicate (length (xyz s) - length grads) (Fin 0)))
           (map (\<lambda>m. fgt m (fmul (percent_dense s) ext)) (map max_of_row (get_scaling s)))
         = Some (split_mask grads thr ext s)"
proof -
  have al: "length (scaling s) = length (xyz s)"
    using wf_arrays[OF assms(1)] by (simp add: arrays_len_def)
  have "logical_and
           (map (\<lambda>g. fge g thr) (grads @ replicate (length (xyz s) - length grads) (Fin 0)))
           (map (\<lambda>m. fgt m (fmul (percent_dense s) ext)) (map max_of_row (get_scaling s)))
        = Some (map (\<lambda>i. fge ((grads @ replicate (length (xyz s) - length grads) (Fin 0)) ! i) thr \<and>
                  fgt (map max_of_row (get_scaling s) ! i) (fmul (percent_dense s) ext))
                [0..<length (xyz s)])"
    by (rule logical_and_index) (use assms(2) al in simp_all)
  also have "\<dots> = Some (split_mask grads thr ext s)"
    using al by (simp add: split_mask_def get_scaling_nth)
  finally show ?thesis .
qed

lemma densify_and_split_Some:
  assumes w: "well_formed s" and l: "length grads \<le> length (xyz s)"
  shows "densify_and_split br smp grads thr ext n s
         = Some (split_res br smp n (split_mask grads thr ext s) s)"
proof -
  have ls: "length (split_mask grads thr ext s) = length (xyz s)"
    by (simp add: split_mask_def)
  have pg: "padded_grad (length (xyz s)) grads
            = Some (grads @ replicate (length (xyz s) - length grads) (Fin 0))"
    using l by (simp add: padded_grad_def)
  show ?thesis
    unfolding densify_and_split_def
    by (simp only: wf_extra_axes[OF w] simp_thms if_False Let_def[of "length (xyz s)"] pg wf_max_dim1[OF w] bind.simps
          split_mask_eq[OF w l] split_body[OF w ls])
qed

lemma densify_and_split_SomeD:
  assumes w: "well_formed s" and c: "densify_and_split br smp grads thr ext n s = Some s'"
  shows "\<exists>sel. length sel = length (xyz s) \<and> s' = split_res br smp n sel s"
proof (cases "padded_grad (length (xyz s)) grads")
  case None
  with c show ?thesis
    unfolding densify_and_split_def by (simp only: wf_extra_axes[OF w] simp_thms if_False Let_def[of "length (xyz s)"] bind.simps) simp
next
  case pg: (Some padded)
  let ?la = "logical_and (map (\<lambda>g. fge g thr) padded)
           (map (\<lambda>m. fgt m (fmul (percent_dense s) ext)) (map max_of_row (get_scaling s)))"
  show ?thesis
  proof (cases ?la)
    case None
    with c show ?thesis
      unfolding densify_and_split_def
      by (simp only: wf_extra_axes[OF w] simp_thms if_False Let_def[of "length (xyz s)"] pg wf_max_dim1[OF w] bind.simps) simp
  next
    case (Some sel)
    show ?thesis
    proof (cases "length sel = length (xyz s)")
      case True
      from c have "s' = split_res br smp n sel s"
        unfolding densify_and_split_def
        by (simp only: wf_extra_axes[OF w] simp_thms if_False Let_def[of "length (xyz s)"] pg wf_max_dim1[OF w] bind.simps Some
              split_body[OF w True]) simp
      with True show ?thesis by blast
    next
      case False
      have al: "length (scaling s) = length (xyz s)"
        using wf_arrays[OF w] by (simp add: arrays_len_def)
      from False al have "index_mask (get_scaling s) sel = None" by (simp add: index_mask_def)
      with c show ?thesis
        unfolding densify_and_split_def
        by (simp only: wf_extra_axes[OF w] simp_thms if_False Let_def[of "length (xyz s)"] pg wf_max_dim1[OF w] bind.simps Some) simp
    qed
  qed
qed

lemma wf_split_res:
  assumes w: "well_formed s" and l: "length sel = length (xyz s)"
  shows "well_formed (split_res br smp n sel s)"
proof -
  have al: "arrays_len (length sel) s" using wf_arrays[OF w] l by simp
  show ?thesis
    unfolding split_res_def
    by (rule wf_prune_points_res[OF wf_split_grown[OF w l]])
       (simp add: length_xyz_split_grown[OF al])
qed

lemma fmul_one [simp]: "fmul (Fin 1) x = x"
  by (cases x) (simp_all add: inf_of_sign_def)

lemma nudge_eq: "nudge s i = nudged_position s i"
  by (simp add: nudge_def nudged_position_def)

lemma sel_idx_clone_mask: "sel_idx (clone_mask grads thr ext s) = clone_selected grads thr ext s"
  by (simp add: clone_mask_def clone_selected_def sel_idx_map physical_scale_def)

lemma pick_clone_mask:
  "pick t (clone_mask grads thr ext s) = map (\<lambda>i. t ! i) (clone_selected grads thr ext s)"
  by (simp add: pick_def sel_idx_clone_mask)

lemma wf_demo_store: "well_formed demo_store"
  by (simp add: well_formed_def demo_store_def demo_group_def group_ok_def tracked_names_def
        moments_len_def linked_def optimizable_tensors_def arrays_len_def)

lemma well_formed_training_setup: "shaped s \<Longrightarrow> well_formed (training_setup a s)"
  by (simp add: shaped_def well_formed_def training_setup_def group_ok_def tracked_names_def
        moments_len_def linked_def optimizable_tensors_def arrays_len_def)

lemma concat_singletons:
  "\<forall>r\<in>set t. length r = 1 \<Longrightarrow> concat (map (map f) t) = map (\<lambda>r. f (hd r)) t"
proof (induction t)
  case Nil
  then show ?case by simp
next
  case (Cons r t)
  then obtain x where "r = [x]" by (cases r) auto
  with Cons show ?case by simp
qed

lemma logical_or_index:
  assumes "length a = n" "length b = n"
  shows "logical_or a b = Some (map (\<lambda>i. a ! i \<or> b ! i) [0..<n])"
  using assms by (auto simp: logical_or_def broadcast2_def intro!: nth_equalityI)

lemma opacity_mask:
  assumes "well_formed s"
  shows "concat (map (map (\<lambda>x. flt x mo)) (get_opacity s))
         = map (\<lambda>i. flt (physical_opacity s i) mo) [0..<length (xyz s)]"
proof -
  have sh: "\<forall>r\<in>set (opacity s). length r = 1" and l: "length (opacity s) = length (xyz s)"
    using assms by (auto simp: well_formed_def arrays_len_def)
  have "concat (map (map (\<lambda>x. flt x mo)) (get_opacity s))
        = map (\<lambda>r. flt (sigmoid (hd r)) mo) (opacity s)"
    unfolding get_opacity_def map_map comp_def
    using concat_singletons[OF sh, of "\<lambda>x. flt (sigmoid x) mo"] by (simp add: comp_def)
  also have "\<dots> = map (\<lambda>i. flt (physical_opacity s i) mo) [0..<length (xyz s)]"
    using l by (auto simp: physical_opacity_def intro!: nth_equalityI)
  finally show ?thesis .
qed

lemma prune_mask_of_truthy:
  assumes w: "well_formed s" and True: "truthy mss"
  shows "prune_mask_of mo ext mss s
         = Some (Vector (map (removal_pred mo ext mss s) [0..<length (xyz s)]))"
proof -
  let ?n = "length (xyz s)"
  let ?a = "map (\<lambda>i. flt (physical_opacity s i) mo) [0..<?n]"
  let ?b = "map (\<lambda>r. fgt r (the mss)) (max_radii2D s)"
  let ?c = "map (\<lambda>m. fgt m (fmul (Fin 0.1) ext)) (map max_of_row (get_scaling s))"
  have al: "length (max_radii2D s) = ?n" "length (scaling s) = ?n"
    using wf_arrays[OF w] by (simp_all add: arrays_len_def)
  have 1: "logical_or ?a ?b = Some (map (\<lambda>i. ?a ! i \<or> ?b ! i) [0..<?n])"
    by (rule logical_or_index) (simp_all add: al)
  have 2: "logical_or (map (\<lambda>i. ?a ! i \<or> ?b ! i) [0..<?n]) ?c
           = Some (map (\<lambda>i. map (\<lambda>i. ?a ! i \<or> ?b ! i) [0..<?n] ! i \<or> ?c ! i) [0..<?n])"
    by (rule logical_or_index) (simp_all add: al)
  have 3: "map (\<lambda>i. map (\<lambda>i. ?a ! i \<or> ?b ! i) [0..<?n] ! i \<or> ?c ! i) [0..<?n]
           = map (removal_pred mo ext mss s) [0..<?n]"
    using True al
    by (auto simp: removal_pred_def get_scaling_nth physical_scale_def)
  show ?thesis
    using True
    by (simp only: prune_mask_of_def Let_def opacity_mask[OF w] wf_max_dim1[OF w] bind.simps
          if_True wf_extra_axes[OF w] simp_thms if_False 1 2 3)
qed

lemma prune_mask_of_falsy:
  assumes w: "well_formed s" and False: "\<not> truthy mss"
  shows "prune_mask_of mo ext mss s
         = Some (squeeze (map (removal_pred mo ext mss s) [0..<length (xyz s)]))"
proof -
  have "map (\<lambda>i. flt (physical_opacity s i) mo) [0..<length (xyz s)]
        = map (removal_pred mo ext mss s) [0..<length (xyz s)]"
    using False by (simp add: removal_pred_def)
  hence e: "squeeze (map (\<lambda>i. flt (physical_opacity s i) mo) [0..<length (xyz s)])
        = squeeze (map (removal_pred mo ext mss s) [0..<length (xyz s)])"
    by (rule arg_cong)
  show ?thesis
    by (simp only: prune_mask_of_def Let_def opacity_mask[OF w] False if_False bind.simps e)
qed

lemma prune_mask_of_Some:
  assumes w: "well_formed s" and n: "length (xyz s) \<noteq> 1 \<or> truthy mss"
  shows "prune_mask_of mo ext mss s
         = Some (Vector (map (removal_pred mo ext mss s) [0..<length (xyz s)]))"
proof (cases "truthy mss")
  case True
  then show ?thesis by (rule prune_mask_of_truthy[OF w])
next
  case False
  with n have "length (map (removal_pred mo ext mss s) [0..<length (xyz s)]) \<noteq> 1" by simp
  from squeeze_Vector[OF this] prune_mask_of_falsy[OF w False, of mo ext]
  show ?thesis by simp
qed



lemma upt_0_3: "[0..<3] = [0, 1, 2]"
  by code_simp

lemma prune_pass_Some:
  assumes w: "well_formed s" and n: "length (xyz s) \<noteq> 1 \<or> truthy mss"
  shows "prune_pass mo ext mss s
         = Some (prune_points_res (map (removal_pred mo ext mss s) [0..<length (xyz s)]) s)"
  unfolding prune_pass_def
  by (simp only: prune_mask_of_Some[OF w n] bind.simps)
     (rule prune_points_Some[OF w], simp)

text \<open>A population of one without the size tests: the mask is 0-dim.\<close>

lemma prune_pass_lone:
  assumes w: "well_formed s" and n: "length (xyz s) = 1" and f: "\<not> truthy mss"
  shows "prune_pass mo ext mss s
         = Some (prune_points_scalar_res (removal_pred mo ext mss s 0) s)"
proof -
  have "map (removal_pred mo ext mss s) [0..<length (xyz s)] = [removal_pred mo ext mss s 0]"
    by (simp add: n)
  hence "prune_mask_of mo ext mss s = Some (Scalar (removal_pred mo ext mss s 0))"
    using prune_mask_of_falsy[OF w f, of mo ext] by simp
  thus ?thesis
    unfolding prune_pass_def by (simp add: prune_points_Scalar[OF w])
qed

lemma repeat_map: "repeat n (map f xs) = map f (repeat n xs)"
  by (simp add: repeat_def map_concat)

lemma pick_append_True:
  assumes "length m = length xs" and "length ys = k"
  shows "pick (xs @ ys) (m @ replicate k True) = pick xs m @ ys"
proof -
  have "index_mask (xs @ ys) (m @ replicate k True) = Some (pick xs m @ ys)"
    using assms index_mask_pick[of m xs]
    by (simp add: index_mask_def zip_replicate2 filter_map comp_def)
  thus ?thesis by (simp add: index_mask_Some_iff)
qed

lemma sel_idx_split_mask: "sel_idx (split_mask grads thr ext s) = split_selected grads thr ext s"
  by (simp add: split_mask_def split_selected_def sel_idx_map physical_scale_def split_pred_def)

lemma pick_split_mask:
  "pick t (split_mask grads thr ext s) = map (\<lambda>i. t ! i) (split_selected grads thr ext s)"
  by (simp add: pick_def sel_idx_split_mask)

lemma split_mask_not:
  "map Not (split_mask grads thr ext s)
   = map (\<lambda>i. \<not> split_pred grads thr ext s i) [0..<length (xyz s)]"
  by (simp add: split_mask_def split_pred_def physical_scale_def)

lemma pick_split_kept:
  "length t = length (xyz s) \<Longrightarrow>
   pick t (map Not (split_mask grads thr ext s)) = map (\<lambda>i. t ! i) (split_kept grads thr ext s)"
  unfolding split_mask_not split_kept_def pick_def
  using sel_idx_map[of "\<lambda>i. \<not> split_pred grads thr ext s i" "length (xyz s)"] by simp

lemma repeat_pick_split:
  "repeat n (pick t (split_mask grads thr ext s))
   = map (\<lambda>i. t ! i) (split_parents n grads thr ext s)"
  by (simp add: pick_split_mask repeat_map split_parents_def)

lemma set_split_parents:
  "p \<in> set (split_parents n grads thr ext s) \<Longrightarrow> p < length (xyz s)"
  using set_repeat[of n "split_selected grads thr ext s"]
  by (auto simp: split_parents_def split_selected_def)

lemma torch_normal_row:
  assumes "length sd = 3"
  shows "map (\<lambda>(j, mu, sigma). smp i j mu sigma) (zip [0..<length sd] (zip [Fin 0, Fin 0, Fin 0] sd))
         = [smp i 0 (Fin 0) (sd ! 0), smp i 1 (Fin 0) (sd ! 1), smp i 2 (Fin 0) (sd ! 2)]"
proof -
  from assms obtain a b c where sd: "sd = [a, b, c]"
    by (cases sd; cases "tl sd"; cases "tl (tl sd)") auto
  show ?thesis unfolding sd by (simp add: upt_0_3 numeral_2_eq_2)
qed

lemma split_new_xyz_children:
  assumes w: "well_formed s"
  shows "split_new_xyz br smp n (split_mask grads thr ext s) s
         = map (\<lambda>(j, p). child_xyz br smp s j p) (enumerate 0 (split_parents n grads thr ext s))"
proof -
  let ?ps = "split_parents n grads thr ext s"
  have al: "length (scaling s) = length (xyz s)" "length (rotation s) = length (xyz s)"
    using wf_arrays[OF w] by (simp_all add: arrays_len_def)
  have sh: "\<forall>r\<in>set (scaling s). length r = 3" using w by (simp add: well_formed_def)
  have row: "\<And>p. p < length (xyz s) \<Longrightarrow> length (get_scaling s ! p) = 3"
    using sh al by (simp add: get_scaling_nth)
  have unf: "split_new_xyz br smp n (split_mask grads thr ext s) s
     = map2 (map2 fadd)
         (bmm (map (\<lambda>i. br (rotation s ! i)) ?ps)
              (torch_normal smp (map (\<lambda>_. [Fin 0, Fin 0, Fin 0]) ?ps)
                 (map (\<lambda>i. get_scaling s ! i) ?ps)))
         (map (\<lambda>i. xyz s ! i) ?ps)"
    by (simp add: split_new_xyz_def repeat_pick_split repeat_map[symmetric] comp_def)
       (simp add: repeat_map pick_split_mask split_parents_def comp_def)
  show ?thesis
    unfolding unf
  proof (rule nth_equalityI)
    show "length (map2 (map2 fadd)
         (bmm (map (\<lambda>i. br (rotation s ! i)) ?ps)
              (torch_normal smp (map (\<lambda>_. [Fin 0, Fin 0, Fin 0]) ?ps)
                 (map (\<lambda>i. get_scaling s ! i) ?ps)))
         (map (\<lambda>i. xyz s ! i) ?ps))
       = length (map (\<lambda>(j, p). child_xyz br smp s j p) (enumerate 0 ?ps))"
      by simp
  next
    fix j
    assume "j < length (map2 (map2 fadd)
         (bmm (map (\<lambda>i. br (rotation s ! i)) ?ps)
              (torch_normal smp (map (\<lambda>_. [Fin 0, Fin 0, Fin 0]) ?ps)
                 (map (\<lambda>i. get_scaling s ! i) ?ps)))
         (map (\<lambda>i. xyz s ! i) ?ps))"
    hence j: "j < length ?ps" by simp
    hence p: "?ps ! j < length (xyz s)"
      by (intro set_split_parents[of _ n grads thr ext s] nth_mem)
    have tn: "torch_normal smp (map (\<lambda>_. [Fin 0, Fin 0, Fin 0]) ?ps)
                 (map (\<lambda>i. get_scaling s ! i) ?ps) ! j = child_sample smp s j (?ps ! j)"
      using j p al torch_normal_row[OF row[OF p], of smp j]
      by (simp add: torch_normal_def child_sample_def physical_scale_def get_scaling_nth)
    show "map2 (map2 fadd)
         (bmm (map (\<lambda>i. br (rotation s ! i)) ?ps)
              (torch_normal smp (map (\<lambda>_. [Fin 0, Fin 0, Fin 0]) ?ps)
                 (map (\<lambda>i. get_scaling s ! i) ?ps)))
         (map (\<lambda>i. xyz s ! i) ?ps) ! j
       = map (\<lambda>(j, p). child_xyz br smp s j p) (enumerate 0 ?ps) ! j"
      using j tn by (simp add: bmm_def child_xyz_def nth_enumerate_eq)
  qed
qed

lemma split_new_scaling_children:
  assumes w: "well_formed s"
  shows "map (map (\<lambda>x. flog (fdiv x (Fin (0.8 * real n)))))
           (repeat n (pick (get_scaling s) (split_mask grads thr ext s)))
         = map (child_scaling n s) (split_parents n grads thr ext s)"
proof -
  have al: "length (scaling s) = length (xyz s)"
    using wf_arrays[OF w] by (simp_all add: arrays_len_def)
  show ?thesis
    unfolding repeat_pick_split
    using al set_split_parents[of _ n grads thr ext s]
    by (auto simp: child_scaling_def physical_scale_def get_scaling_nth)
qed

lemma split_field:
  assumes "length t = length (xyz s)" and "length new = n * length (filter id sel)"
    and "length sel = length (xyz s)"
  shows "pick (t @ new) (map Not (sel @ replicate (n * length (filter id sel)) False))
         = pick t (map Not sel) @ new"
  using pick_append_True[of "map Not sel" t new "n * length (filter id sel)"] assms by simp

lemma length_split_selected:
  "length (split_selected grads thr ext s) = length (filter id (split_mask grads thr ext s))"
  using length_sel_idx[of "split_mask grads thr ext s"] by (simp add: sel_idx_split_mask)

lemma length_split_parents:
  "length (split_parents n grads thr ext s) = n * length (split_selected grads thr ext s)"
  by (simp add: split_parents_def)

lemma split_res_field:
  assumes "length t = length (xyz s)"
    and "length new = length (split_parents n grads thr ext s)"
  shows "pick (t @ new)
           (map Not (split_mask grads thr ext s @
              replicate (n * length (filter id (split_mask grads thr ext s))) False))
         = map (\<lambda>i. t ! i) (split_kept grads thr ext s) @ new"
proof -
  have "pick (t @ new)
           (map Not (split_mask grads thr ext s @
              replicate (n * length (filter id (split_mask grads thr ext s))) False))
        = pick t (map Not (split_mask grads thr ext s)) @ new"
    by (rule split_field[OF assms(1)])
       (simp_all add: assms(2) length_split_parents length_split_selected split_mask_def)
  thus ?thesis by (simp only: pick_split_kept[OF assms(1)])
qed

lemma prune_points_res_sel:
  "xyz (prune_points_res m s) = pick (xyz s) (map Not m)"
  "features_dc (prune_points_res m s) = pick (features_dc s) (map Not m)"
  "features_rest (prune_points_res m s) = pick (features_rest s) (map Not m)"
  "opacity (prune_points_res m s) = pick (opacity s) (map Not m)"
  "scaling (prune_points_res m s) = pick (scaling s) (map Not m)"
  "rotation (prune_points_res m s) = pick (rotation s) (map Not m)"
  "score (prune_points_res m s) = pick (score s) (map Not m)"
  "xyz_id (prune_points_res m s) = pick (xyz_id s) (map Not m)"
  "ptype (prune_points_res m s) = pick (ptype s) (map Not m)"
  "xyz_gradient_accum (prune_points_res m s) = pick (xyz_gradient_accum s) (map Not m)"
  "position_gradient_accum (prune_points_res m s) = pick (position_gradient_accum s) (map Not m)"
  "denom (prune_points_res m s) = pick (denom s) (map Not m)"
  "max_radii2D (prune_points_res m s) = pick (max_radii2D s) (map Not m)"
  "scene_scale (prune_points_res m s) = scene_scale s"
  "modify_id (prune_points_res m s) = modify_id s"
  "normal (prune_points_res m s) = normal s"
  "percent_dense (prune_points_res m s) = percent_dense s"
  "optimizer (prune_points_res m s)
   = Some (map (prune_group_res (map Not m)) (the (optimizer s)))"
  by (simp_all add: prune_points_res_def)

lemma postfix_res_sel:
  "xyz (postfix_res nx nfd nfr nop nsc nro nscore nid nty s) = xyz s @ nx"
  "features_dc (postfix_res nx nfd nfr nop nsc nro nscore nid nty s) = features_dc s @ nfd"
  "features_rest (postfix_res nx nfd nfr nop nsc nro nscore nid nty s) = features_rest s @ nfr"
  "opacity (postfix_res nx nfd nfr nop nsc nro nscore nid nty s) = opacity s @ nop"
  "scaling (postfix_res nx nfd nfr nop nsc nro nscore nid nty s) = scaling s @ nsc"
  "rotation (postfix_res nx nfd nfr nop nsc nro nscore nid nty s) = rotation s @ nro"
  "score (postfix_res nx nfd nfr nop nsc nro nscore nid nty s) = score s @ nscore"
  "xyz_id (postfix_res nx nfd nfr nop nsc nro nscore nid nty s) = xyz_id s @ nid"
  "ptype (postfix_res nx nfd nfr nop nsc nro nscore nid nty s) = ptype s @ nty"
  "xyz_gradient_accum (postfix_res nx nfd nfr nop nsc nro nscore nid nty s)
   = replicate (length (xyz s) + length nx) (Fin 0)"
  "position_gradient_accum (postfix_res nx nfd nfr nop nsc nro nscore nid nty s)
   = replicate (length (xyz s) + length nx) [Fin 0, Fin 0, Fin 0]"
  "denom (postfix_res nx nfd nfr nop nsc nro nscore nid nty s)
   = replicate (length (xyz s) + length nx) (Fin 0)"
  "max_radii2D (postfix_res nx nfd nfr nop nsc nro nscore nid nty s)
   = replicate (length (xyz s) + length nx) (Fin 0)"
  "scene_scale (postfix_res nx nfd nfr nop nsc nro nscore nid nty s) = scene_scale s"
  "modify_id (postfix_res nx nfd nfr nop nsc nro nscore nid nty s) = modify_id s"
  "normal (postfix_res nx nfd nfr nop nsc nro nscore nid nty s) = normal s"
  "percent_dense (postfix_res nx nfd nfr nop nsc nro nscore nid nty s) = percent_dense s"
  "optimizer (postfix_res nx nfd nfr nop nsc nro nscore nid nty s)
   = Some (map (cat_group_res (postfix_dict nx nfd nfr nop nsc nro)) (the (optimizer s)))"
  by (simp_all add: postfix_res_def)

lemma modify_id_update_sel:
  "xyz (s\<lparr>modify_id := x\<rparr>) = xyz s"
  "features_dc (s\<lparr>modify_id := x\<rparr>) = features_dc s"
  "features_rest (s\<lparr>modify_id := x\<rparr>) = features_rest s"
  "opacity (s\<lparr>modify_id := x\<rparr>) = opacity s"
  "scaling (s\<lparr>modify_id := x\<rparr>) = scaling s"
  "rotation (s\<lparr>modify_id := x\<rparr>) = rotation s"
  "score (s\<lparr>modify_id := x\<rparr>) = score s"
  "xyz_id (s\<lparr>modify_id := x\<rparr>) = xyz_id s"
  "ptype (s\<lparr>modify_id := x\<rparr>) = ptype s"
  by simp_all

lemma split_res_xyz:
  assumes w: "well_formed s"
  shows "xyz (split_res br smp n (split_mask grads thr ext s) s) = map (\<lambda>i. xyz s ! i) (split_kept grads thr ext s) @
                 map (\<lambda>(j, p). child_xyz br smp s j p) (enumerate 0 (split_parents n grads thr ext s))"
  unfolding split_res_def split_grown_def split_new_xyz_children[OF w]
    prune_points_res_sel postfix_res_sel modify_id_update_sel
  by (rule split_res_field) simp_all

lemma split_res_scaling:
  assumes w: "well_formed s"
  shows "scaling (split_res br smp n (split_mask grads thr ext s) s) = map (\<lambda>i. scaling s ! i) (split_kept grads thr ext s) @ map (child_scaling n s) (split_parents n grads thr ext s)"
proof -
  have l: "length (scaling s) = length (xyz s)"
    using wf_arrays[OF w] by (simp add: arrays_len_def)
  show ?thesis
    unfolding split_res_def split_grown_def split_new_scaling_children[OF w]
      prune_points_res_sel postfix_res_sel modify_id_update_sel
    by (rule split_res_field) (simp_all add: l)
qed

lemma split_res_features_dc:
  assumes w: "well_formed s"
  shows "features_dc (split_res br smp n (split_mask grads thr ext s) s) = map (\<lambda>i. features_dc s ! i) (split_kept grads thr ext s) @ map (\<lambda>i. features_dc s ! i) (split_parents n grads thr ext s)"
proof -
  have l: "length (features_dc s) = length (xyz s)"
    using wf_arrays[OF w] by (simp add: arrays_len_def)
  show ?thesis
    unfolding split_res_def split_grown_def repeat_pick_split
      prune_points_res_sel postfix_res_sel modify_id_update_sel
    by (rule split_res_field) (simp_all add: l)
qed

lemma split_res_features_rest:
  assumes w: "well_formed s"
  shows "features_rest (split_res br smp n (split_mask grads thr ext s) s) = map (\<lambda>i. features_rest s ! i) (split_kept grads thr ext s) @ map (\<lambda>i. features_rest s ! i) (split_parents n grads thr ext s)"
proof -
  have l: "length (features_rest s) = length (xyz s)"
    using wf_arrays[OF w] by (simp add: arrays_len_def)
  show ?thesis
    unfolding split_res_def split_grown_def repeat_pick_split
      prune_points_res_sel postfix_res_sel modify_id_update_sel
    by (rule split_res_field) (simp_all add: l)
qed

lemma split_res_opacity:
  assumes w: "well_formed s"
  shows "opacity (split_res br smp n (split_mask grads thr ext s) s) = map (\<lambda>i. opacity s ! i) (split_kept grads thr ext s) @ map (\<lambda>i. opacity s ! i) (split_parents n grads thr ext s)"
proof -
  have l: "length (opacity s) = length (xyz s)"
    using wf_arrays[OF w] by (simp add: arrays_len_def)
  show ?thesis
    unfolding split_res_def split_grown_def repeat_pick_split
      prune_points_res_sel postfix_res_sel modify_id_update_sel
    by (rule split_res_field) (simp_all add: l)
qed

lemma split_res_rotation:
  assumes w: "well_formed s"
  shows "rotation (split_res br smp n (split_mask grads thr ext s) s) = map (\<lambda>i. rotation s ! i) (split_kept grads thr ext s) @ map (\<lambda>i. rotation s ! i) (split_parents n grads thr ext s)"
proof -
  have l: "length (rotation s) = length (xyz s)"
    using wf_arrays[OF w] by (simp add: arrays_len_def)
  show ?thesis
    unfolding split_res_def split_grown_def repeat_pick_split
      prune_points_res_sel postfix_res_sel modify_id_update_sel
    by (rule split_res_field) (simp_all add: l)
qed

lemma split_res_score:
  assumes w: "well_formed s"
  shows "score (split_res br smp n (split_mask grads thr ext s) s) = map (\<lambda>i. score s ! i) (split_kept grads thr ext s) @ map (\<lambda>i. score s ! i) (split_parents n grads thr ext s)"
proof -
  have l: "length (score s) = length (xyz s)"
    using wf_arrays[OF w] by (simp add: arrays_len_def)
  show ?thesis
    unfolding split_res_def split_grown_def repeat_pick_split
      prune_points_res_sel postfix_res_sel modify_id_update_sel
    by (rule split_res_field) (simp_all add: l)
qed

lemma split_res_xyz_id:
  assumes w: "well_formed s"
  shows "xyz_id (split_res br smp n (split_mask grads thr ext s) s) = map (\<lambda>i. xyz_id s ! i) (split_kept grads thr ext s) @ map (\<lambda>i. xyz_id s ! i) (split_parents n grads thr ext s)"
proof -
  have l: "length (xyz_id s) = length (xyz s)"
    using wf_arrays[OF w] by (simp add: arrays_len_def)
  show ?thesis
    unfolding split_res_def split_grown_def repeat_pick_split
      prune_points_res_sel postfix_res_sel modify_id_update_sel
    by (rule split_res_field) (simp_all add: l)
qed

lemma split_res_ptype:
  assumes w: "well_formed s"
  shows "ptype (split_res br smp n (split_mask grads thr ext s) s) = map (\<lambda>i. ptype s ! i) (split_kept grads thr ext s) @ map (\<lambda>i. ptype s ! i) (split_parents n grads thr ext s)"
proof -
  have l: "length (ptype s) = length (xyz s)"
    using wf_arrays[OF w] by (simp add: arrays_len_def)
  show ?thesis
    unfolding split_res_def split_grown_def repeat_pick_split
      prune_points_res_sel postfix_res_sel modify_id_update_sel
    by (rule split_res_field) (simp_all add: l)
qed

lemma length_split_kept:
  "length (split_kept grads thr ext s) + length (split_selected grads thr ext s) = length (xyz s)"
  using sum_length_filter_compl[of "\<lambda>i. split_pred grads thr ext s i" "[0..<length (xyz s)]"]
  by (simp add: split_kept_def split_selected_def)

lemma well_formed_tracked: "well_formed s \<Longrightarrow> tracked_consistent s"
  by (auto simp: well_formed_def tracked_consistent_def arrays_len_def group_ok_def
           split: option.splits)

lemma filter_scene_scale_map:
  assumes "\<And>g. name (h g) = name g" and "\<And>g. name g = ''scene_scale'' \<Longrightarrow> h g = g"
  shows "filter (\<lambda>g. name g = ''scene_scale'') (map h gs) = filter (\<lambda>g. name g = ''scene_scale'') gs"
  by (induction gs) (simp_all add: assms)

lemma scene_scale_groups_prune:
  "optimizer s = Some gs \<Longrightarrow> scene_scale_groups (prune_points_res m s) = scene_scale_groups s"
  by (simp add: scene_scale_groups_def prune_points_res_sel)
     (rule filter_scene_scale_map; simp add: prune_group_res_def)

lemma scene_scale_groups_postfix:
  "optimizer s = Some gs \<Longrightarrow>
   scene_scale_groups (postfix_res nx nfd nfr nop nsc nro nscore nid nty s) = scene_scale_groups s"
  by (simp add: scene_scale_groups_def postfix_res_sel)
     (rule filter_scene_scale_map; simp add: cat_group_res_def)

lemma scene_scale_groups_modify_id [simp]:
  "scene_scale_groups (s\<lparr>modify_id := x\<rparr>) = scene_scale_groups s"
  by (simp add: scene_scale_groups_def)

lemma scene_scale_clone_res:
  assumes "well_formed s"
  shows "scene_scale_groups (clone_res sel s) = scene_scale_groups s"
    and "scene_scale (clone_res sel s) = scene_scale s"
proof -
  obtain gs where gs: "optimizer s = Some gs" using wf_optimizer[OF assms] by blast
  hence "optimizer (s\<lparr>modify_id := modify_id s @ pick (xyz_id s) sel\<rparr>) = Some gs" by simp
  from scene_scale_groups_postfix[OF this]
  show "scene_scale_groups (clone_res sel s) = scene_scale_groups s"
    unfolding clone_res_def by simp
  show "scene_scale (clone_res sel s) = scene_scale s"
    unfolding clone_res_def postfix_res_sel by simp
qed

lemma scene_scale_split_res:
  assumes "well_formed s"
  shows "scene_scale_groups (split_res br smp n sel s) = scene_scale_groups s"
    and "scene_scale (split_res br smp n sel s) = scene_scale s"
proof -
  obtain gs where gs: "optimizer s = Some gs" using wf_optimizer[OF assms] by blast
  hence m: "optimizer (s\<lparr>modify_id := modify_id s @ pick (xyz_id s) sel\<rparr>) = Some gs" by simp
  have g: "scene_scale_groups (split_grown br smp n sel s) = scene_scale_groups s"
    unfolding split_grown_def using scene_scale_groups_postfix[OF m] by simp
  have "\<exists>gs'. optimizer (split_grown br smp n sel s) = Some gs'"
    unfolding split_grown_def postfix_res_sel by simp
  then obtain gs' where "optimizer (split_grown br smp n sel s) = Some gs'" by blast
  from scene_scale_groups_prune[OF this] g
  show "scene_scale_groups (split_res br smp n sel s) = scene_scale_groups s"
    unfolding split_res_def by simp
  show "scene_scale (split_res br smp n sel s) = scene_scale s"
    unfolding split_res_def split_grown_def prune_points_res_sel postfix_res_sel by simp
qed

lemma apply_op_invariant:
  assumes w: "well_formed s" and a: "apply_op x s = Some s'"
  shows "well_formed s' \<and> scene_scale_groups s' = scene_scale_groups s \<and>
         scene_scale s' = scene_scale s"
proof (cases x)
  case (Clone grads thr ext)
  with a have "densify_and_clone grads thr ext s = Some s'" by simp
  from densify_and_clone_SomeD[OF w this] obtain sel where
    "length sel = length (xyz s)" "s' = clone_res sel s" by blast
  thus ?thesis using wf_clone_res[OF w] scene_scale_clone_res[OF w] by simp
next
  case (Split br smp grads thr ext n)
  with a have "densify_and_split br smp grads thr ext n s = Some s'" by simp
  from densify_and_split_SomeD[OF w this] obtain sel where
    "length sel = length (xyz s)" "s' = split_res br smp n sel s" by blast
  thus ?thesis using wf_split_res[OF w] scene_scale_split_res[OF w] by simp
next
  case (Prune msk)
  with a have p: "prune_points (Vector msk) s = Some s'" by simp
  have l: "length msk = length (xyz s)" by (rule prune_points_length[OF w p])
  from p prune_points_Some[OF w l] have s': "s' = prune_points_res msk s" by simp
  obtain gs where gs: "optimizer s = Some gs" using wf_optimizer[OF w] by blast
  show ?thesis
    unfolding s'
    using wf_prune_points_res[OF w l] scene_scale_groups_prune[OF gs]
    by (simp add: prune_points_res_sel)
qed

lemma run_ops_invariant:
  "well_formed s \<Longrightarrow> run_ops ops s = Some s' \<Longrightarrow>
   well_formed s' \<and> scene_scale_groups s' = scene_scale_groups s \<and> scene_scale s' = scene_scale s"
proof (induction ops arbitrary: s)
  case Nil
  then show ?case by simp
next
  case (Cons x xs)
  from Cons.prems(2) obtain s1 where 1: "apply_op x s = Some s1" and 2: "run_ops xs s1 = Some s'"
    by (auto simp: bind_eq_Some_conv)
  from apply_op_invariant[OF Cons.prems(1) 1] Cons.IH[OF _ 2] show ?case by simp
qed

lemma avg_grads_Some:
  "length (xyz_gradient_accum s) = length (denom s) \<Longrightarrow> avg_grads s = Some (avg_of s)"
  by (simp add: avg_grads_def avg_of_def broadcast2_def)

lemma wf_avg_grads: "well_formed s \<Longrightarrow> avg_grads s = Some (avg_of s)"
  by (rule avg_grads_Some) (use wf_arrays[of s] in \<open>simp add: arrays_len_def\<close>)

lemma length_avg_of: "well_formed s \<Longrightarrow> length (avg_of s) = length (xyz s)"
  using wf_arrays[of s] by (simp add: avg_of_def arrays_len_def)

lemma wf_dap_reset: "well_formed s \<Longrightarrow> well_formed (dap_reset s)"
  by (cases "optimizer s")
     (simp_all add: dap_reset_def reset_xyz_id_def well_formed_def arrays_len_def linked_def)

lemma xyz_dap_reset [simp]: "xyz (dap_reset s) = xyz s"
  by (simp add: dap_reset_def reset_xyz_id_def)

lemma wf_dap_cloned: "well_formed s \<Longrightarrow> well_formed (dap_cloned thr ext s)"
  unfolding dap_cloned_def
  by (rule wf_clone_res[OF wf_dap_reset]) (simp_all add: clone_mask_def)

lemma length_xyz_dap_cloned:
  "length (xyz (dap_cloned thr ext s))
   = length (xyz s) + length (clone_selected (avg_of s) thr ext (dap_reset s))"
  unfolding dap_cloned_def clone_res_def postfix_res_sel by (simp add: sel_idx_clone_mask)

lemma wf_dap_split: "well_formed s \<Longrightarrow> well_formed (dap_split br smp thr ext s)"
  unfolding dap_split_def
  by (rule wf_split_res[OF wf_dap_cloned]) (simp_all add: split_mask_def)

lemma wf_dap_pruned: "well_formed s \<Longrightarrow> well_formed (dap_pruned br smp thr mo ext mss s)"
  unfolding dap_pruned_def
  by (rule wf_prune_points_res[OF wf_dap_split]) simp_all

lemma lone_other_dap_reset [simp]: "lone_other idx (dap_reset s) = lone_other idx s"
  by (simp add: lone_other_def dap_reset_def reset_xyz_id_def)

lemma densify_and_prune_passes:
  assumes w: "well_formed s"
    and ns: "\<not> lone_other (clone_selected (avg_of s) thr ext (dap_reset s)) s"
  shows "densify_and_prune br smp en thr mo ext mss s
         = do { s3 \<leftarrow> prune_pass mo ext mss (dap_split br smp thr ext s);
                if extra_axes s3 \<noteq> 0 \<and> xyz s3 \<noteq> [] then None
                else Some (s3\<lparr>normal := NumpyArray (en (xyz s3))\<rparr>) }"
proof -
  have w0: "well_formed (dap_reset s)" by (rule wf_dap_reset[OF w])
  have l0: "length (avg_of s) = length (xyz (dap_reset s))" by (simp add: length_avg_of[OF w])
  have ns0: "\<not> lone_other (sel_idx (clone_mask (avg_of s) thr ext (dap_reset s))) (dap_reset s)"
    using ns by (simp add: sel_idx_clone_mask)
  have 1: "densify_and_clone (avg_of s) thr ext (dap_reset s) = Some (dap_cloned thr ext s)"
    unfolding dap_cloned_def by (rule densify_and_clone_Some[OF w0 l0 ns0])
  have w1: "well_formed (dap_cloned thr ext s)" by (rule wf_dap_cloned[OF w])
  have l1: "length (avg_of s) \<le> length (xyz (dap_cloned thr ext s))"
    by (simp add: length_xyz_dap_cloned length_avg_of[OF w])
  have 2: "densify_and_split br smp (avg_of s) thr ext 2 (dap_cloned thr ext s)
           = Some (dap_split br smp thr ext s)"
    unfolding dap_split_def by (rule densify_and_split_Some[OF w1 l1])
  show ?thesis
    unfolding densify_and_prune_def
    by (simp only: wf_avg_grads[OF w] bind.simps Let_def dap_reset_def[symmetric] 1 2)
qed

lemma densify_and_prune_clone_lone:
  assumes w: "well_formed s"
    and ns: "lone_other (clone_selected (avg_of s) thr ext (dap_reset s)) s"
  shows "densify_and_prune br smp en thr mo ext mss s = None"
proof -
  have w0: "well_formed (dap_reset s)" by (rule wf_dap_reset[OF w])
  have l0: "length (avg_of s) = length (xyz (dap_reset s))" by (simp add: length_avg_of[OF w])
  have ns0: "lone_other (sel_idx (clone_mask (avg_of s) thr ext (dap_reset s))) (dap_reset s)"
    using ns by (simp add: sel_idx_clone_mask)
  have 1: "densify_and_clone (avg_of s) thr ext (dap_reset s) = None"
    by (rule densify_and_clone_lone[OF w0 l0 ns0])
  show ?thesis
    unfolding densify_and_prune_def
    by (simp only: wf_avg_grads[OF w] bind.simps Let_def dap_reset_def[symmetric] 1)
qed

lemma densify_and_prune_Some:
  assumes w: "well_formed s"
    and ns: "\<not> lone_other (clone_selected (avg_of s) thr ext (dap_reset s)) s"
    and n: "length (xyz (dap_split br smp thr ext s)) \<noteq> 1 \<or> truthy mss"
  shows "densify_and_prune br smp en thr mo ext mss s
         = Some ((dap_pruned br smp thr mo ext mss s)
                   \<lparr>normal := NumpyArray (en (xyz (dap_pruned br smp thr mo ext mss s)))\<rparr>)"
proof -
  have w2: "well_formed (dap_split br smp thr ext s)" by (rule wf_dap_split[OF w])
  have 3: "prune_pass mo ext mss (dap_split br smp thr ext s)
           = Some (dap_pruned br smp thr mo ext mss s)"
    unfolding dap_pruned_def by (rule prune_pass_Some[OF w2 n])
  have e: "extra_axes (dap_pruned br smp thr mo ext mss s) = 0"
    by (rule wf_extra_axes[OF wf_dap_pruned[OF w]])
  show ?thesis
    by (simp only: densify_and_prune_passes[OF w ns] 3 bind.simps e simp_thms if_False)
qed

lemma stats_store_reached:
  "add_densification_stats [[Fin 1, Fin 0, Fin 0]] [[Fin 2, Fin 0, Fin 0]] [True]
     (training_setup demo_args one_primitive) = Some stats_store"
  by (simp add: add_densification_stats_def masked_update_def training_setup_def
        one_primitive_def stats_store_def norm2_def)

lemma well_formed_accum:
  "well_formed s \<Longrightarrow> length a = length (xyz s) \<Longrightarrow> length p = length (xyz s) \<Longrightarrow>
   length d = length (xyz s) \<Longrightarrow>
   well_formed (s\<lparr>xyz_gradient_accum := a, position_gradient_accum := p, denom := d\<rparr>)"
  by (cases "optimizer s") (auto simp: well_formed_def arrays_len_def linked_def)

lemma wf_stats_store: "well_formed stats_store"
proof -
  have "well_formed (training_setup demo_args one_primitive)"
    by (rule well_formed_training_setup) (simp add: shaped_def one_primitive_def)
  moreover have "length (xyz (training_setup demo_args one_primitive)) = 1"
    by (simp add: training_setup_def one_primitive_def)
  ultimately show ?thesis unfolding stats_store_def by (intro well_formed_accum) simp_all
qed

lemma avg_of_no_nan: "\<forall>g\<in>set (avg_of s). \<not> isnan g"
  by (auto simp: avg_of_def)

lemma avg_of_map2:
  "avg_of s = map2 (\<lambda>a d. if isnan (fdiv a d) then Fin 0 else fdiv a d)
                   (xyz_gradient_accum s) (denom s)"
  by (simp add: avg_of_def map_zip_map2 case_prod_unfold)

lemma sel_idx_empty_all_False:
  assumes "sel_idx m = []"
  shows "\<forall>b\<in>set m. \<not> b"
proof
  fix b assume "b \<in> set m"
  then obtain i where i: "i < length m" "m ! i = b" by (auto simp: in_set_conv_nth)
  from assms have "\<forall>j\<in>set [0..<length m]. \<not> m ! j"
    unfolding sel_idx_def filter_empty_conv by simp
  with i show "\<not> b" by auto
qed

lemma pick_none_removed:
  assumes "sel_idx m = []" and "length t = length m"
  shows "pick t (map Not m) = t"
  by (rule pick_all_True) (use assms sel_idx_empty_all_False[OF assms(1)] in auto)

lemma pick_empty: "sel_idx m = [] \<Longrightarrow> pick t m = []"
  by (simp add: pick_def)

lemma filter_id_empty: "sel_idx m = [] \<Longrightarrow> filter id m = []"
  using length_sel_idx[of m] by simp

lemma repeat_Nil [simp]: "repeat n [] = []"
  by (simp add: repeat_def)

lemma clone_res_noop:
  assumes "sel_idx sel = []"
  shows "same_attributes (clone_res sel s) s"
    and "accumulators_zero (clone_res sel s)"
    and "xyz_id (clone_res sel s) = xyz_id s"
    and "modify_id (clone_res sel s) = modify_id s"
  using assms
  by (simp_all add: same_attributes_def accumulators_zero_def clone_res_def postfix_res_sel
        pick_empty)

lemma split_grown_noop:
  assumes "sel_idx sel = []"
  shows "same_attributes (split_grown br smp n sel s) s"
    and "accumulators_zero (split_grown br smp n sel s)"
    and "xyz_id (split_grown br smp n sel s) = xyz_id s"
    and "modify_id (split_grown br smp n sel s) = modify_id s"
  using assms
  by (simp_all add: same_attributes_def accumulators_zero_def split_grown_def postfix_res_sel
        pick_empty split_new_xyz_def bmm_def torch_normal_def)

lemma prune_points_res_noop:
  assumes e: "sel_idx m = []" and al: "arrays_len (length m) s"
  shows "same_attributes (prune_points_res m s) s"
    and "xyz_gradient_accum (prune_points_res m s) = xyz_gradient_accum s"
    and "position_gradient_accum (prune_points_res m s) = position_gradient_accum s"
    and "denom (prune_points_res m s) = denom s"
    and "max_radii2D (prune_points_res m s) = max_radii2D s"
    and "xyz_id (prune_points_res m s) = xyz_id s"
    and "modify_id (prune_points_res m s) = modify_id s"
  using al
  by (simp_all add: same_attributes_def prune_points_res_sel pick_none_removed[OF e]
        arrays_len_def)

lemma accumulators_zero_prune_noop:
  assumes e: "sel_idx m = []" and al: "arrays_len (length m) s" and z: "accumulators_zero s"
  shows "accumulators_zero (prune_points_res m s)"
  using prune_points_res_noop[OF e al] z
  by (simp add: accumulators_zero_def same_attributes_def)

lemma same_attributes_trans:
  "same_attributes a b \<Longrightarrow> same_attributes b c \<Longrightarrow> same_attributes a c"
  by (simp add: same_attributes_def)

lemma split_res_noop:
  assumes e: "sel_idx sel = []" and w: "well_formed s" and l: "length sel = length (xyz s)"
  shows "same_attributes (split_res br smp n sel s) s"
    and "accumulators_zero (split_res br smp n sel s)"
    and "xyz_id (split_res br smp n sel s) = xyz_id s"
    and "modify_id (split_res br smp n sel s) = modify_id s"
proof -
  let ?g = "split_grown br smp n sel s"
  have m: "sel @ replicate (n * length (filter id sel)) False = sel"
    by (simp add: filter_id_empty[OF e])
  have r: "split_res br smp n sel s = prune_points_res sel ?g"
    unfolding split_res_def m ..
  have wg: "well_formed ?g" by (rule wf_split_grown[OF w l])
  have lg: "length (xyz ?g) = length sel"
    using split_grown_noop(1)[OF e, of br smp n s] l by (simp add: same_attributes_def)
  have al: "arrays_len (length sel) ?g" using wf_arrays[OF wg] lg by simp
  show "same_attributes (split_res br smp n sel s) s"
    unfolding r
    by (rule same_attributes_trans[OF prune_points_res_noop(1)[OF e al] split_grown_noop(1)[OF e]])
  show "accumulators_zero (split_res br smp n sel s)"
    unfolding r by (rule accumulators_zero_prune_noop[OF e al split_grown_noop(2)[OF e]])
  show "xyz_id (split_res br smp n sel s) = xyz_id s"
    unfolding r using prune_points_res_noop(6)[OF e al] split_grown_noop(3)[OF e] by simp
  show "modify_id (split_res br smp n sel s) = modify_id s"
    unfolding r using prune_points_res_noop(7)[OF e al] split_grown_noop(4)[OF e] by simp
qed

text \<open>What \<open>densify_and_prune\<close> leaves when no pass selects a primitive.\<close>

lemma dap_noop:
  assumes w: "well_formed s"
    and c: "clone_selected (avg_of s) thr ext (dap_reset s) = []"
    and sp: "split_selected (avg_of s) thr ext (dap_cloned thr ext s) = []"
    and pr: "\<forall>i<length (xyz (dap_split br smp thr ext s)).
               \<not> removal_pred mo ext mss (dap_split br smp thr ext s) i"
  shows "same_attributes (dap_pruned br smp thr mo ext mss s) s"
    and "accumulators_zero (dap_pruned br smp thr mo ext mss s)"
    and "xyz_id (dap_pruned br smp thr mo ext mss s) = [0..<length (xyz s)]"
    and "modify_id (dap_pruned br smp thr mo ext mss s) = []"
proof -
  let ?s0 = "dap_reset s" and ?s1 = "dap_cloned thr ext s"
  let ?s2 = "dap_split br smp thr ext s" and ?s3 = "dap_pruned br smp thr mo ext mss s"
  let ?m = "map (removal_pred mo ext mss ?s2) [0..<length (xyz ?s2)]"
  have e1: "sel_idx (clone_mask (avg_of s) thr ext ?s0) = []"
    by (simp add: sel_idx_clone_mask c)
  have e2: "sel_idx (split_mask (avg_of s) thr ext ?s1) = []"
    by (simp add: sel_idx_split_mask sp)
  have e3: "sel_idx ?m = []"
    unfolding sel_idx_map filter_empty_conv using pr by simp
  have a0: "same_attributes ?s0 s" "xyz_id ?s0 = [0..<length (xyz s)]" "modify_id ?s0 = []"
    by (simp_all add: same_attributes_def dap_reset_def reset_xyz_id_def)
  note n1 = clone_res_noop[OF e1, of ?s0, folded dap_cloned_def]
  have w1: "well_formed ?s1" by (rule wf_dap_cloned[OF w])
  have l1: "length (split_mask (avg_of s) thr ext ?s1) = length (xyz ?s1)"
    by (simp add: split_mask_def)
  note n2 = split_res_noop[OF e2 w1 l1, of br smp 2, folded dap_split_def]
  have w2: "well_formed ?s2" by (rule wf_dap_split[OF w])
  have al2: "arrays_len (length ?m) ?s2" using wf_arrays[OF w2] by simp
  note n3 = prune_points_res_noop[OF e3 al2, folded dap_pruned_def]
  show "same_attributes ?s3 s"
    using n3(1) n2(1) n1(1) a0(1) by (simp add: same_attributes_def)
  show "accumulators_zero ?s3"
    using accumulators_zero_prune_noop[OF e3 al2 n2(2), folded dap_pruned_def] .
  show "xyz_id ?s3 = [0..<length (xyz s)]"
    using n3(6) n2(3) n1(3) a0(2) by simp
  show "modify_id ?s3 = []"
    using n3(7) n2(4) n1(4) a0(3) by simp
qed

lemma well_formed_normal [simp]: "well_formed (s\<lparr>normal := x\<rparr>) = well_formed s"
  by (cases "optimizer s") (simp_all add: well_formed_def arrays_len_def linked_def)

lemma sigmoid_not_negative [simp]: "flt (sigmoid x) (Fin 0) = False"
proof (cases x)
  case (Fin a)
  have "0 < 1 + exp (- a)" by (simp add: add_pos_pos)
  hence "0 \<le> 1 / (1 + exp (- a))" by simp
  with Fin show ?thesis by (simp add: not_less)
qed simp_all

lemma inf_store_reached:
  "add_densification_stats [[PInf, Fin 0, Fin 0], [PInf, Fin 0, Fin 0]]
     [[Fin 0, Fin 0, Fin 0], [Fin 0, Fin 0, Fin 0]] [True, True]
     (training_setup demo_args two_primitives) = Some inf_store"
  by (simp add: add_densification_stats_def masked_update_def training_setup_def
        two_primitives_def inf_store_def norm2_def)

lemma wf_inf_store: "well_formed inf_store"
proof -
  have "well_formed (training_setup demo_args two_primitives)"
    by (rule well_formed_training_setup) (simp add: shaped_def two_primitives_def)
  moreover have "length (xyz (training_setup demo_args two_primitives)) = 2"
    by (simp add: training_setup_def two_primitives_def)
  ultimately show ?thesis unfolding inf_store_def by (intro well_formed_accum) simp_all
qed

lemma wf_lone_store: "well_formed lone_store"
  unfolding lone_store_def
  by (rule well_formed_training_setup) (simp add: shaped_def one_primitive_def)

lemma wf_opacity_store: "well_formed opacity_store"
  unfolding opacity_store_def
  by (rule well_formed_training_setup) (simp add: shaped_def)


lemma wf_finite_store: "well_formed finite_store"
proof -
  have "length (xyz opacity_store) = 3" by (simp add: opacity_store_def training_setup_def)
  thus ?thesis unfolding finite_store_def by (intro well_formed_accum wf_opacity_store) simp_all
qed

lemma dap_split_noop:
  assumes w: "well_formed s"
    and sp: "split_selected (avg_of s) thr ext (dap_cloned thr ext s) = []"
  shows "same_attributes (dap_split br smp thr ext s) (dap_cloned thr ext s)"
proof -
  have e2: "sel_idx (split_mask (avg_of s) thr ext (dap_cloned thr ext s)) = []"
    by (simp add: sel_idx_split_mask sp)
  have l1: "length (split_mask (avg_of s) thr ext (dap_cloned thr ext s))
            = length (xyz (dap_cloned thr ext s))"
    by (simp add: split_mask_def)
  show ?thesis
    using split_res_noop(1)[OF e2 wf_dap_cloned[OF w] l1, of br smp 2, folded dap_split_def] .
qed

lemma dap_pruned_noop:
  assumes w: "well_formed s"
    and pr: "\<forall>i<length (xyz (dap_split br smp thr ext s)).
               \<not> removal_pred mo ext mss (dap_split br smp thr ext s) i"
  shows "same_attributes (dap_pruned br smp thr mo ext mss s) (dap_split br smp thr ext s)"
proof -
  let ?s2 = "dap_split br smp thr ext s"
  let ?m = "map (removal_pred mo ext mss ?s2) [0..<length (xyz ?s2)]"
  have e3: "sel_idx ?m = []"
    unfolding sel_idx_map filter_empty_conv using pr by simp
  have al2: "arrays_len (length ?m) ?s2" using wf_arrays[OF wf_dap_split[OF w]] by simp
  show ?thesis using prune_points_res_noop(1)[OF e3 al2, folded dap_pruned_def] .
qed

lemma pick_all_removed:
  assumes "\<forall>b\<in>set m. b"
  shows "pick t (map Not m) = []"
proof -
  have "filter (\<lambda>i. map Not m ! i) [0..<length m] = []"
    unfolding filter_empty_conv using assms by (auto simp: nth_mem)
  thus ?thesis by (simp add: pick_def sel_idx_def)
qed

lemma prune_points_res_all:
  assumes "\<forall>b\<in>set m. b"
  shows "population_empty (prune_points_res m s)"
  by (simp add: population_empty_def prune_points_res_sel pick_all_removed[OF assms])

lemma opacity_clone_res_subset:
  assumes "length sel = length (opacity s)"
  shows "set (opacity (clone_res sel s)) \<subseteq> set (opacity s)"
  unfolding clone_res_def postfix_res_sel using set_pick[OF assms] by simp

lemma opacity_split_res_subset:
  assumes l: "length sel = length (opacity s)"
  shows "set (opacity (split_res br smp n sel s)) \<subseteq> set (opacity s)"
proof -
  let ?new = "repeat n (pick (opacity s) sel)"
  let ?m = "map Not (sel @ replicate (n * length (filter id sel)) False)"
  have o: "opacity (split_res br smp n sel s) = pick (opacity s @ ?new) ?m"
    unfolding split_res_def split_grown_def prune_points_res_sel postfix_res_sel
      modify_id_update_sel ..
  have "length ?m = length (opacity s @ ?new)"
    using l by (simp add: length_pick length_sel_idx)
  from set_pick[OF this] have "set (pick (opacity s @ ?new) ?m) \<subseteq> set (opacity s) \<union> set ?new"
    by simp
  also have "\<dots> \<subseteq> set (opacity s)"
    using set_repeat[of n "pick (opacity s) sel"] set_pick[OF l] by auto
  finally show ?thesis unfolding o .
qed

lemma dap_opacity_subset:
  assumes w: "well_formed s"
  shows "set (opacity (dap_split br smp thr ext s)) \<subseteq> set (opacity s)"
proof -
  have l0: "length (opacity (dap_reset s)) = length (xyz s)"
    using wf_arrays[OF wf_dap_reset[OF w]] by (simp add: arrays_len_def)
  have 1: "set (opacity (dap_cloned thr ext s)) \<subseteq> set (opacity (dap_reset s))"
    unfolding dap_cloned_def
    by (rule opacity_clone_res_subset) (simp add: clone_mask_def l0)
  have l1: "length (opacity (dap_cloned thr ext s)) = length (xyz (dap_cloned thr ext s))"
    using wf_arrays[OF wf_dap_cloned[OF w]] by (simp add: arrays_len_def)
  have 2: "set (opacity (dap_split br smp thr ext s)) \<subseteq> set (opacity (dap_cloned thr ext s))"
    unfolding dap_split_def
    by (rule opacity_split_res_subset) (simp add: split_mask_def l1)
  have "opacity (dap_reset s) = opacity s"
    by (simp add: dap_reset_def reset_xyz_id_def)
  with 1 2 show ?thesis by auto
qed

lemma population_empty_normal [simp]:
  "population_empty (s\<lparr>normal := x\<rparr>) = population_empty s"
  by (simp add: population_empty_def)

lemma opacity_store_physical:
  "physical_opacity opacity_store 0 = Fin (1 / 1000)"
  "physical_opacity opacity_store 1 = Fin (1 / 2)"
  "physical_opacity opacity_store 2 = Fin (9 / 10)"
  by (simp_all add: physical_opacity_def opacity_store_def training_setup_def exp_minus
        ln_div field_simps)

lemma length_opacity_store: "length (xyz opacity_store) = 3"
  by (simp add: opacity_store_def training_setup_def)

lemma less_3_cases: "i < (3::nat) \<Longrightarrow> i = 0 \<or> i = 1 \<or> i = 2"
  by arith

lemma prune_pass_all:
  assumes w: "well_formed s"
    and a: "\<forall>i<length (xyz s). flt (physical_opacity s i) mo"
    and n: "length (xyz s) \<noteq> 1 \<or> truthy mss"
  shows "\<exists>p. prune_pass mo ext mss s = Some p \<and> well_formed p \<and> population_empty p"
proof -
  let ?m = "map (removal_pred mo ext mss s) [0..<length (xyz s)]"
  have t: "\<forall>b\<in>set ?m. b" using a by (auto simp: removal_pred_def)
  have "well_formed (prune_points_res ?m s)"
    by (rule wf_prune_points_res[OF w]) simp
  with prune_pass_Some[OF w n, of mo ext] prune_points_res_all[OF t, of s]
  show ?thesis by blast
qed

lemma dap_all_pruned:
  assumes w: "well_formed s"
    and a: "\<forall>i<length (xyz s). flt (physical_opacity s i) mo"
  shows "population_empty (dap_pruned br smp thr mo ext mss s)"
proof -
  let ?s2 = "dap_split br smp thr ext s"
  have l: "length (opacity s) = length (xyz s)" "length (opacity ?s2) = length (xyz ?s2)"
    using wf_arrays[OF w] wf_arrays[OF wf_dap_split[OF w, of br smp thr ext]]
    by (simp_all add: arrays_len_def)
  have "\<forall>i<length (xyz ?s2). removal_pred mo ext mss ?s2 i"
  proof (intro allI impI)
    fix i assume i: "i < length (xyz ?s2)"
    hence "opacity ?s2 ! i \<in> set (opacity s)"
      using dap_opacity_subset[OF w, of br smp thr ext] l(2) nth_mem[of i "opacity ?s2"] by auto
    then obtain j where j: "j < length (opacity s)" "opacity s ! j = opacity ?s2 ! i"
      by (auto simp: in_set_conv_nth)
    with a l(1) have "flt (physical_opacity s j) mo" by simp
    with j(2) show "removal_pred mo ext mss ?s2 i"
      by (simp add: removal_pred_def physical_opacity_def)
  qed
  hence "\<forall>b\<in>set (map (removal_pred mo ext mss ?s2) [0..<length (xyz ?s2)]). b" by auto
  from prune_points_res_all[OF this] show ?thesis unfolding dap_pruned_def .
qed

lemma dap_empty:
  assumes w: "well_formed s" and e: "population_empty s"
  shows "population_empty (dap_pruned br smp thr mo ext mss s)"
    and "same_attributes (dap_pruned br smp thr mo ext mss s) s"
proof -
  have n: "length (xyz s) = 0" using e by (simp add: population_empty_def)
  have c: "clone_selected (avg_of s) thr ext (dap_reset s) = []"
    by (simp add: clone_selected_def n)
  have n1: "length (xyz (dap_cloned thr ext s)) = 0"
    by (simp add: length_xyz_dap_cloned c n)
  have sp: "split_selected (avg_of s) thr ext (dap_cloned thr ext s) = []"
    by (simp add: split_selected_def n1)
  have "xyz (dap_split br smp thr ext s) = xyz (dap_cloned thr ext s)"
    using dap_split_noop[OF w sp, of br smp] by (simp add: same_attributes_def)
  hence n2: "length (xyz (dap_split br smp thr ext s)) = 0" using n1 by simp
  have pr: "\<forall>i<length (xyz (dap_split br smp thr ext s)).
              \<not> removal_pred mo ext mss (dap_split br smp thr ext s) i"
    by (simp add: n2)
  note r = dap_noop[OF w c sp pr]
  show "same_attributes (dap_pruned br smp thr mo ext mss s) s" by (rule r(1))
  show "population_empty (dap_pruned br smp thr mo ext mss s)"
    using r e n
    by (simp add: population_empty_def same_attributes_def accumulators_zero_def)
qed

lemma dap_reset_sel [simp]:
  "scaling (dap_reset s) = scaling s" "opacity (dap_reset s) = opacity s"
  "percent_dense (dap_reset s) = percent_dense s" "ptype (dap_reset s) = ptype s"
  by (simp_all add: dap_reset_def reset_xyz_id_def)

lemma percent_dense_dap_cloned [simp]: "percent_dense (dap_cloned thr ext s) = percent_dense s"
  by (simp add: dap_cloned_def clone_res_def postfix_res_sel)

lemma scaling_clone_res_subset:
  assumes "length sel = length (scaling s)"
  shows "set (scaling (clone_res sel s)) \<subseteq> set (scaling s)"
  unfolding clone_res_def postfix_res_sel using set_pick[OF assms] by simp

lemma scaling_dap_cloned_subset:
  assumes w: "well_formed s"
  shows "set (scaling (dap_cloned thr ext s)) \<subseteq> set (scaling s)"
proof -
  have l0: "length (scaling (dap_reset s)) = length (xyz s)"
    using wf_arrays[OF w] by (simp add: arrays_len_def)
  have "set (scaling (dap_cloned thr ext s)) \<subseteq> set (scaling (dap_reset s))"
    unfolding dap_cloned_def
    by (rule scaling_clone_res_subset) (simp add: clone_mask_def l0[simplified])
  thus ?thesis by simp
qed

lemma split_selected_small_scale:
  assumes "\<forall>r\<in>set (scaling s). \<not> fgt (max_of_row (map fexp r)) (fmul (percent_dense s) ext)"
    and "length (scaling s) = length (xyz s)"
  shows "split_selected g thr ext s = []"
  unfolding split_selected_def filter_empty_conv
  using assms by (auto simp: split_pred_def physical_scale_def)

lemma clone_selected_finite:
  assumes "length g = length (xyz s)" and "\<forall>x\<in>set g. x \<noteq> PInf \<and> x \<noteq> NInf \<and> \<not> isnan x"
  shows "clone_selected g PInf ext s = []"
  unfolding clone_selected_def filter_empty_conv
proof
  fix i assume "i \<in> set [0..<length (xyz s)]"
  hence "g ! i \<in> set g" using assms(1) by simp
  with assms(2) obtain r where "g ! i = Fin r" by (cases "g ! i") auto
  thus "\<not> (fge (fabs (g ! i)) PInf \<and>
            fle (max_of_row (physical_scale s i)) (fmul (percent_dense s) ext))"
    by (simp add: fge_def)
qed

lemma split_selected_finite:
  assumes "length g \<le> length (xyz s)" and "\<forall>x\<in>set g. x \<noteq> PInf \<and> x \<noteq> NInf \<and> \<not> isnan x"
  shows "split_selected g PInf ext s = []"
  unfolding split_selected_def filter_empty_conv
proof
  fix i assume i: "i \<in> set [0..<length (xyz s)]"
  let ?p = "g @ replicate (length (xyz s) - length g) (Fin 0)"
  have "i < length ?p" using i assms(1) by simp
  hence "?p ! i \<in> set ?p" by (rule nth_mem)
  hence "?p ! i \<in> set g \<or> ?p ! i = Fin 0" by auto
  with assms(2) obtain r where "?p ! i = Fin r" by (cases "?p ! i") auto
  thus "\<not> split_pred g PInf ext s i" by (simp add: split_pred_def fge_def)
qed

lemma removal_pred_zero [simp]: "removal_pred (Fin 0) ext None s i = False"
  by (simp add: removal_pred_def truthy_def physical_opacity_def)

lemma avg_of_finite_store: "avg_of finite_store = [Fin 1, Fin 1, Fin 1]"
  by (simp add: avg_of_def finite_store_def)

lemma avg_of_inf_store: "avg_of inf_store = [PInf, PInf]"
  by (simp add: avg_of_def inf_store_def inf_of_sign_def)

lemma densify_and_prune_extra_axes:
  "extra_axes s \<noteq> 0 \<Longrightarrow> densify_and_prune br smp en thr mo ext mss s = None"
  by (cases "avg_grads s")
     (simp_all add: densify_and_prune_def densify_and_clone_def reset_xyz_id_def Let_def)

lemma xyz_prune_points_scalar_res [simp]:
  "xyz (prune_points_scalar_res b s) = keep (\<not> b) (xyz s)"
  "opacity (prune_points_scalar_res b s) = keep (\<not> b) (opacity s)"
  "extra_axes (prune_points_scalar_res b s) = Suc (extra_axes s)"
  by (simp_all add: prune_points_scalar_res_def)

text \<open>
  A population of one at the pruning statements, without the size tests: the call returns
  when the primitive is removed, and fails in the normal estimation when it is kept.
\<close>

lemma densify_and_prune_lone:
  assumes w: "well_formed s"
    and ns: "\<not> lone_other (clone_selected (avg_of s) thr ext (dap_reset s)) s"
    and n: "length (xyz (dap_split br smp thr ext s)) = 1" and f: "\<not> truthy mss"
  shows "densify_and_prune br smp en thr mo ext mss s
         = (if removal_pred mo ext mss (dap_split br smp thr ext s) 0
            then Some ((prune_points_scalar_res True (dap_split br smp thr ext s))
                         \<lparr>normal := NumpyArray (en [])\<rparr>)
            else None)"
proof -
  have w2: "well_formed (dap_split br smp thr ext s)" by (rule wf_dap_split[OF w])
  have x: "xyz (dap_split br smp thr ext s) \<noteq> []" using n by auto
  show ?thesis
    unfolding densify_and_prune_passes[OF w ns] prune_pass_lone[OF w2 n f]
    using x by (simp add: keep_def)
qed

lemma avg_of_lone_store: "avg_of lone_store = [Fin 0]"
  by (simp add: avg_of_def lone_store_def training_setup_def one_primitive_def)

lemma lone_store_fields:
  "xyz lone_store = [[Fin 0, Fin 0, Fin 0]]" "opacity lone_store = [[Fin 0]]"
  "ptype lone_store = [Fin 0]" "scaling lone_store = [[Fin 0, Fin 0, Fin 0]]"
  "percent_dense lone_store = Fin 0.01"
  by (simp_all add: lone_store_def training_setup_def one_primitive_def demo_args_def)

lemma clone_selected_lone_store:
  "clone_selected (avg_of lone_store) (Fin 1) ext (dap_reset lone_store) = []"
  by (simp add: clone_selected_def avg_of_lone_store lone_store_fields fge_def)

lemma split_selected_lone_store:
  "split_selected (avg_of lone_store) (Fin 1) ext (dap_cloned (Fin 1) ext lone_store) = []"
proof -
  have "length (xyz (dap_cloned (Fin 1) ext lone_store)) = 1"
    by (simp add: length_xyz_dap_cloned clone_selected_lone_store lone_store_fields)
  thus ?thesis
    by (simp add: split_selected_def split_pred_def avg_of_lone_store fge_def)
qed

lemma dap_split_lone_store:
  "same_attributes (dap_split br smp (Fin 1) ext lone_store) lone_store"
proof -
  have e1: "sel_idx (clone_mask (avg_of lone_store) (Fin 1) ext (dap_reset lone_store)) = []"
    by (simp add: sel_idx_clone_mask clone_selected_lone_store)
  have a: "same_attributes (dap_cloned (Fin 1) ext lone_store) (dap_reset lone_store)"
    unfolding dap_cloned_def by (rule clone_res_noop(1)[OF e1])
  have b: "same_attributes (dap_reset lone_store) lone_store"
    by (simp add: same_attributes_def dap_reset_def reset_xyz_id_def)
  from dap_split_noop[OF wf_lone_store split_selected_lone_store, of br smp ext] a b
  show ?thesis by (blast intro: same_attributes_trans)
qed

lemma lone_store_first_call:
  "densify_and_prune demo_rotation demo_sampler demo_normals (Fin 1) (Fin 2) (Fin 10) None
     lone_store
   = Some ((prune_points_scalar_res True
              (dap_split demo_rotation demo_sampler (Fin 1) (Fin 10) lone_store))
             \<lparr>normal := NumpyArray (demo_normals [])\<rparr>)"
proof -
  let ?s2 = "dap_split demo_rotation demo_sampler (Fin 1) (Fin 10) lone_store"
  note a = dap_split_lone_store[of demo_rotation demo_sampler "Fin 10"]
  have n: "length (xyz ?s2) = 1" using a by (simp add: same_attributes_def lone_store_fields)
  have ns: "\<not> lone_other (clone_selected (avg_of lone_store) (Fin 1) (Fin 10)
               (dap_reset lone_store)) lone_store"
    by (simp add: clone_selected_lone_store lone_other_def)
  have f: "\<not> truthy None" by (simp add: truthy_def)
  have "opacity ?s2 = [[Fin 0]]" using a by (simp add: same_attributes_def lone_store_fields)
  hence r: "removal_pred (Fin 2) (Fin 10) None ?s2 0"
    by (simp add: removal_pred_def physical_opacity_def)
  show ?thesis
    unfolding densify_and_prune_lone[OF wf_lone_store ns n f] using r by simp
qed

lemma lone_pruned_fields:
  "xyz lone_pruned = []" "opacity lone_pruned = []" "extra_axes lone_pruned = Suc 0"
  unfolding lone_pruned_def lone_store_first_call
  using wf_extra_axes[OF wf_dap_split[OF wf_lone_store]]
  by (simp_all add: keep_def)

text \<open>
  The clone pass on a well-formed store, except where exactly one primitive is selected
  and it is not of type 1: the pass returns, the old entries are a prefix of every array
  and the appended entries copy the selected primitives in order, a copy of type 1 with
  \<open>position_gradient_accum / denom\<close> added to its position.
\<close>

lemma clone_pass_otherwise:
  assumes "well_formed s" and "length grads = length (xyz s)"
    and "\<not> lone_other (clone_selected grads grad_threshold scene_extent s) s"
  shows "\<exists>s'. densify_and_clone grads grad_threshold scene_extent s = Some s' \<and>
     length (xyz s') = length (xyz s) + length (clone_selected grads grad_threshold scene_extent s) \<and>
     xyz s' = xyz s @ map (\<lambda>i. if feq (ptype s ! i) (Fin 1) then nudged_position s i else xyz s ! i)
                        (clone_selected grads grad_threshold scene_extent s) \<and>
     features_dc s' = features_dc s @
        map (\<lambda>i. features_dc s ! i) (clone_selected grads grad_threshold scene_extent s) \<and>
     features_rest s' = features_rest s @
        map (\<lambda>i. features_rest s ! i) (clone_selected grads grad_threshold scene_extent s) \<and>
     opacity s' = opacity s @
        map (\<lambda>i. opacity s ! i) (clone_selected grads grad_threshold scene_extent s) \<and>
     scaling s' = scaling s @
        map (\<lambda>i. scaling s ! i) (clone_selected grads grad_threshold scene_extent s) \<and>
     rotation s' = rotation s @
        map (\<lambda>i. rotation s ! i) (clone_selected grads grad_threshold scene_extent s) \<and>
     score s' = score s @
        map (\<lambda>i. score s ! i) (clone_selected grads grad_threshold scene_extent s) \<and>
     xyz_id s' = xyz_id s @
        map (\<lambda>i. xyz_id s ! i) (clone_selected grads grad_threshold scene_extent s) \<and>
     ptype s' = ptype s @
        map (\<lambda>i. ptype s ! i) (clone_selected grads grad_threshold scene_extent s)"
proof -
  have ns: "\<not> lone_other (sel_idx (clone_mask grads grad_threshold scene_extent s)) s"
    using assms(3) by (simp add: sel_idx_clone_mask)
  show ?thesis
    unfolding densify_and_clone_Some[OF assms(1,2) ns]
    by (simp add: clone_res_def postfix_res_def pick_clone_mask sel_idx_clone_mask nudge_eq)
qed

lemma dap_split_same:
  assumes w: "well_formed s"
    and c: "clone_selected (avg_of s) thr ext (dap_reset s) = []"
    and sp: "split_selected (avg_of s) thr ext (dap_cloned thr ext s) = []"
  shows "same_attributes (dap_split br smp thr ext s) s"
proof -
  have e1: "sel_idx (clone_mask (avg_of s) thr ext (dap_reset s)) = []"
    by (simp add: sel_idx_clone_mask c)
  have a: "same_attributes (dap_cloned thr ext s) (dap_reset s)"
    unfolding dap_cloned_def by (rule clone_res_noop(1)[OF e1])
  have b: "same_attributes (dap_reset s) s"
    by (simp add: same_attributes_def dap_reset_def reset_xyz_id_def)
  from dap_split_noop[OF w sp, of br smp] a b
  show ?thesis by (blast intro: same_attributes_trans)
qed

text \<open>
  \<open>densify_and_prune\<close> with threshold \<open>+\<infinity>\<close>, \<open>min_opacity = 0\<close> and no
  \<open>max_screen_size\<close>, on finite averaged gradients and a population other than one.
\<close>

lemma densify_and_prune_finite:
  assumes w: "well_formed s" and a: "avg_grads s = Some g"
    and fin: "\<forall>x\<in>set g. x \<noteq> PInf \<and> x \<noteq> NInf"
    and n: "length (xyz s) \<noteq> 1"
  shows "\<exists>s'. densify_and_prune build_rotation smp estimate_normals PInf (Fin 0) extent None s
               = Some s' \<and>
     same_attributes s' s \<and> well_formed s' \<and> accumulators_zero s' \<and>
     xyz_id s' = [0..<length (xyz s)] \<and> modify_id s' = [] \<and>
     normal s' = NumpyArray (estimate_normals (xyz s))"
proof -
  let ?s3 = "dap_pruned build_rotation smp PInf (Fin 0) extent None s"
  have g: "g = avg_of s" using a wf_avg_grads[OF w] by simp
  have f: "\<forall>x\<in>set (avg_of s). x \<noteq> PInf \<and> x \<noteq> NInf \<and> \<not> isnan x"
    using fin avg_of_no_nan[of s] unfolding g by blast
  have c: "clone_selected (avg_of s) PInf extent (dap_reset s) = []"
    by (rule clone_selected_finite[OF _ f]) (simp add: length_avg_of[OF w])
  have sp: "split_selected (avg_of s) PInf extent (dap_cloned PInf extent s) = []"
    by (rule split_selected_finite[OF _ f])
       (simp add: length_xyz_dap_cloned length_avg_of[OF w])
  have pr: "\<forall>i<length (xyz (dap_split build_rotation smp PInf extent s)).
              \<not> removal_pred (Fin 0) extent None (dap_split build_rotation smp PInf extent s) i"
    by simp
  have ns: "\<not> lone_other (clone_selected (avg_of s) PInf extent (dap_reset s)) s"
    by (simp add: c lone_other_def)
  have "xyz (dap_split build_rotation smp PInf extent s) = xyz s"
    using dap_split_same[OF w c sp, of build_rotation smp] by (simp add: same_attributes_def)
  hence n2: "length (xyz (dap_split build_rotation smp PInf extent s)) \<noteq> 1 \<or> truthy None"
    using n by simp
  note r = dap_noop[OF w c sp pr]
  have x: "xyz ?s3 = xyz s" using r(1) by (simp add: same_attributes_def)
  show ?thesis
    unfolding densify_and_prune_Some[OF w ns n2]
    using r wf_dap_pruned[OF w, of build_rotation smp PInf "Fin 0" extent None] x
    by (simp add: same_attributes_def accumulators_zero_def)
qed

lemma wf_used_store: "well_formed used_store"
proof -
  have "length (xyz finite_store) = 3"
    by (simp add: finite_store_def opacity_store_def training_setup_def)
  thus ?thesis using wf_finite_store
    by (cases "optimizer finite_store")
       (simp_all add: used_store_def well_formed_def arrays_len_def linked_def)
qed

lemma used_store_fields:
  "xyz used_store = [[Fin 0, Fin 0, Fin 0], [Fin 1, Fin 1, Fin 1], [Fin 2, Fin 2, Fin 2]]"
  "denom used_store = [Fin 2, Fin 2, Fin 2]" "xyz_id used_store = [5, 6, 7]"
  "max_radii2D used_store = [Fin 3, Fin 3, Fin 3]" "normal used_store = PyNone"
  "xyz_gradient_accum used_store = [Fin 2, Fin 2, Fin 2]"
  by (simp_all add: used_store_def finite_store_def opacity_store_def training_setup_def)

lemma avg_of_used_store: "avg_of used_store = [Fin 1, Fin 1, Fin 1]"
  by (simp add: avg_of_def used_store_fields)

text \<open>
  With every physical opacity below \<open>min_opacity\<close>, where the clone pass and the pruning
  statements do not meet a 0-dim mask: the call returns the empty, well-formed store, and
  a further call on it, with any arguments, returns it again.
\<close>

lemma dap_split_empty:
  assumes w: "well_formed s" and e: "population_empty s"
  shows "length (xyz (dap_split br smp thr ext s)) = 0"
proof -
  have n: "length (xyz s) = 0" using e by (simp add: population_empty_def)
  have c: "clone_selected (avg_of s) thr ext (dap_reset s) = []"
    by (simp add: clone_selected_def n)
  have n1: "length (xyz (dap_cloned thr ext s)) = 0"
    by (simp add: length_xyz_dap_cloned c n)
  have sp: "split_selected (avg_of s) thr ext (dap_cloned thr ext s) = []"
    by (simp add: split_selected_def n1)
  show ?thesis using dap_split_same[OF w c sp, of br smp] n by (simp add: same_attributes_def)
qed

lemma densify_and_prune_empty:
  assumes w: "well_formed s" and e: "population_empty s"
  shows "\<exists>s'. densify_and_prune br smp en thr mo ext mss s = Some s' \<and>
               well_formed s' \<and> population_empty s' \<and> same_attributes s' s"
proof -
  let ?q = "dap_pruned br smp thr mo ext mss s"
  have n: "length (xyz s) = 0" using e by (simp add: population_empty_def)
  have ns: "\<not> lone_other (clone_selected (avg_of s) thr ext (dap_reset s)) s"
    by (simp add: clone_selected_def n lone_other_def)
  have n2: "length (xyz (dap_split br smp thr ext s)) \<noteq> 1 \<or> truthy mss"
    by (simp add: dap_split_empty[OF w e])
  have "well_formed ?q" by (rule wf_dap_pruned[OF w])
  moreover have "population_empty ?q" by (rule dap_empty(1)[OF w e])
  moreover have "same_attributes ?q s" by (rule dap_empty(2)[OF w e])
  ultimately show ?thesis
    unfolding densify_and_prune_Some[OF w ns n2]
    by (simp add: same_attributes_def)
qed

lemma prune_all_then_noop_otherwise:
  assumes w: "well_formed s"
    and a: "\<forall>i<length (xyz s). flt (physical_opacity s i) min_opacity"
    and ns: "\<not> lone_other (clone_selected (avg_of s) max_grad extent (dap_reset s)) s"
    and n: "length (xyz (dap_split build_rotation smp max_grad extent s)) \<noteq> 1
            \<or> truthy max_screen_size"
  shows "\<exists>s'. densify_and_prune build_rotation smp estimate_normals max_grad min_opacity extent
                 max_screen_size s = Some s' \<and>
               well_formed s' \<and> population_empty s' \<and>
               (\<exists>s''. densify_and_prune build_rotation' smp' estimate_normals' max_grad'
                        min_opacity' extent' max_screen_size' s' = Some s'' \<and>
                      well_formed s'' \<and> population_empty s'' \<and> same_attributes s'' s')"
proof -
  let ?p = "dap_pruned build_rotation smp max_grad min_opacity extent max_screen_size s"
  let ?s' = "?p\<lparr>normal := NumpyArray (estimate_normals (xyz ?p))\<rparr>"
  have 1: "densify_and_prune build_rotation smp estimate_normals max_grad min_opacity extent
             max_screen_size s = Some ?s'"
    by (rule densify_and_prune_Some[OF w ns n])
  have w': "well_formed ?s'" using wf_dap_pruned[OF w] by simp
  have e': "population_empty ?s'" using dap_all_pruned[OF w a] by simp
  from densify_and_prune_empty[OF w' e'] 1 w' e' show ?thesis by blast
qed

lemma third_from_second_squeeze:
  assumes "length m = length sc"
  shows "third_from_second (squeeze m) sc
         = Some (map2 (\<lambda>b r. if b then r[2 := r ! 1] else r) m sc)"
proof (cases "length m = 1")
  case True
  then obtain b where m: "m = [b]" by (cases m) auto
  with assms obtain r where sc: "sc = [r]" by (cases sc) auto
  show ?thesis by (simp add: m sc)
next
  case False
  thus ?thesis using assms by (simp add: squeeze_Vector)
qed

lemma create_from_pcd_scaling:
  assumes c: "create_from_pcd distCUDA2 cross as_quat inverse_sigmoid pcd lr_scale s = Some s'"
    and t: "length (types pcd) = length (points pcd)"
    and d: "length (distCUDA2 (points pcd)) = length (points pcd)"
  shows "scaling s' = map2 (\<lambda>t d. if feq t (Fin 0)
                                     then [initial_axis d, initial_axis d, initial_axis d]
                                     else [initial_axis d, initial_axis d, flog (Fin 0.001)])
                          (types pcd) (distCUDA2 (points pcd))"
    and "ptype s' = types pcd" and "normal s' = PyNone" and "xyz s' = map row3 (points pcd)"
proof -
  let ?sc = "map (\<lambda>d. [flog (fsqrt (fdiv d (Fin 2))), flog (fsqrt (fdiv d (Fin 2))),
                         flog (Fin 0.001)])
                 (map (fclamp (Fin 0.0000001) (Fin 0.01)) (distCUDA2 (points pcd)))"
  let ?m = "map (\<lambda>t. feq t (Fin 0)) (types pcd)"
  have l: "length ?m = length ?sc" using t d by simp
  from c obtain rots sc' where
    sc': "third_from_second (squeeze ?m) ?sc = Some sc'"
    and s': "scaling s' = sc'" "ptype s' = types pcd" "normal s' = PyNone"
      "xyz s' = map row3 (points pcd)"
    by (auto simp: create_from_pcd_def Let_def bind_eq_Some_conv reset_xyz_id_def
          computeNormal_def)
  have "sc' = map2 (\<lambda>b r. if b then r[2 := r ! 1] else r) ?m ?sc"
    using sc' third_from_second_squeeze[OF l] by simp
  also have "\<dots> = map2 (\<lambda>t d. if feq t (Fin 0)
                                     then [initial_axis d, initial_axis d, initial_axis d]
                                     else [initial_axis d, initial_axis d, flog (Fin 0.001)])
                          (types pcd) (distCUDA2 (points pcd))"
    by (simp add: zip_map_map initial_axis_def split_beta del: flog.simps)
  finally show "scaling s' = map2 (\<lambda>t d. if feq t (Fin 0)
                                     then [initial_axis d, initial_axis d, initial_axis d]
                                     else [initial_axis d, initial_axis d, flog (Fin 0.001)])
                          (types pcd) (distCUDA2 (points pcd))"
    using s'(1) by simp
  show "ptype s' = types pcd" "normal s' = PyNone" "xyz s' = map row3 (points pcd)"
    by (rule s')+
qed

lemma create_from_pcd_Some:
  assumes t: "length (types pcd) = length (points pcd)"
    and d: "length (distCUDA2 (points pcd)) = length (points pcd)"
    and n: "length (normals pcd) = length (points pcd)"
    and cr: "\<forall>a b. length a = length b \<longrightarrow> length (cross a b) = length a"
  shows "\<exists>s'. create_from_pcd distCUDA2 cross as_quat inverse_sigmoid pcd lr_scale s = Some s'"
proof -
  let ?d = "normals pcd"
  let ?o = "map (\<lambda>(a, b, c). (fsub (Fin 1) a, fsub (Fin 1) b, fsub (Fin 1) c)) ?d"
  let ?dx = "map normalize3 (cross ?d ?o)"
  let ?dy = "cross ?d ?dx"
  have 1: "length ?dx = length ?d" using cr by simp
  have 2: "length ?dy = length ?d" using cr 1 by simp
  have q: "length (map as_quat (map (\<lambda>(dx, dy, d). frame dx dy d) (zip ?dx (zip ?dy ?d))))
           = length (map row3 (points pcd))"
    using 1 2 n by simp
  let ?sc = "map (\<lambda>d. [flog (fsqrt (fdiv d (Fin 2))), flog (fsqrt (fdiv d (Fin 2))),
                         flog (Fin 0.001)])
                 (map (fclamp (Fin 0.0000001) (Fin 0.01)) (distCUDA2 (points pcd)))"
  let ?m = "map (\<lambda>t. feq t (Fin 0)) (types pcd)"
  have l: "length ?m = length ?sc" using t d by simp
  show ?thesis
    unfolding create_from_pcd_def Let_def assign_quats_def
    using q third_from_second_squeeze[OF l] by (simp del: flog.simps fsqrt.simps)
qed

lemma sqrt_ten_thousandth: "sqrt (1 / 10000) = 1 / 100"
proof -
  have "sqrt ((1 / 100)\<^sup>2) = \<bar>1 / 100 :: real\<bar>" by (rule real_sqrt_abs)
  thus ?thesis by (simp add: power2_eq_square)
qed

lemma initial_axis_demo: "initial_axis (Fin (1 / 5000)) = Fin (ln (1 / 100))"
proof -
  have "fdiv (fclamp (Fin 0.0000001) (Fin 0.01) (Fin (1 / 5000))) (Fin 2) = Fin (1 / 10000)"
    by (simp add: fclamp_def fgt_def)
  thus ?thesis
    unfolding initial_axis_def by (simp add: sqrt_ten_thousandth del: flog.simps) simp
qed

lemma demo_cross_length: "\<forall>a b. length a = length b \<longrightarrow> length (demo_cross a b) = length a"
  by (simp add: demo_cross_def)

lemma demo_pcd_lengths:
  "length (types demo_pcd) = length (points demo_pcd)"
  "length (demo_dist (points demo_pcd)) = length (points demo_pcd)"
  "length (normals demo_pcd) = length (points demo_pcd)"
  by (simp_all add: demo_pcd_def demo_dist_def)

lemma demo_created_Some:
  "create_from_pcd demo_dist demo_cross demo_quat demo_logit demo_pcd (Fin 1) (init 0)
   = Some demo_created"
  using create_from_pcd_Some[of demo_pcd demo_dist demo_cross demo_quat demo_logit
      "Fin 1" "init 0"] demo_pcd_lengths demo_cross_length
  by (auto simp: demo_created_def)

lemma demo_created_fields:
  "scaling demo_created = [[Fin (ln (1 / 100)), Fin (ln (1 / 100)), Fin (ln (1 / 1000))],
                           [Fin (ln (1 / 100)), Fin (ln (1 / 100)), Fin (ln (1 / 100))]]"
  "ptype demo_created = [Fin 1, Fin 0]" "normal demo_created = PyNone"
  "xyz demo_created = [[Fin 0, Fin 0, Fin 0], [Fin 1, Fin 0, Fin 0]]"
proof -
  note r = create_from_pcd_scaling[OF demo_created_Some demo_pcd_lengths(1,2)]
  have d: "demo_dist (points demo_pcd) = [Fin (1 / 5000), Fin (1 / 5000)]"
    by (simp add: demo_dist_def demo_pcd_def)
  have t: "types demo_pcd = [Fin 1, Fin 0]" by (simp add: demo_pcd_def)
  show "scaling demo_created = [[Fin (ln (1 / 100)), Fin (ln (1 / 100)), Fin (ln (1 / 1000))],
                           [Fin (ln (1 / 100)), Fin (ln (1 / 100)), Fin (ln (1 / 100))]]"
    unfolding r(1) d t by (simp add: feq_def initial_axis_demo)
  show "ptype demo_created = [Fin 1, Fin 0]" unfolding r(2) t ..
  show "normal demo_created = PyNone" by (rule r(3))
  show "xyz demo_created = [[Fin 0, Fin 0, Fin 0], [Fin 1, Fin 0, Fin 0]]"
    unfolding r(4) by (simp add: demo_pcd_def row3_def)
qed

lemma save_ply_no_array: "normal s = PyNone \<or> normal s = TorchTensor t \<Longrightarrow> save_ply s = None"
  by (auto simp: save_ply_def)

lemma save_ply_SomeD: "save_ply s = Some f \<Longrightarrow> \<exists>n. normal s = NumpyArray n"
  by (cases "normal s") (simp_all add: save_ply_def)

lemma normal_training_setup [simp]: "normal (training_setup a s) = normal s"
  by (simp add: training_setup_def)

lemma normal_add_densification_stats:
  "add_densification_stats v g u s = Some s' \<Longrightarrow> normal s' = normal s"
  by (auto simp: add_densification_stats_def bind_eq_Some_conv)

lemma normal_densification_postfix:
  "densification_postfix a b c d e f g h i s = Some s' \<Longrightarrow> normal s' = normal s"
  by (auto simp: densification_postfix_def bind_eq_Some_conv Let_def)

lemma normal_prune_points: "prune_points m s = Some s' \<Longrightarrow> normal s' = normal s"
  by (auto simp: prune_points_def bind_eq_Some_conv Let_def)

lemma normal_densify_and_clone:
  "densify_and_clone g thr ext s = Some s' \<Longrightarrow> normal s' = normal s"
  by (auto simp: densify_and_clone_def bind_eq_Some_conv Let_def split: if_splits
           dest!: normal_densification_postfix)

lemma normal_densify_and_split:
  "densify_and_split br smp g thr ext n s = Some s' \<Longrightarrow> normal s' = normal s"
  by (auto simp: densify_and_split_def bind_eq_Some_conv Let_def split: if_splits
           dest!: normal_densification_postfix normal_prune_points)

lemma normal_apply_op: "apply_op x s = Some s' \<Longrightarrow> normal s' = normal s"
  by (cases x) (auto dest: normal_densify_and_clone normal_densify_and_split normal_prune_points)

lemma normal_apply_window: "apply_window x s = Some s' \<Longrightarrow> normal s' = normal s"
  by (cases x) (auto dest: normal_add_densification_stats normal_apply_op)

lemma normal_run_window: "run_window xs s = Some s' \<Longrightarrow> normal s' = normal s"
  by (induction xs arbitrary: s) (auto simp: bind_eq_Some_conv dest: normal_apply_window)

lemma normal_densify_and_prune:
  "densify_and_prune br smp en thr mo ext mss s = Some s' \<Longrightarrow>
   normal s' = NumpyArray (en (xyz s'))"
  by (auto simp: densify_and_prune_def bind_eq_Some_conv Let_def split: if_splits)

lemma create_from_pcd_normal:
  "create_from_pcd distCUDA2 cross as_quat inverse_sigmoid pcd lr_scale s = Some s' \<Longrightarrow>
   normal s' = PyNone"
  by (auto simp: create_from_pcd_def Let_def bind_eq_Some_conv computeNormal_def)

lemma create_from_pcd_fields:
  assumes c: "create_from_pcd distCUDA2 cross as_quat inverse_sigmoid pcd lr_scale s = Some s'"
  shows "features_dc s' = replicate (length (colors pcd)) [Fin 0, Fin 0, Fin 0]"
    and "features_rest s' = replicate (length (colors pcd))
                              (replicate (3 * ((max_sh_degree s + 1) ^ 2 - 1)) (Fin 0))"
    and "opacity s' = replicate (length (points pcd)) [inverse_sigmoid (fmul (Fin 0.4) (Fin 1))]"
    and "max_radii2D s' = replicate (length (points pcd)) (Fin 0)"
    and "xyz_id s' = [0..<length (points pcd)]"
    and "score s' = map fsqrt (map (fclamp (Fin 0.0000001) (Fin 0.01)) (distCUDA2 (points pcd)))"
    and "extra_axes s' = 0" and "max_sh_degree s' = max_sh_degree s"
    and "assign_quats (length (points pcd))
           (map as_quat (map (\<lambda>(dx, dy, d). frame dx dy d)
              (zip (map normalize3 (cross (normals pcd)
                      (map (\<lambda>(a, b, c). (fsub (Fin 1) a, fsub (Fin 1) b, fsub (Fin 1) c))
                           (normals pcd))))
                   (zip (cross (normals pcd) (map normalize3 (cross (normals pcd)
                      (map (\<lambda>(a, b, c). (fsub (Fin 1) a, fsub (Fin 1) b, fsub (Fin 1) c))
                           (normals pcd))))) (normals pcd)))))
         = Some (rotation s')"
  using c
  by (auto simp: create_from_pcd_def Let_def bind_eq_Some_conv reset_xyz_id_def
        simp del: flog.simps fsqrt.simps)

lemma demo_created_more:
  "features_dc demo_created = [[Fin 0, Fin 0, Fin 0], [Fin 0, Fin 0, Fin 0]]"
  "features_rest demo_created = [[], []]"
  "opacity demo_created = [[Fin (ln (2 / 3))], [Fin (ln (2 / 3))]]"
  "max_radii2D demo_created = [Fin 0, Fin 0]" "xyz_id demo_created = [0, 1]"
  "length (score demo_created) = 2" "extra_axes demo_created = 0"
  "rotation demo_created = [[Fin 1, Fin 0, Fin 0, Fin 0], [Fin 1, Fin 0, Fin 0, Fin 0]]"
proof -
  note r = create_from_pcd_fields[OF demo_created_Some]
  show "features_dc demo_created = [[Fin 0, Fin 0, Fin 0], [Fin 0, Fin 0, Fin 0]]"
    unfolding r(1) by (simp add: demo_pcd_def numeral_2_eq_2)
  show "features_rest demo_created = [[], []]"
    unfolding r(2) by (simp add: demo_pcd_def numeral_2_eq_2 init_def)
  show "opacity demo_created = [[Fin (ln (2 / 3))], [Fin (ln (2 / 3))]]"
    unfolding r(3) by (simp add: demo_pcd_def numeral_2_eq_2 demo_logit_def fsub_def)
  show "max_radii2D demo_created = [Fin 0, Fin 0]"
    unfolding r(4) by (simp add: demo_pcd_def numeral_2_eq_2)
  show "xyz_id demo_created = [0, 1]"
    unfolding r(5) by (simp add: demo_pcd_def numeral_2_eq_2)
  show "length (score demo_created) = 2"
    unfolding r(6) by (simp add: demo_pcd_def demo_dist_def)
  show "extra_axes demo_created = 0" by (rule r(7))
  show "rotation demo_created = [[Fin 1, Fin 0, Fin 0, Fin 0], [Fin 1, Fin 0, Fin 0, Fin 0]]"
    using r(9) by (simp add: demo_pcd_def demo_cross_def demo_quat_def assign_quats_def)
qed

lemma wf_demo_trained: "well_formed demo_trained"
  unfolding demo_trained_def
  by (rule well_formed_training_setup)
     (simp add: shaped_def demo_created_fields demo_created_more)

lemma demo_trained_fields:
  "xyz demo_trained = [[Fin 0, Fin 0, Fin 0], [Fin 1, Fin 0, Fin 0]]"
  "features_dc demo_trained = [[Fin 0, Fin 0, Fin 0], [Fin 0, Fin 0, Fin 0]]"
  "features_rest demo_trained = [[], []]"
  "opacity demo_trained = [[Fin (ln (2 / 3))], [Fin (ln (2 / 3))]]"
  "scaling demo_trained = [[Fin (ln (1 / 100)), Fin (ln (1 / 100)), Fin (ln (1 / 1000))],
                           [Fin (ln (1 / 100)), Fin (ln (1 / 100)), Fin (ln (1 / 100))]]"
  "rotation demo_trained = [[Fin 1, Fin 0, Fin 0, Fin 0], [Fin 1, Fin 0, Fin 0, Fin 0]]"
  "ptype demo_trained = [Fin 1, Fin 0]"
  by (simp_all add: demo_trained_def training_setup_def demo_created_fields demo_created_more)

lemma avg_of_demo_trained: "avg_of demo_trained = [Fin 0, Fin 0]"
  by (simp add: avg_of_def demo_trained_def training_setup_def demo_created_fields
        numeral_2_eq_2)

lemma demo_densified_Some:
  shows "densify_and_prune demo_rotation demo_sampler demo_normals PInf (Fin 0) (Fin 10) None
     demo_trained = Some demo_densified"
    and "same_attributes demo_densified demo_trained"
    and "well_formed demo_densified"
    and "normal demo_densified = NumpyArray [[Fin 0, Fin 0, Fin 1], [Fin 0, Fin 0, Fin 1]]"
proof -
  have g: "avg_grads demo_trained = Some [Fin 0, Fin 0]"
    using wf_avg_grads[OF wf_demo_trained] avg_of_demo_trained by simp
  have f: "\<forall>x\<in>set [Fin 0, Fin 0]. x \<noteq> PInf \<and> x \<noteq> NInf" by simp
  have n: "length (xyz demo_trained) \<noteq> 1" by (simp add: demo_trained_fields)
  from densify_and_prune_finite[OF wf_demo_trained g f n, of demo_rotation demo_sampler
      demo_normals "Fin 10"]
  obtain s' where s': "densify_and_prune demo_rotation demo_sampler demo_normals PInf (Fin 0)
      (Fin 10) None demo_trained = Some s'" "same_attributes s' demo_trained" "well_formed s'"
      "normal s' = NumpyArray (demo_normals (xyz demo_trained))"
    by blast
  have e: "demo_densified = s'" by (simp add: demo_densified_def s'(1))
  show "densify_and_prune demo_rotation demo_sampler demo_normals PInf (Fin 0) (Fin 10) None
     demo_trained = Some demo_densified" unfolding e by (rule s'(1))
  show "same_attributes demo_densified demo_trained" unfolding e by (rule s'(2))
  show "well_formed demo_densified" unfolding e by (rule s'(3))
  show "normal demo_densified = NumpyArray [[Fin 0, Fin 0, Fin 1], [Fin 0, Fin 0, Fin 1]]"
    unfolding e s'(4) by (simp add: demo_trained_fields demo_normals_def)
qed

lemma string_of_nat_digits:
  "string_of_nat 0 = ''0''" "string_of_nat (Suc 0) = ''1''"
  "string_of_nat (Suc (Suc 0)) = ''2''" "string_of_nat (Suc (Suc (Suc 0))) = ''3''"
  by (simp_all add: string_of_nat.simps)

lemma upt_0_4: "[0..<4] = [0, 1, 2, 3]"
  by code_simp

lemma transpose_flatten_3 [simp]: "transpose_flatten [a, b, c] = [a, b, c]"
  by (simp add: transpose_flatten_def upt_0_3)

lemma transpose_flatten_Nil [simp]: "transpose_flatten [] = []"
  by (simp add: transpose_flatten_def)

lemma save_ply_demo_densified:
  "save_ply demo_densified =
     Some \<lparr>properties = [''x'', ''y'', ''z'', ''nx'', ''ny'', ''nz'', ''f_dc_0'', ''f_dc_1'',
                         ''f_dc_2'', ''opacity'', ''scale_0'', ''scale_1'', ''scale_2'',
                         ''rot_0'', ''rot_1'', ''rot_2'', ''rot_3'', ''type''],
           vertices =
             [[Fin 0, Fin 0, Fin 0, Fin 0, Fin 0, Fin 1, Fin 0, Fin 0, Fin 0, Fin (ln (2 / 3)),
               Fin (ln (1 / 100)), Fin (ln (1 / 100)), Fin (ln (1 / 1000)),
               Fin 1, Fin 0, Fin 0, Fin 0, Fin 1],
              [Fin 1, Fin 0, Fin 0, Fin 0, Fin 0, Fin 1, Fin 0, Fin 0, Fin 0, Fin (ln (2 / 3)),
               Fin (ln (1 / 100)), Fin (ln (1 / 100)), Fin (ln (1 / 100)),
               Fin 1, Fin 0, Fin 0, Fin 0, Fin 0]]\<rparr>"
proof -
  note a = demo_densified_Some(2)[unfolded same_attributes_def demo_trained_fields]
  have e: "extra_axes demo_densified = 0" by (rule wf_extra_axes[OF demo_densified_Some(3)])
  have u: "[0..<2] = [0::nat, 1]" by (simp add: numeral_2_eq_2)
  have names: "construct_list_of_attributes demo_densified =
      [''x'', ''y'', ''z'', ''nx'', ''ny'', ''nz'', ''f_dc_0'', ''f_dc_1'',
       ''f_dc_2'', ''opacity'', ''scale_0'', ''scale_1'', ''scale_2'',
       ''rot_0'', ''rot_1'', ''rot_2'', ''rot_3'', ''type'']"
    using a by (simp add: construct_list_of_attributes_def width_def upt_0_3 upt_0_4
          string_of_nat_digits)
  show ?thesis
    unfolding save_ply_def demo_densified_Some(4) names
    using a e by (simp add: Let_def u)
qed

section \<open>The specification\<close>

text \<open>
  Claim C1. From a well-formed store (what \<open>training_setup\<close> yields on arrays of one length,
  with or without moment estimates), after any run of clone, split and prune operations that
  completes, the store is again well formed: every tracked parameter array has the length of
  \<open>xyz\<close>, in the model and in the optimizer, and so have the moment estimates the optimizer
  holds. The groups of the global scalar \<open>scene_scale\<close> and the scalar itself are as before:
  neither the filter nor the extension resizes them.
\<close>

theorem resize_keeps_lengths:
  assumes "well_formed s" and "run_ops ops s = Some s'"
  shows "tracked_consistent s' \<and> well_formed s' \<and>
         scene_scale_groups s' = scene_scale_groups s \<and> scene_scale s' = scene_scale s"
  using run_ops_invariant[OF assms] well_formed_tracked by blast

theorem resize_keeps_lengths_witness:
  "well_formed demo_store \<and>
   (\<exists>s'. run_ops [Clone [Fin 2, Fin 3, Fin 0] (Fin 1) (Fin 20),
                  Prune [True, False, False, False, False]] demo_store = Some s' \<and>
      tracked_consistent s' \<and> length (xyz s') = 4 \<and>
      scene_scale_groups s' = [demo_group ''scene_scale'' [[Fin 1]]] \<and>
      scene_scale s' = [[Fin 1]])"
proof -
  let ?g = "[Fin 2, Fin 3, Fin 0]"
  let ?m = "[True, False, False, False, False]"
  let ?s1 = "clone_res (clone_mask ?g (Fin 1) (Fin 20) demo_store) demo_store"
  have l: "length ?g = length (xyz demo_store)" by (simp add: demo_store_def)
  have n: "length (xyz demo_store) = 3" by (simp add: demo_store_def)
  have c: "clone_selected ?g (Fin 1) (Fin 20) demo_store = [0, 1]"
    unfolding clone_selected_def n upt_0_3
    by (simp add: demo_store_def physical_scale_def max_of_row_def fge_def)
  have ns: "\<not> lone_other (sel_idx (clone_mask ?g (Fin 1) (Fin 20) demo_store)) demo_store"
    by (simp add: sel_idx_clone_mask c lone_other_def)
  have 1: "densify_and_clone ?g (Fin 1) (Fin 20) demo_store = Some ?s1"
    by (rule densify_and_clone_Some[OF wf_demo_store l ns])
  have w1: "well_formed ?s1"
    by (rule wf_clone_res[OF wf_demo_store]) (simp add: clone_mask_def)
  have l1: "length (xyz ?s1) = 5"
    unfolding clone_res_def postfix_res_sel by (simp add: sel_idx_clone_mask c n)
  have 2: "prune_points (Vector ?m) ?s1 = Some (prune_points_res ?m ?s1)"
    by (rule prune_points_Some[OF w1]) (simp add: l1)
  have r: "run_ops [Clone ?g (Fin 1) (Fin 20), Prune ?m] demo_store
           = Some (prune_points_res ?m ?s1)"
    by (simp add: 1 2)
  have l2: "length (xyz (prune_points_res ?m ?s1)) = 4"
    unfolding prune_points_res_sel length_pick using l1
    by (simp add: sel_idx_def upt_rec[of 0] upt_rec[of 1] upt_rec[of 2] upt_rec[of 3]
          upt_rec[of 4] upt_rec[of 5])
  have g: "scene_scale_groups demo_store = [demo_group ''scene_scale'' [[Fin 1]]]"
    by (simp add: scene_scale_groups_def demo_store_def demo_group_def)
  have sc: "scene_scale demo_store = [[Fin 1]]" by (simp add: demo_store_def)
  from resize_keeps_lengths[OF wf_demo_store r] g sc l2 r wf_demo_store
  show ?thesis by auto
qed

text \<open>
  Claim C2, as stated, says that the signal of the selection is
  \<open>position_gradient_accum / denom\<close>. After one call of \<open>add_densification_stats\<close> with
  screen-space gradient \<open>(1, 0, 0)\<close> and position gradient \<open>(2, 0, 0)\<close> the signal that
  \<open>densify_and_prune\<close> computes is 1, while the norm of \<open>position_gradient_accum / denom\<close>
  is 2; at threshold 2 the clone pass selects nothing with the first and the primitive with
  the second.
\<close>

theorem avg_grad_accumulator_counterexample:
  "avg_grads stats_store = Some [Fin 1] \<and> spec_grad_norms stats_store = [Fin 2] \<and>
   avg_grads stats_store \<noteq> Some (spec_grad_norms stats_store) \<and>
   clone_selected [Fin 1] (Fin 2) (Fin 1000) stats_store = [] \<and>
   clone_selected [Fin 2] (Fin 2) (Fin 1000) stats_store = [0]"
proof -
  have "avg_of stats_store = [Fin 1]"
    by (simp add: avg_of_def stats_store_def)
  hence a: "avg_grads stats_store = Some [Fin 1]"
    using wf_avg_grads[OF wf_stats_store] by simp
  have b: "spec_grad_norms stats_store = [Fin 2]"
    by (simp add: spec_grad_norms_def spec_avg_grad_def stats_store_def)
  have n: "length (xyz stats_store) = 1"
    by (simp add: stats_store_def training_setup_def one_primitive_def)
  have u: "[0..<1] = [0::nat]" by simp
  have c: "clone_selected [Fin 1] (Fin 2) (Fin 1000) stats_store = []"
    unfolding clone_selected_def n u by (simp add: fge_def)
  have d: "clone_selected [Fin 2] (Fin 2) (Fin 1000) stats_store = [0]"
    unfolding clone_selected_def n u
    by (simp add: fge_def physical_scale_def max_of_row_def stats_store_def training_setup_def
          one_primitive_def demo_args_def)
  from a b c d show ?thesis by simp
qed

text \<open>
  Claim C2, amended. On a well-formed store the signal is
  \<open>xyz_gradient_accum / denom\<close> elementwise (the accumulated norm of the screen-space
  gradient over the number of visible steps), with every NaN replaced by zero: no entry is
  NaN, an entry with both accumulators zero is zero, and it is this list that the clone and
  the split pass of \<open>densify_and_prune\<close> receive.
\<close>

theorem avg_grads_screen_accumulator:
  assumes "well_formed s"
  shows "\<exists>g. avg_grads s = Some g \<and>
     g = map2 (\<lambda>a d. if isnan (fdiv a d) then Fin 0 else fdiv a d)
              (xyz_gradient_accum s) (denom s) \<and>
     length g = length (xyz s) \<and>
     (\<forall>x\<in>set g. \<not> isnan x) \<and>
     (\<forall>i<length (xyz s). xyz_gradient_accum s ! i = Fin 0 \<and> denom s ! i = Fin 0 \<longrightarrow> g ! i = Fin 0) \<and>
     densify_and_prune build_rotation smp estimate_normals max_grad min_opacity extent
       max_screen_size s =
       do { s1 \<leftarrow> densify_and_clone g max_grad extent ((reset_xyz_id s)\<lparr>modify_id := []\<rparr>);
            s2 \<leftarrow> densify_and_split build_rotation smp g max_grad extent 2 s1;
            s3 \<leftarrow> prune_pass min_opacity extent max_screen_size s2;
            if extra_axes s3 \<noteq> 0 \<and> xyz s3 \<noteq> [] then None
            else Some (s3\<lparr>normal := NumpyArray (estimate_normals (xyz s3))\<rparr>) }"
proof -
  have al: "length (xyz_gradient_accum s) = length (xyz s)" "length (denom s) = length (xyz s)"
    using wf_arrays[OF assms] by (simp_all add: arrays_len_def)
  have z: "\<forall>i<length (xyz s). xyz_gradient_accum s ! i = Fin 0 \<and> denom s ! i = Fin 0
             \<longrightarrow> avg_of s ! i = Fin 0"
    using al by (simp add: avg_of_def)
  have d: "densify_and_prune build_rotation smp estimate_normals max_grad min_opacity extent
       max_screen_size s =
       do { s1 \<leftarrow> densify_and_clone (avg_of s) max_grad extent ((reset_xyz_id s)\<lparr>modify_id := []\<rparr>);
            s2 \<leftarrow> densify_and_split build_rotation smp (avg_of s) max_grad extent 2 s1;
            s3 \<leftarrow> prune_pass min_opacity extent max_screen_size s2;
            if extra_axes s3 \<noteq> 0 \<and> xyz s3 \<noteq> [] then None
            else Some (s3\<lparr>normal := NumpyArray (estimate_normals (xyz s3))\<rparr>) }"
    unfolding densify_and_prune_def by (simp only: wf_avg_grads[OF assms] bind.simps Let_def)
  show ?thesis
    using wf_avg_grads[OF assms] avg_of_map2[of s] length_avg_of[OF assms] avg_of_no_nan[of s] z d
    by blast
qed

theorem avg_grads_screen_accumulator_witness:
  "well_formed stats_store \<and> avg_grads stats_store = Some [Fin 1] \<and>
   xyz_gradient_accum stats_store = [Fin 1] \<and> denom stats_store = [Fin 1]"
proof -
  from avg_grads_screen_accumulator[OF wf_stats_store] obtain g where
    g: "avg_grads stats_store = Some g"
       "g = map2 (\<lambda>a d. if isnan (fdiv a d) then Fin 0 else fdiv a d)
              (xyz_gradient_accum stats_store) (denom stats_store)"
    by blast
  have "g = [Fin 1]" unfolding g(2) by (simp add: stats_store_def)
  with g(1) wf_stats_store show ?thesis by (simp add: stats_store_def)
qed

text \<open>
  Claim C3 at a store of three primitives where the clone pass selects exactly one, of
  type 0. The claim has the population grow by one, the new primitive a verbatim copy of
  primitive 0. In the code the one-row \<open>new_type.squeeze()\<close> is 0-dim, the in-place
  addition of line 566 meets a target of shape \<open>(0, 1, 3)\<close> and an operand of shape
  \<open>(0, 3)\<close>, and the pass raises before anything is appended.
\<close>

theorem clone_pass_lone_volumetric:
  "length (xyz demo_store) = 3 \<and>
   clone_selected [Fin 2, Fin 0, Fin 0] (Fin 1) (Fin 20) demo_store = [0] \<and>
   ptype demo_store ! 0 = Fin 0 \<and>
   densify_and_clone [Fin 2, Fin 0, Fin 0] (Fin 1) (Fin 20) demo_store = None"
proof -
  let ?g = "[Fin 2, Fin 0, Fin 0]"
  have n: "length (xyz demo_store) = 3" by (simp add: demo_store_def)
  have l: "length ?g = length (xyz demo_store)" by (simp add: n)
  have c: "clone_selected ?g (Fin 1) (Fin 20) demo_store = [0]"
    unfolding clone_selected_def n upt_0_3
    by (simp add: demo_store_def physical_scale_def max_of_row_def fge_def)
  have t: "ptype demo_store ! 0 = Fin 0" by (simp add: demo_store_def)
  have ns: "lone_other (sel_idx (clone_mask ?g (Fin 1) (Fin 20) demo_store)) demo_store"
    by (simp add: sel_idx_clone_mask c lone_other_def t feq_def)
  from densify_and_clone_lone[OF wf_demo_store l ns] n c t show ?thesis by simp
qed

text \<open>
  Claim C4. The split pass selects exactly the primitives whose zero-padded gradient is at
  least the threshold and whose largest physical scale exceeds
  \<open>percent_dense * scene_extent\<close>. On a well-formed store it succeeds; the result keeps the
  primitives that were not selected, in order, followed by \<open>n\<close> children per selected parent
  (the block of parents repeated \<open>n\<close> times). A child's position is the parent's position plus
  the parent's rotation matrix applied to a draw with mean zero and the parent's physical
  scale as per-axis standard deviation; its raw scale is
  \<open>log (physical scale / (0.8 * n))\<close>; its other attributes are the parent's. With \<open>k\<close>
  parents selected the population changes by \<open>n * k - k\<close>; for \<open>n = 2\<close> that is \<open>+k\<close>.
\<close>

theorem split_pass:
  assumes "well_formed s" and "length grads \<le> length (xyz s)"
  shows "\<exists>s'. densify_and_split build_rotation smp grads grad_threshold scene_extent n s = Some s' \<and>
     xyz s' = map (\<lambda>i. xyz s ! i) (split_kept grads grad_threshold scene_extent s) @
              map (\<lambda>(j, p). child_xyz build_rotation smp s j p)
                  (enumerate 0 (split_parents n grads grad_threshold scene_extent s)) \<and>
     scaling s' = map (\<lambda>i. scaling s ! i) (split_kept grads grad_threshold scene_extent s) @
              map (child_scaling n s) (split_parents n grads grad_threshold scene_extent s) \<and>
     rotation s' = map (\<lambda>i. rotation s ! i) (split_kept grads grad_threshold scene_extent s) @
              map (\<lambda>i. rotation s ! i) (split_parents n grads grad_threshold scene_extent s) \<and>
     features_dc s' = map (\<lambda>i. features_dc s ! i) (split_kept grads grad_threshold scene_extent s) @
              map (\<lambda>i. features_dc s ! i) (split_parents n grads grad_threshold scene_extent s) \<and>
     features_rest s' = map (\<lambda>i. features_rest s ! i) (split_kept grads grad_threshold scene_extent s) @
              map (\<lambda>i. features_rest s ! i) (split_parents n grads grad_threshold scene_extent s) \<and>
     opacity s' = map (\<lambda>i. opacity s ! i) (split_kept grads grad_threshold scene_extent s) @
              map (\<lambda>i. opacity s ! i) (split_parents n grads grad_threshold scene_extent s) \<and>
     score s' = map (\<lambda>i. score s ! i) (split_kept grads grad_threshold scene_extent s) @
              map (\<lambda>i. score s ! i) (split_parents n grads grad_threshold scene_extent s) \<and>
     xyz_id s' = map (\<lambda>i. xyz_id s ! i) (split_kept grads grad_threshold scene_extent s) @
              map (\<lambda>i. xyz_id s ! i) (split_parents n grads grad_threshold scene_extent s) \<and>
     ptype s' = map (\<lambda>i. ptype s ! i) (split_kept grads grad_threshold scene_extent s) @
              map (\<lambda>i. ptype s ! i) (split_parents n grads grad_threshold scene_extent s) \<and>
     length (split_parents n grads grad_threshold scene_extent s)
       = n * length (split_selected grads grad_threshold scene_extent s) \<and>
     length (xyz s') + length (split_selected grads grad_threshold scene_extent s)
       = length (xyz s) + n * length (split_selected grads grad_threshold scene_extent s)"
proof -
  note w = assms(1)
  have len: "length (xyz (split_res build_rotation smp n
                (split_mask grads grad_threshold scene_extent s) s))
             + length (split_selected grads grad_threshold scene_extent s)
             = length (xyz s) + n * length (split_selected grads grad_threshold scene_extent s)"
    unfolding split_res_xyz[OF w]
    using length_split_kept[of grads grad_threshold scene_extent s]
    by (simp add: length_split_parents)
  show ?thesis
    unfolding densify_and_split_Some[OF assms]
    using len
    by (simp only: option.inject simp_thms ex_simps split_res_xyz[OF w] split_res_scaling[OF w]
          split_res_rotation[OF w] split_res_features_dc[OF w] split_res_features_rest[OF w]
          split_res_opacity[OF w] split_res_score[OF w] split_res_xyz_id[OF w]
          split_res_ptype[OF w] length_split_parents)
qed

theorem split_pass_witness:
  "well_formed demo_store \<and> length [Fin 2, Fin 3, Fin 0] \<le> length (xyz demo_store) \<and>
   split_selected [Fin 2, Fin 3, Fin 0] (Fin 1) (Fin 1) demo_store = [0, 1] \<and>
   (\<exists>s'. densify_and_split (\<lambda>q. [[Fin 1, Fin 0, Fin 0], [Fin 0, Fin 1, Fin 0], [Fin 0, Fin 0, Fin 1]])
            (\<lambda>i j mu sd. mu) [Fin 2, Fin 3, Fin 0] (Fin 1) (Fin 1) 2 demo_store = Some s' \<and>
      length (xyz s') = 5 \<and>
      xyz s' = [[Fin 2, Fin 2, Fin 2], [Fin 0, Fin 0, Fin 0], [Fin 1, Fin 1, Fin 1],
                [Fin 0, Fin 0, Fin 0], [Fin 1, Fin 1, Fin 1]] \<and>
      ptype s' = [Fin 0, Fin 0, Fin 1, Fin 0, Fin 1])"
proof -
  let ?br = "\<lambda>q::fl list. [[Fin 1, Fin 0, Fin 0], [Fin 0, Fin 1, Fin 0], [Fin 0, Fin 0, Fin 1]]"
  let ?smp = "\<lambda>(i::nat) (j::nat) (mu::fl) (sd::fl). mu"
  have l: "length [Fin 2, Fin 3, Fin 0] \<le> length (xyz demo_store)"
    by (simp add: demo_store_def)
  have n: "length (xyz demo_store) = 3" by (simp add: demo_store_def)
  have sel: "split_selected [Fin 2, Fin 3, Fin 0] (Fin 1) (Fin 1) demo_store = [0, 1]"
    unfolding split_selected_def n upt_0_3
    by (simp add: split_pred_def demo_store_def physical_scale_def max_of_row_def fge_def fgt_def)
  have kept: "split_kept [Fin 2, Fin 3, Fin 0] (Fin 1) (Fin 1) demo_store = [2]"
    unfolding split_kept_def n upt_0_3
    by (simp add: split_pred_def demo_store_def physical_scale_def max_of_row_def fge_def fgt_def)
  have par: "split_parents 2 [Fin 2, Fin 3, Fin 0] (Fin 1) (Fin 1) demo_store = [0, 1, 0, 1]"
    unfolding split_parents_def sel by (simp add: repeat_def numeral_2_eq_2)
  from split_pass[OF wf_demo_store l, of ?br ?smp "Fin 1" "Fin 1" 2] obtain s' where
    s': "densify_and_split ?br ?smp [Fin 2, Fin 3, Fin 0] (Fin 1) (Fin 1) 2 demo_store = Some s'"
      "xyz s' = map (\<lambda>i. xyz demo_store ! i) [2] @
              map (\<lambda>(j, p). child_xyz ?br ?smp demo_store j p) (enumerate 0 [0, 1, 0, 1])"
      "ptype s' = map (\<lambda>i. ptype demo_store ! i) [2] @ map (\<lambda>i. ptype demo_store ! i) [0, 1, 0, 1]"
    unfolding sel kept par by blast
  have x: "xyz s' = [[Fin 2, Fin 2, Fin 2], [Fin 0, Fin 0, Fin 0], [Fin 1, Fin 1, Fin 1],
                [Fin 0, Fin 0, Fin 0], [Fin 1, Fin 1, Fin 1]]"
    unfolding s'(2)
    by (simp add: demo_store_def child_xyz_def child_sample_def dot_def)
  have t: "ptype s' = [Fin 0, Fin 0, Fin 1, Fin 0, Fin 1]"
    unfolding s'(3) by (simp add: demo_store_def)
  have "length (xyz s') = 5" unfolding x by simp
  with wf_demo_store l sel s'(1) x t show ?thesis by blast
qed




text \<open>
  Claim C6, as stated, holds for every starting store and every per-primitive attribute.
  With threshold \<open>+\<infinity>\<close>, \<open>min_opacity = 0\<close> and no \<open>max_screen_size\<close>: on two primitives whose
  accumulated screen-space gradient is infinite (one call of \<open>add_densification_stats\<close> with
  infinite gradients reaches the store) the averaged gradient \<open>+\<infinity>\<close> passes the test
  \<open>\<ge> +\<infinity>\<close>, both primitives are cloned and the population grows from two to four; and on
  three primitives with finite gradients, where nothing is cloned, split or pruned, the
  call still sets the accumulators, \<open>denom\<close> and the screen radii to zero, renumbers the ids
  and stores new normals.
\<close>

theorem densify_and_prune_identity_counterexample:
  "length (xyz inf_store) = 2 \<and>
   densify_and_prune demo_rotation demo_sampler demo_normals PInf (Fin 0) (Fin 1000) None
     inf_store \<noteq> None \<and>
   length (xyz (the (densify_and_prune demo_rotation demo_sampler demo_normals PInf (Fin 0)
     (Fin 1000) None inf_store))) = 4 \<and>
   avg_grads used_store = Some [Fin 1, Fin 1, Fin 1] \<and>
   densify_and_prune demo_rotation demo_sampler demo_normals PInf (Fin 0) (Fin 1000) None
     used_store \<noteq> None \<and>
   xyz_gradient_accum used_store = [Fin 2, Fin 2, Fin 2] \<and>
   xyz_gradient_accum (the (densify_and_prune demo_rotation demo_sampler demo_normals PInf
     (Fin 0) (Fin 1000) None used_store)) = [Fin 0, Fin 0, Fin 0] \<and>
   denom used_store = [Fin 2, Fin 2, Fin 2] \<and>
   denom (the (densify_and_prune demo_rotation demo_sampler demo_normals PInf (Fin 0)
     (Fin 1000) None used_store)) = [Fin 0, Fin 0, Fin 0] \<and>
   max_radii2D used_store = [Fin 3, Fin 3, Fin 3] \<and>
   max_radii2D (the (densify_and_prune demo_rotation demo_sampler demo_normals PInf (Fin 0)
     (Fin 1000) None used_store)) = [Fin 0, Fin 0, Fin 0] \<and>
   xyz_id used_store = [5, 6, 7] \<and>
   xyz_id (the (densify_and_prune demo_rotation demo_sampler demo_normals PInf (Fin 0)
     (Fin 1000) None used_store)) = [0, 1, 2] \<and>
   normal used_store = PyNone \<and>
   normal (the (densify_and_prune demo_rotation demo_sampler demo_normals PInf (Fin 0)
     (Fin 1000) None used_store))
     = NumpyArray [[Fin 0, Fin 0, Fin 1], [Fin 0, Fin 0, Fin 1], [Fin 0, Fin 0, Fin 1]]"
proof -
  let ?s1 = "dap_cloned PInf (Fin 1000) inf_store"
  let ?s2 = "dap_split demo_rotation demo_sampler PInf (Fin 1000) inf_store"
  let ?s3 = "dap_pruned demo_rotation demo_sampler PInf (Fin 0) (Fin 1000) None inf_store"
  note w = wf_inf_store
  have n: "length (xyz inf_store) = 2"
    by (simp add: inf_store_def training_setup_def two_primitives_def)
  have sc: "scaling inf_store = [[Fin 0, Fin 0, Fin 0], [Fin 0, Fin 0, Fin 0]]"
    "percent_dense inf_store = Fin 0.01"
    by (simp_all add: inf_store_def training_setup_def two_primitives_def demo_args_def)
  have u: "[0..<2] = [0::nat, 1]" by (simp add: numeral_2_eq_2)
  have c: "clone_selected (avg_of inf_store) PInf (Fin 1000) (dap_reset inf_store) = [0, 1]"
    unfolding clone_selected_def avg_of_inf_store xyz_dap_reset n u
    by (simp add: fge_def physical_scale_def max_of_row_def sc)
  have ns: "\<not> lone_other (clone_selected (avg_of inf_store) PInf (Fin 1000)
               (dap_reset inf_store)) inf_store"
    by (simp add: c lone_other_def)
  have n1: "length (xyz ?s1) = 4" by (simp add: length_xyz_dap_cloned c n)
  have l1: "length (scaling ?s1) = length (xyz ?s1)"
    using wf_arrays[OF wf_dap_cloned[OF w]] by (simp add: arrays_len_def)
  have "\<forall>r\<in>set (scaling ?s1).
          \<not> fgt (max_of_row (map fexp r)) (fmul (percent_dense ?s1) (Fin 1000))"
    using scaling_dap_cloned_subset[OF w, of PInf "Fin 1000"]
    by (auto simp: sc max_of_row_def fgt_def)
  from split_selected_small_scale[OF this l1]
  have sp: "split_selected (avg_of inf_store) PInf (Fin 1000) ?s1 = []" .
  have 2: "same_attributes ?s2 ?s1" by (rule dap_split_noop[OF w sp])
  have 3: "same_attributes ?s3 ?s2" by (rule dap_pruned_noop[OF w]) simp
  have n2: "length (xyz ?s2) \<noteq> 1 \<or> truthy None" using 2 n1 by (simp add: same_attributes_def)
  have "length (xyz ?s3) = 4" using 2 3 n1 by (simp add: same_attributes_def)
  hence a: "densify_and_prune demo_rotation demo_sampler demo_normals PInf (Fin 0) (Fin 1000)
              None inf_store \<noteq> None \<and>
            length (xyz (the (densify_and_prune demo_rotation demo_sampler demo_normals PInf
              (Fin 0) (Fin 1000) None inf_store))) = 4"
    by (simp add: densify_and_prune_Some[OF w ns n2])
  have g: "avg_grads used_store = Some [Fin 1, Fin 1, Fin 1]"
    using wf_avg_grads[OF wf_used_store] avg_of_used_store by simp
  have f: "\<forall>x\<in>set [Fin 1, Fin 1, Fin 1]. x \<noteq> PInf \<and> x \<noteq> NInf" by simp
  have m: "length (xyz used_store) \<noteq> 1" by (simp add: used_store_fields)
  from densify_and_prune_finite[OF wf_used_store g f m, of demo_rotation demo_sampler
      demo_normals "Fin 1000"]
  obtain s' where s': "densify_and_prune demo_rotation demo_sampler demo_normals PInf (Fin 0)
      (Fin 1000) None used_store = Some s'" "same_attributes s' used_store"
      "accumulators_zero s'" "xyz_id s' = [0..<length (xyz used_store)]"
      "normal s' = NumpyArray (demo_normals (xyz used_store))"
    by blast
  have x: "xyz s' = xyz used_store" using s'(2) by (simp add: same_attributes_def)
  have b: "xyz_gradient_accum s' = [Fin 0, Fin 0, Fin 0]" "denom s' = [Fin 0, Fin 0, Fin 0]"
    "max_radii2D s' = [Fin 0, Fin 0, Fin 0]"
    using s'(3) x by (simp_all add: accumulators_zero_def used_store_fields numeral_3_eq_3)
  have i: "xyz_id s' = [0, 1, 2]"
    unfolding s'(4) by (simp add: used_store_fields upt_0_3[simplified])
  have nn: "normal s' = NumpyArray [[Fin 0, Fin 0, Fin 1], [Fin 0, Fin 0, Fin 1], [Fin 0, Fin 0, Fin 1]]"
    unfolding s'(5) by (simp add: used_store_fields demo_normals_def)
  show ?thesis
    using n a g b i nn by (simp add: s'(1) used_store_fields)
qed

text \<open>
  Claim C6, amended. On a well-formed store whose averaged gradients are all finite and whose
  population is not exactly one primitive, \<open>densify_and_prune\<close> with threshold \<open>+\<infinity>\<close>,
  \<open>min_opacity = 0\<close> and no \<open>max_screen_size\<close> succeeds and clones, splits and prunes
  nothing: position, color features, raw opacity, raw scale, raw rotation, type and outlier
  score of every primitive are unchanged and the store stays well formed. The gradient
  accumulators, \<open>denom\<close> and the screen radii are reset to zero, the ids are renumbered
  \<open>0..N-1\<close>, \<open>modify_id\<close> is empty and the normals are estimated anew.
\<close>

theorem densify_and_prune_identity:
  assumes "well_formed s" and "avg_grads s = Some g" and "\<forall>x\<in>set g. x \<noteq> PInf \<and> x \<noteq> NInf"
    and "length (xyz s) \<noteq> 1"
  shows "\<exists>s'. densify_and_prune build_rotation smp estimate_normals PInf (Fin 0) extent None s
               = Some s' \<and>
     same_attributes s' s \<and> well_formed s' \<and> accumulators_zero s' \<and>
     xyz_id s' = [0..<length (xyz s)] \<and> modify_id s' = [] \<and>
     normal s' = NumpyArray (estimate_normals (xyz s))"
  using assms by (rule densify_and_prune_finite)

theorem densify_and_prune_identity_witness:
  "well_formed finite_store \<and> avg_grads finite_store = Some [Fin 1, Fin 1, Fin 1] \<and>
   length (xyz finite_store) = 3 \<and>
   (\<exists>s'. densify_and_prune demo_rotation demo_sampler demo_normals PInf (Fin 0) (Fin 10) None
            finite_store = Some s' \<and>
      xyz s' = [[Fin 0, Fin 0, Fin 0], [Fin 1, Fin 1, Fin 1], [Fin 2, Fin 2, Fin 2]] \<and>
      opacity s' = [[Fin (ln (1 / 999))], [Fin 0], [Fin (ln 9)]] \<and>
      xyz_gradient_accum s' = [Fin 0, Fin 0, Fin 0] \<and> denom s' = [Fin 0, Fin 0, Fin 0])"
proof -
  have a: "avg_grads finite_store = Some [Fin 1, Fin 1, Fin 1]"
    using wf_avg_grads[OF wf_finite_store] avg_of_finite_store by simp
  have f: "\<forall>x\<in>set [Fin 1, Fin 1, Fin 1]. x \<noteq> PInf \<and> x \<noteq> NInf" by simp
  have x: "xyz finite_store = [[Fin 0, Fin 0, Fin 0], [Fin 1, Fin 1, Fin 1], [Fin 2, Fin 2, Fin 2]]"
    "opacity finite_store = [[Fin (ln (1 / 999))], [Fin 0], [Fin (ln 9)]]"
    by (simp_all add: finite_store_def opacity_store_def training_setup_def)
  have n: "length (xyz finite_store) \<noteq> 1" by (simp add: x)
  from densify_and_prune_identity[OF wf_finite_store a f n, of demo_rotation demo_sampler
      demo_normals "Fin 10"]
  obtain s' where s': "densify_and_prune demo_rotation demo_sampler demo_normals PInf (Fin 0)
      (Fin 10) None finite_store = Some s'" "same_attributes s' finite_store"
      "accumulators_zero s'"
    by blast
  have "xyz s' = [[Fin 0, Fin 0, Fin 0], [Fin 1, Fin 1, Fin 1], [Fin 2, Fin 2, Fin 2]]"
    "opacity s' = [[Fin (ln (1 / 999))], [Fin 0], [Fin (ln 9)]]"
    using s'(2) x by (simp_all add: same_attributes_def)
  moreover from this s'(3) have "xyz_gradient_accum s' = [Fin 0, Fin 0, Fin 0]"
    "denom s' = [Fin 0, Fin 0, Fin 0]"
    by (simp_all add: accumulators_zero_def numeral_3_eq_3)
  ultimately show ?thesis using wf_finite_store a s'(1) x by simp
qed

text \<open>
  Claim C7 at a population of one: the store \<open>training_setup\<close> yields on one primitive of
  physical opacity 0.5, pruned with \<open>min_opacity = 2\<close> and no \<open>max_screen_size\<close>. The first
  \<open>densify_and_prune\<close> returns, and no primitive is left; but the one-row mask of line 588
  is 0-dim after \<open>squeeze()\<close>, indexing by it puts an axis in front of the rows, and the
  arrays that are left have shape \<open>(0, 1, d)\<close>. The claim has the next \<open>densify_and_prune\<close>
  complete as a no-op; in the code its clone pass builds a mask that does not fit these
  arrays, and the call raises.
\<close>

theorem prune_all_then_noop_lone:
  "length (xyz lone_store) = 1 \<and> physical_opacity lone_store 0 = Fin (1 / 2) \<and>
   densify_and_prune demo_rotation demo_sampler demo_normals (Fin 1) (Fin 2) (Fin 10) None
     lone_store = Some lone_pruned \<and>
   xyz lone_pruned = [] \<and> opacity lone_pruned = [] \<and> extra_axes lone_pruned = 1 \<and>
   densify_and_prune demo_rotation demo_sampler demo_normals (Fin 1) (Fin 2) (Fin 10) None
     lone_pruned = None"
proof -
  have 1: "densify_and_prune demo_rotation demo_sampler demo_normals (Fin 1) (Fin 2) (Fin 10)
             None lone_store = Some lone_pruned"
    unfolding lone_pruned_def lone_store_first_call by simp
  have 2: "densify_and_prune demo_rotation demo_sampler demo_normals (Fin 1) (Fin 2) (Fin 10)
             None lone_pruned = None"
    by (rule densify_and_prune_extra_axes) (simp add: lone_pruned_fields)
  have p: "physical_opacity lone_store 0 = Fin (1 / 2)"
    by (simp add: physical_opacity_def lone_store_fields)
  show ?thesis using 1 2 p by (simp add: lone_pruned_fields lone_store_fields)
qed

text \<open>
  Claim C8, as stated, has the third raw scale axis of a primitive of type 1 equal to the
  second, and that of a primitive of type 0 fixed small. On a cloud of two points, the
  first of type 1 and the second of type 0, both with squared neighbour distance 1/5000,
  \<open>create_from_pcd\<close> gives the first the raw scales \<open>(ln 0.01, ln 0.01, ln 0.001)\<close>, its third
  axis other than the second, and the second \<open>(ln 0.01, ln 0.01, ln 0.01)\<close>: the mask of the
  assignment is \<open>_type == 0\<close>.
\<close>

theorem initial_scale_by_type_counterexample:
  "types demo_pcd = [Fin 1, Fin 0] \<and>
   create_from_pcd demo_dist demo_cross demo_quat demo_logit demo_pcd (Fin 1) (init 0)
     = Some demo_created \<and>
   ptype demo_created = [Fin 1, Fin 0] \<and>
   scaling demo_created = [[Fin (ln (1 / 100)), Fin (ln (1 / 100)), Fin (ln (1 / 1000))],
                           [Fin (ln (1 / 100)), Fin (ln (1 / 100)), Fin (ln (1 / 100))]] \<and>
   scaling demo_created ! 0 ! 2 \<noteq> scaling demo_created ! 0 ! 1 \<and>
   scaling demo_created ! 1 ! 2 = scaling demo_created ! 1 ! 1"
proof -
  have "ln (1 / 1000) \<noteq> ln (1 / 100 :: real)" by (simp add: ln_div)
  thus ?thesis
    using demo_created_Some by (simp add: demo_created_fields demo_pcd_def)
qed

text \<open>
  Claim C8, amended. On a cloud with one type, one squared neighbour distance and one normal
  per point, \<open>create_from_pcd\<close> succeeds and keeps the types; with
  \<open>a = log (sqrt (clamp(dist2, 1e-7, 0.01) / 2))\<close> for the point, a primitive of type 0 has the
  raw scales \<open>(a, a, a)\<close>, its third axis set to the second, and a primitive of any other type
  has \<open>(a, a, log 0.001)\<close>, its third axis fixed small.
\<close>

theorem initial_scale_by_type:
  assumes "length (types pcd) = length (points pcd)"
    and "length (distCUDA2 (points pcd)) = length (points pcd)"
    and "length (normals pcd) = length (points pcd)"
    and "\<forall>a b. length a = length b \<longrightarrow> length (cross a b) = length a"
  shows "\<exists>s'. create_from_pcd distCUDA2 cross as_quat inverse_sigmoid pcd lr_scale s = Some s' \<and>
     ptype s' = types pcd \<and> length (scaling s') = length (points pcd) \<and>
     (\<forall>i<length (points pcd).
        scaling s' ! i =
          (if feq (ptype s' ! i) (Fin 0)
           then [initial_axis (distCUDA2 (points pcd) ! i),
                 initial_axis (distCUDA2 (points pcd) ! i),
                 initial_axis (distCUDA2 (points pcd) ! i)]
           else [initial_axis (distCUDA2 (points pcd) ! i),
                 initial_axis (distCUDA2 (points pcd) ! i), flog (Fin 0.001)]))"
proof -
  from create_from_pcd_Some[of pcd distCUDA2 cross as_quat inverse_sigmoid lr_scale s] assms
  obtain s' where
    c: "create_from_pcd distCUDA2 cross as_quat inverse_sigmoid pcd lr_scale s = Some s'"
    by blast
  note r = create_from_pcd_scaling[OF c assms(1,2)]
  have "length (scaling s') = length (points pcd)" unfolding r(1) using assms(1,2) by simp
  moreover have "\<forall>i<length (points pcd).
        scaling s' ! i =
          (if feq (ptype s' ! i) (Fin 0)
           then [initial_axis (distCUDA2 (points pcd) ! i),
                 initial_axis (distCUDA2 (points pcd) ! i),
                 initial_axis (distCUDA2 (points pcd) ! i)]
           else [initial_axis (distCUDA2 (points pcd) ! i),
                 initial_axis (distCUDA2 (points pcd) ! i), flog (Fin 0.001)])"
    unfolding r(1) r(2) using assms(1,2) by (simp del: flog.simps)
  ultimately show ?thesis using c r(2) by blast
qed

theorem initial_scale_by_type_witness:
  "length (types demo_pcd) = length (points demo_pcd) \<and>
   length (demo_dist (points demo_pcd)) = length (points demo_pcd) \<and>
   length (normals demo_pcd) = length (points demo_pcd) \<and>
   length (demo_cross (normals demo_pcd) (normals demo_pcd)) = length (normals demo_pcd) \<and>
   (\<exists>s'. create_from_pcd demo_dist demo_cross demo_quat demo_logit demo_pcd (Fin 1) (init 0)
            = Some s' \<and>
      ptype s' = [Fin 1, Fin 0] \<and>
      scaling s' ! 0 = [Fin (ln (1 / 100)), Fin (ln (1 / 100)), Fin (ln (1 / 1000))] \<and>
      scaling s' ! 1 = [Fin (ln (1 / 100)), Fin (ln (1 / 100)), Fin (ln (1 / 100))])"
proof -
  from initial_scale_by_type[of demo_pcd demo_dist demo_cross demo_quat demo_logit
      "Fin 1" "init 0"] demo_pcd_lengths demo_cross_length
  obtain s' where s': "create_from_pcd demo_dist demo_cross demo_quat demo_logit demo_pcd (Fin 1)
      (init 0) = Some s'" "ptype s' = types demo_pcd"
    "\<forall>i<length (points demo_pcd).
        scaling s' ! i =
          (if feq (ptype s' ! i) (Fin 0)
           then [initial_axis (demo_dist (points demo_pcd) ! i),
                 initial_axis (demo_dist (points demo_pcd) ! i),
                 initial_axis (demo_dist (points demo_pcd) ! i)]
           else [initial_axis (demo_dist (points demo_pcd) ! i),
                 initial_axis (demo_dist (points demo_pcd) ! i), flog (Fin 0.001)])"
    by blast
  have n: "length (points demo_pcd) = 2" by (simp add: demo_pcd_def)
  have d: "demo_dist (points demo_pcd) = [Fin (1 / 5000), Fin (1 / 5000)]"
    by (simp add: demo_dist_def demo_pcd_def)
  have t: "ptype s' = [Fin 1, Fin 0]" unfolding s'(2) by (simp add: demo_pcd_def)
  from s'(3) n have "scaling s' ! 0 = (if feq (ptype s' ! 0) (Fin 0)
           then [initial_axis (demo_dist (points demo_pcd) ! 0),
                 initial_axis (demo_dist (points demo_pcd) ! 0),
                 initial_axis (demo_dist (points demo_pcd) ! 0)]
           else [initial_axis (demo_dist (points demo_pcd) ! 0),
                 initial_axis (demo_dist (points demo_pcd) ! 0), flog (Fin 0.001)])"
    by simp
  hence a: "scaling s' ! 0 = [Fin (ln (1 / 100)), Fin (ln (1 / 100)), Fin (ln (1 / 1000))]"
    unfolding t d by (simp add: feq_def initial_axis_demo)
  from s'(3) n have "scaling s' ! 1 = (if feq (ptype s' ! 1) (Fin 0)
           then [initial_axis (demo_dist (points demo_pcd) ! 1),
                 initial_axis (demo_dist (points demo_pcd) ! 1),
                 initial_axis (demo_dist (points demo_pcd) ! 1)]
           else [initial_axis (demo_dist (points demo_pcd) ! 1),
                 initial_axis (demo_dist (points demo_pcd) ! 1), flog (Fin 0.001)])"
    by simp
  hence b: "scaling s' ! 1 = [Fin (ln (1 / 100)), Fin (ln (1 / 100)), Fin (ln (1 / 100))]"
    unfolding t d by (simp add: feq_def initial_axis_demo)
  show ?thesis
    using s'(1) t a b demo_pcd_lengths demo_cross_length by auto
qed

text \<open>
  Claim C10. A store that \<open>create_from_pcd\<close> has filled holds \<open>None\<close> as its normal, and
  \<open>save_ply\<close> on it raises. So it does after any run of \<open>training_setup\<close>,
  \<open>add_densification_stats\<close>, clone, split and prune operations from there: none of them
  assigns the normal. Whenever \<open>save_ply\<close> returns a file the normal is a numpy array, and
  a \<open>densify_and_prune\<close> that returns has stored one, the normals estimated for the
  positions it leaves.
\<close>

theorem save_ply_needs_normals:
  assumes "create_from_pcd distCUDA2 cross as_quat inverse_sigmoid pcd lr_scale s0 = Some s"
    and "run_window ops s = Some s'"
  shows "normal s = PyNone \<and> save_ply s = None \<and> normal s' = PyNone \<and> save_ply s' = None \<and>
     (\<forall>t f. save_ply t = Some f \<longrightarrow> (\<exists>n. normal t = NumpyArray n)) \<and>
     (\<forall>build_rotation smp estimate_normals max_grad min_opacity extent max_screen_size t.
        densify_and_prune build_rotation smp estimate_normals max_grad min_opacity extent
          max_screen_size s' = Some t \<longrightarrow> normal t = NumpyArray (estimate_normals (xyz t)))"
proof -
  have 1: "normal s = PyNone" by (rule create_from_pcd_normal[OF assms(1)])
  have 2: "normal s' = PyNone" using normal_run_window[OF assms(2)] 1 by simp
  have 3: "save_ply s = None" "save_ply s' = None"
    using 1 2 by (simp_all add: save_ply_no_array)
  show ?thesis
    using 1 2 3 save_ply_SomeD normal_densify_and_prune by blast
qed

theorem save_ply_needs_normals_witness:
  "create_from_pcd demo_dist demo_cross demo_quat demo_logit demo_pcd (Fin 1) (init 0)
     = Some demo_created \<and>
   run_window [Setup demo_args] demo_created = Some demo_trained \<and>
   normal demo_created = PyNone \<and> save_ply demo_created = None \<and>
   save_ply demo_trained = None \<and>
   densify_and_prune demo_rotation demo_sampler demo_normals PInf (Fin 0) (Fin 10) None
     demo_trained = Some demo_densified \<and>
   normal demo_densified = NumpyArray [[Fin 0, Fin 0, Fin 1], [Fin 0, Fin 0, Fin 1]] \<and>
   (\<exists>f. save_ply demo_densified = Some f \<and>
        properties f = [''x'', ''y'', ''z'', ''nx'', ''ny'', ''nz'', ''f_dc_0'', ''f_dc_1'',
                         ''f_dc_2'', ''opacity'', ''scale_0'', ''scale_1'', ''scale_2'',
                         ''rot_0'', ''rot_1'', ''rot_2'', ''rot_3'', ''type''] \<and>
        length (vertices f) = 2)"
proof -
  have r: "run_window [Setup demo_args] demo_created = Some demo_trained"
    by (simp add: demo_trained_def)
  from save_ply_needs_normals[OF demo_created_Some r]
  have "normal demo_created = PyNone" "save_ply demo_created = None"
    "save_ply demo_trained = None"
    by blast+
  thus ?thesis
    using demo_created_Some r demo_densified_Some(1,4) save_ply_demo_densified by simp
qed

end
